theory Spec2Isabelle
  imports Complex_Main "HOL-Library.Word"
begin

section \<open>IEEE-754 binary32 values\<close>

text \<open>
  A C++ \<open>float\<close> is modelled by its 32-bit pattern. The header moves between the two views
  with \<open>memcpy\<close> (\<open>to_uint\<close>, \<open>to_float\<close>) and through the unions of \<open>AABB\<close>, so both
  conversions are the identity on the bit pattern.
\<close>

type_synonym float32 = "32 word"

definition to_uint :: "float32 \<Rightarrow> 32 word" where
  "to_uint f = f"

definition to_float :: "32 word \<Rightarrow> float32" where
  "to_float ui = ui"

text \<open>Bit 31 is the sign, bits 30..23 the biased exponent, bits 22..0 the fraction.\<close>

definition sign_bit :: "float32 \<Rightarrow> bool" where
  "sign_bit f = (2 ^ 31 \<le> unat f)"

definition biased_exp :: "float32 \<Rightarrow> nat" where
  "biased_exp f = (unat f div 2 ^ 23) mod 256"

definition mantissa :: "float32 \<Rightarrow> nat" where
  "mantissa f = unat f mod 2 ^ 23"

definition is_nan :: "float32 \<Rightarrow> bool" where
  "is_nan f = (biased_exp f = 255 \<and> mantissa f \<noteq> 0)"

definition is_inf :: "float32 \<Rightarrow> bool" where
  "is_inf f = (biased_exp f = 255 \<and> mantissa f = 0)"

definition is_finite :: "float32 \<Rightarrow> bool" where
  "is_finite f = (biased_exp f < 255)"

definition is_zero :: "float32 \<Rightarrow> bool" where
  "is_zero f = (biased_exp f = 0 \<and> mantissa f = 0)"

text \<open>
  Every finite binary32 value is a whole multiple of \<open>2^-149\<close>: \<open>scaled_mag\<close> is that
  multiple, \<open>m\<close> for a subnormal and \<open>(2^23 + m) * 2^(e - 1)\<close> for a normal number,
  which is \<open>(1 + m / 2^23) * 2^(e - 127)\<close> scaled by \<open>2^149\<close>.
  At the exponent 255 with fraction 0 the same formula gives \<open>2^128\<close>, one binade above
  the largest finite value: \<open>valof\<close> places the infinities there, so that the order of
  \<open>valof\<close> is the IEEE order on everything that is not a NaN.
\<close>

definition scaled_mag :: "nat \<Rightarrow> nat \<Rightarrow> nat" where
  "scaled_mag e m = (if e = 0 then m else (2 ^ 23 + m) * 2 ^ (e - 1))"

definition valof :: "float32 \<Rightarrow> real" where
  "valof f = (if sign_bit f then - 1 else 1)
               * real (scaled_mag (biased_exp f) (mantissa f)) / 2 ^ 149"

text \<open>The comparisons of IEEE-754: false as soon as one operand is a NaN; \<open>-0 = +0\<close>.\<close>

definition flt_less :: "float32 \<Rightarrow> float32 \<Rightarrow> bool" where
  "flt_less a b = (\<not> is_nan a \<and> \<not> is_nan b \<and> valof a < valof b)"

definition flt_le :: "float32 \<Rightarrow> float32 \<Rightarrow> bool" where
  "flt_le a b = (\<not> is_nan a \<and> \<not> is_nan b \<and> valof a \<le> valof b)"

definition flt_eq :: "float32 \<Rightarrow> float32 \<Rightarrow> bool" where
  "flt_eq a b = (\<not> is_nan a \<and> \<not> is_nan b \<and> valof a = valof b)"

text \<open>Named bit patterns.\<close>

definition plus_zero :: float32 where "plus_zero = 0x00000000"
definition minus_zero :: float32 where "minus_zero = 0x80000000"
definition plus_inf :: float32 where "plus_inf = 0x7F800000"
definition minus_inf :: float32 where "minus_inf = 0xFF800000"
definition quiet_nan :: float32 where "quiet_nan = 0x7FC00000"

text \<open>
  The three constants of the header: \<open>std::numeric_limits<float>::max()\<close>,
  \<open>std::numeric_limits<float>::lowest()\<close> and \<open>std::numeric_limits<uint32_t>::max()\<close>.
\<close>

definition maximum :: float32 where "maximum = 0x7F7FFFFF"
definition minimum :: float32 where "minimum = 0xFF7FFFFF"
definition invalid :: "32 word" where "invalid = 0xFFFFFFFF"

text \<open>
  \<open>glm::min(x, y)\<close> is \<open>(y < x) ? y : x\<close> and \<open>glm::max(x, y)\<close> is \<open>(x < y) ? y : x\<close>,
  as \<open>std::min\<close> and \<open>std::max\<close> are: the first argument is returned whenever the
  comparison is false, so also when one of the two is a NaN.
\<close>

definition glm_min :: "float32 \<Rightarrow> float32 \<Rightarrow> float32" where
  "glm_min a b = (if flt_less b a then b else a)"

definition glm_max :: "float32 \<Rightarrow> float32 \<Rightarrow> float32" where
  "glm_max a b = (if flt_less a b then b else a)"

subsection \<open>Rounding and arithmetic\<close>

text \<open>
  The arithmetic is that of IEEE-754 binary32 in its default mode: every operation is
  rounded once, to nearest with ties to even, subnormal results are kept, and an
  overflow gives an infinity.

  Round to nearest, ties to even, on magnitudes. The magnitude \<open>r \<ge> 0\<close> is scaled by
  \<open>2^149\<close>; \<open>norm_shift\<close> finds how many low bits of its integer part do not fit into
  the 24-bit significand, \<open>t\<close> is the significand that is left, and the 31 low bits of the
  result are \<open>sh * 2^23 + t\<close>: for \<open>sh = 0\<close> a subnormal or a number of the first binade,
  otherwise the exponent field \<open>sh + 1\<close> with the fraction \<open>t - 2^23\<close>. What was cut off
  decides between this pattern and the next one; the next pattern of the largest finite
  number is that of infinity, and nothing goes beyond it.
\<close>

function norm_shift :: "nat \<Rightarrow> nat" where
  "norm_shift n = (if n < 2 ^ 24 then 0 else Suc (norm_shift (n div 2)))"
  by pat_completeness auto
termination
  by (relation "measure (\<lambda>n. n)") auto

declare norm_shift.simps [simp del]

definition inf_mag :: nat where
  "inf_mag = 255 * 2 ^ 23"

definition round_mag :: "real \<Rightarrow> nat" where
  "round_mag r =
     (let q = r * 2 ^ 149;
          n = nat \<lfloor>q\<rfloor>;
          sh = norm_shift n;
          t = n div 2 ^ sh;
          k = sh * 2 ^ 23 + t;
          cut = q - real (t * 2 ^ sh);
          half = 2 ^ sh / 2
      in min inf_mag (if cut < half \<or> (cut = half \<and> even t) then k else k + 1))"

definition pack_float :: "bool \<Rightarrow> nat \<Rightarrow> float32" where
  "pack_float negative k = word_of_nat ((if negative then 2 ^ 31 else 0) + k)"

text \<open>
  The operations on two floats. A NaN operand or an invalid operation (\<open>inf - inf\<close>,
  \<open>0 * inf\<close>, \<open>0 / 0\<close>, \<open>inf / inf\<close>) gives a NaN; IEEE-754 leaves its payload to the
  platform, the model returns \<open>quiet_nan\<close> and nothing below depends on the payload.
  A zero result of a subtraction is \<open>+0\<close> except for \<open>(-0) - (+0)\<close>; products and
  quotients carry the exclusive or of the signs, also when they are zero or infinite.
\<close>

definition fsub :: "float32 \<Rightarrow> float32 \<Rightarrow> float32" where
  "fsub a b =
     (if is_nan a \<or> is_nan b then quiet_nan
      else if is_inf a then (if is_inf b \<and> sign_bit a = sign_bit b then quiet_nan else a)
      else if is_inf b then pack_float (\<not> sign_bit b) inf_mag
      else let r = valof a - valof b in
        if r = 0 then pack_float (sign_bit a \<and> \<not> sign_bit b) 0
        else pack_float (r < 0) (round_mag \<bar>r\<bar>))"

definition fmul :: "float32 \<Rightarrow> float32 \<Rightarrow> float32" where
  "fmul a b =
     (if is_nan a \<or> is_nan b then quiet_nan
      else if (is_inf a \<and> is_zero b) \<or> (is_zero a \<and> is_inf b) then quiet_nan
      else if is_inf a \<or> is_inf b then pack_float (sign_bit a \<noteq> sign_bit b) inf_mag
      else pack_float (sign_bit a \<noteq> sign_bit b) (round_mag (\<bar>valof a\<bar> * \<bar>valof b\<bar>)))"

definition fdiv :: "float32 \<Rightarrow> float32 \<Rightarrow> float32" where
  "fdiv a b =
     (if is_nan a \<or> is_nan b then quiet_nan
      else if (is_inf a \<and> is_inf b) \<or> (is_zero a \<and> is_zero b) then quiet_nan
      else if is_inf a \<or> is_zero b then pack_float (sign_bit a \<noteq> sign_bit b) inf_mag
      else if is_inf b then pack_float (sign_bit a \<noteq> sign_bit b) 0
      else pack_float (sign_bit a \<noteq> sign_bit b) (round_mag (\<bar>valof a\<bar> / \<bar>valof b\<bar>)))"

text \<open>
  The conversion \<open>(uint32_t)x\<close> truncates towards zero. It is undefined when the
  truncated value does not fit the target type, so for a NaN, an infinity, a value of
  \<open>2^32\<close> or more and a value of \<open>-1\<close> or less: \<open>None\<close>.
\<close>

definition float_to_uint32 :: "float32 \<Rightarrow> 32 word option" where
  "float_to_uint32 f =
     (if is_nan f \<or> is_inf f then None
      else let t = (if 0 \<le> valof f then \<lfloor>valof f\<rfloor> else \<lceil>valof f\<rceil>) in
        if 0 \<le> t \<and> t < 2 ^ 32 then Some (word_of_int t) else None)"

section \<open>Vectors and boxes\<close>

record vec3 =
  vx :: float32
  vy :: float32
  vz :: float32

definition vec3_splat :: "float32 \<Rightarrow> vec3" where
  "vec3_splat s = \<lparr>vx = s, vy = s, vz = s\<rparr>"

text \<open>Component \<open>i\<close> of a vector; the header only ever indexes with 0, 1 and 2.\<close>

definition vec3_get :: "vec3 \<Rightarrow> nat \<Rightarrow> float32" where
  "vec3_get v i = (if i = 0 then vx v else if i = 1 then vy v else vz v)"

definition vec3_set :: "vec3 \<Rightarrow> nat \<Rightarrow> float32 \<Rightarrow> vec3" where
  "vec3_set v i s = (if i = 0 then v\<lparr>vx := s\<rparr> else if i = 1 then v\<lparr>vy := s\<rparr> else v\<lparr>vz := s\<rparr>)"

definition vec3_map2 :: "(float32 \<Rightarrow> float32 \<Rightarrow> float32) \<Rightarrow> vec3 \<Rightarrow> vec3 \<Rightarrow> vec3" where
  "vec3_map2 g a b = \<lparr>vx = g (vx a) (vx b), vy = g (vy a) (vy b), vz = g (vz a) (vz b)\<rparr>"

definition vec3_all :: "(float32 \<Rightarrow> bool) \<Rightarrow> vec3 \<Rightarrow> bool" where
  "vec3_all P v = (P (vx v) \<and> P (vy v) \<and> P (vz v))"

definition vec3_all2 :: "(float32 \<Rightarrow> float32 \<Rightarrow> bool) \<Rightarrow> vec3 \<Rightarrow> vec3 \<Rightarrow> bool" where
  "vec3_all2 P a b = (P (vx a) (vx b) \<and> P (vy a) (vy b) \<and> P (vz a) (vz b))"

text \<open>
  \<open>struct AABB\<close>: each of \<open>Min\<close> and \<open>Max\<close> is a union of a \<open>glm::vec3\<close> with three
  \<open>std::atomic<uint32_t>\<close>, so the atomic view of a component is its bit pattern.
\<close>

record AABB =
  Min_vec :: vec3
  Max_vec :: vec3

subsection \<open>The compare-exchange loops\<close>

text \<open>
  \<open>compare_exchange_weak\<close> on one atomic cell, as seen by the one thread that runs the
  call. It fails when the cell differs from the expected value, and it may also fail
  spuriously. The schedule says, attempt by attempt, whether an attempt that finds the
  expected value fails all the same (\<open>True\<close>); when the schedule is used up every such
  attempt succeeds. On failure the expected value is reloaded from the cell. The result is
  (success, cell, expected, rest of the schedule).
\<close>

definition compare_exchange_weak ::
  "bool list \<Rightarrow> 32 word \<Rightarrow> 32 word \<Rightarrow> 32 word \<Rightarrow> bool \<times> 32 word \<times> 32 word \<times> bool list" where
  "compare_exchange_weak sched cell expected desired =
     (if cell \<noteq> expected then (False, cell, cell, sched)
      else case sched of
             [] \<Rightarrow> (True, desired, expected, [])
           | spurious # rest \<Rightarrow>
               if spurious then (False, cell, cell, rest) else (True, desired, expected, rest))"

text \<open>
  \<open>while (old_value > value && !min_value.compare_exchange_weak(old_value, value)) {}\<close>
  with the cell and the schedule passed through.
\<close>

function update_min_loop ::
  "bool list \<Rightarrow> 32 word \<Rightarrow> 32 word \<Rightarrow> 32 word \<Rightarrow> 32 word \<times> bool list" where
  "update_min_loop sched min_value old_value v =
     (if v < old_value then
        (case compare_exchange_weak sched min_value old_value v of
           (ok, cell, old', sched') \<Rightarrow>
             if ok then (cell, sched') else update_min_loop sched' cell old' v)
      else (min_value, sched))"
  by pat_completeness auto
termination
  by (relation "measure (\<lambda>(sched, cell, old, v). 2 * length sched + (if cell = old then 0 else 1))")
     (auto simp: compare_exchange_weak_def split: if_splits list.splits)

function update_max_loop ::
  "bool list \<Rightarrow> 32 word \<Rightarrow> 32 word \<Rightarrow> 32 word \<Rightarrow> 32 word \<times> bool list" where
  "update_max_loop sched max_value old_value v =
     (if old_value < v then
        (case compare_exchange_weak sched max_value old_value v of
           (ok, cell, old', sched') \<Rightarrow>
             if ok then (cell, sched') else update_max_loop sched' cell old' v)
      else (max_value, sched))"
  by pat_completeness auto
termination
  by (relation "measure (\<lambda>(sched, cell, old, v). 2 * length sched + (if cell = old then 0 else 1))")
     (auto simp: compare_exchange_weak_def split: if_splits list.splits)

declare update_min_loop.simps [simp del] update_max_loop.simps [simp del]

text \<open>\<open>uint32_t old_value = min_value;\<close> then the loop.\<close>

definition update_min :: "bool list \<Rightarrow> 32 word \<Rightarrow> 32 word \<Rightarrow> 32 word \<times> bool list" where
  "update_min sched min_value v = update_min_loop sched min_value min_value v"

definition update_max :: "bool list \<Rightarrow> 32 word \<Rightarrow> 32 word \<Rightarrow> 32 word \<times> bool list" where
  "update_max sched max_value v = update_max_loop sched max_value max_value v"

subsection \<open>The loops among other threads\<close>

text \<open>
  The same two loops while other threads expand the same box. Every other writer of an
  \<open>AtomicMin\<close> cell is then a call of \<open>update_min\<close>, which stores its argument \<open>w\<close> only
  when \<open>w\<close> is below the value in the cell: between two reads of the cell by this thread
  the others turn the cell \<open>c\<close> into \<open>min c w\<close>, with \<open>w\<close> the least of their arguments
  (\<open>max c w\<close> for an \<open>AtomicMax\<close> cell and \<open>update_max\<close>). An environment says, attempt by
  attempt, what happens between the previous read of the cell and the compare-exchange:
  nothing (\<open>Quiet\<close>), a spurious failure of the compare-exchange (\<open>Spurious\<close>), or updates
  by other threads (\<open>Other w\<close>). It is an infinite sequence, so nothing bounds the number of
  failures in advance.
\<close>

datatype cas_event = Quiet | Spurious | Other "32 word"

definition disturbed_min :: "cas_event \<Rightarrow> 32 word \<Rightarrow> 32 word" where
  "disturbed_min ev cell = (case ev of Other w \<Rightarrow> min cell w | _ \<Rightarrow> cell)"

definition disturbed_max :: "cas_event \<Rightarrow> 32 word \<Rightarrow> 32 word" where
  "disturbed_max ev cell = (case ev of Other w \<Rightarrow> max cell w | _ \<Rightarrow> cell)"

text \<open>
  \<open>compare_exchange_weak(expected, desired)\<close> on the cell as the attempt finds it. It fails
  when the cell differs from the expected value or when the failure is spurious, and then
  reloads the expected value from the cell; otherwise it stores the desired value. The
  result is (success, cell, expected).
\<close>

definition compare_exchange_weak_among ::
  "cas_event \<Rightarrow> 32 word \<Rightarrow> 32 word \<Rightarrow> 32 word \<Rightarrow> bool \<times> 32 word \<times> 32 word" where
  "compare_exchange_weak_among ev cell expected desired =
     (if cell \<noteq> expected \<or> ev = Spurious then (False, cell, cell)
      else (True, desired, expected))"

text \<open>
  \<open>while (old_value > value && !min_value.compare_exchange_weak(old_value, value)) {}\<close>
  from attempt number \<open>t\<close> on. The loop need not return: the result is \<open>None\<close> when it
  runs forever, and otherwise the cell on exit with the number of the next attempt.
\<close>

partial_function (option) update_min_loop_among ::
  "(nat \<Rightarrow> cas_event) \<Rightarrow> nat \<Rightarrow> 32 word \<Rightarrow> 32 word \<Rightarrow> 32 word \<Rightarrow> (32 word \<times> nat) option" where
  "update_min_loop_among env t min_value old_value v =
     (if v < old_value then
        (let r = compare_exchange_weak_among (env t) (disturbed_min (env t) min_value) old_value v in
         if fst r then Some (fst (snd r), Suc t)
         else update_min_loop_among env (Suc t) (fst (snd r)) (snd (snd r)) v)
      else Some (min_value, t))"

partial_function (option) update_max_loop_among ::
  "(nat \<Rightarrow> cas_event) \<Rightarrow> nat \<Rightarrow> 32 word \<Rightarrow> 32 word \<Rightarrow> 32 word \<Rightarrow> (32 word \<times> nat) option" where
  "update_max_loop_among env t max_value old_value v =
     (if old_value < v then
        (let r = compare_exchange_weak_among (env t) (disturbed_max (env t) max_value) old_value v in
         if fst r then Some (fst (snd r), Suc t)
         else update_max_loop_among env (Suc t) (fst (snd r)) (snd (snd r)) v)
      else Some (max_value, t))"

text \<open>\<open>uint32_t old_value = min_value;\<close> then the loop.\<close>

definition update_min_among ::
  "(nat \<Rightarrow> cas_event) \<Rightarrow> nat \<Rightarrow> 32 word \<Rightarrow> 32 word \<Rightarrow> (32 word \<times> nat) option" where
  "update_min_among env t min_value v = update_min_loop_among env t min_value min_value v"

definition update_max_among ::
  "(nat \<Rightarrow> cas_event) \<Rightarrow> nat \<Rightarrow> 32 word \<Rightarrow> 32 word \<Rightarrow> (32 word \<times> nat) option" where
  "update_max_among env t max_value v = update_max_loop_among env t max_value max_value v"

text \<open>
  What the other threads alone make of a cell during the \<open>n\<close> attempts from attempt \<open>t\<close>
  on: the minimum (maximum) of the cell and of the arguments of their updates.
\<close>

fun others_min :: "(nat \<Rightarrow> cas_event) \<Rightarrow> nat \<Rightarrow> nat \<Rightarrow> 32 word \<Rightarrow> 32 word" where
  "others_min env t 0 cell = cell"
| "others_min env t (Suc n) cell = others_min env (Suc t) n (disturbed_min (env t) cell)"

fun others_max :: "(nat \<Rightarrow> cas_event) \<Rightarrow> nat \<Rightarrow> nat \<Rightarrow> 32 word \<Rightarrow> 32 word" where
  "others_max env t 0 cell = cell"
| "others_max env t (Suc n) cell = others_max env (Suc t) n (disturbed_max (env t) cell)"

text \<open>
  No spurious failure from attempt \<open>N\<close> on; no update by another thread at all. An
  environment in which every attempt fails spuriously; one with a spurious failure, then
  an update to 4 by another thread, then nothing; one with a single spurious failure.
\<close>

definition spurious_stops :: "nat \<Rightarrow> (nat \<Rightarrow> cas_event) \<Rightarrow> bool" where
  "spurious_stops N env = (\<forall>t\<ge>N. env t \<noteq> Spurious)"

definition alone :: "(nat \<Rightarrow> cas_event) \<Rightarrow> bool" where
  "alone env = (\<forall>t w. env t \<noteq> Other w)"

definition always_spurious :: "nat \<Rightarrow> cas_event" where
  "always_spurious t = Spurious"

definition busy_env :: "nat \<Rightarrow> cas_event" where
  "busy_env t = (if t = 0 then Spurious else if t = 1 then Other 4 else Quiet)"

definition hiccup_env :: "nat \<Rightarrow> cas_event" where
  "hiccup_env t = (if t = 0 then Spurious else Quiet)"

subsection \<open>Operations of the box\<close>

definition Initialize :: "AABB \<Rightarrow> AABB" where
  "Initialize this = this\<lparr>Min_vec := vec3_splat maximum, Max_vec := vec3_splat minimum\<rparr>"

text \<open>\<open>Expand(const glm::vec3 &p)\<close>: \<open>Min = glm::min(p, Min); Max = glm::max(p, Max);\<close>\<close>

definition Expand_point :: "AABB \<Rightarrow> vec3 \<Rightarrow> AABB" where
  "Expand_point this p =
     this\<lparr>Min_vec := vec3_map2 glm_min p (Min_vec this),
          Max_vec := vec3_map2 glm_max p (Max_vec this)\<rparr>"

text \<open>
  \<open>Expand(const AABB &box)\<close>: one round of the loop over \<open>i\<close>, then the loop itself over
  0, 1, 2. The state is the box being expanded and the schedule.
\<close>

definition Expand_axis :: "AABB \<Rightarrow> nat \<Rightarrow> AABB \<times> bool list \<Rightarrow> AABB \<times> bool list" where
  "Expand_axis box i st =
     (case st of (this, sched) \<Rightarrow>
        (case update_min sched (vec3_get (Min_vec this) i) (vec3_get (Min_vec box) i) of
           (lo, sched1) \<Rightarrow>
             (case update_max sched1 (vec3_get (Max_vec this) i) (vec3_get (Max_vec box) i) of
                (hi, sched2) \<Rightarrow>
                  (this\<lparr>Min_vec := vec3_set (Min_vec this) i lo,
                        Max_vec := vec3_set (Max_vec this) i hi\<rparr>, sched2))))"

definition Expand_box :: "bool list \<Rightarrow> AABB \<Rightarrow> AABB \<Rightarrow> AABB \<times> bool list" where
  "Expand_box sched this box = fold (Expand_axis box) [0, 1, 2] (this, sched)"

text \<open>\<open>Nomalize(p)\<close>: \<open>(p - Min) / (Max - Min)\<close>, component by component.\<close>

definition Nomalize :: "AABB \<Rightarrow> vec3 \<Rightarrow> vec3" where
  "Nomalize this p =
     vec3_map2 fdiv (vec3_map2 fsub p (Min_vec this))
       (vec3_map2 fsub (Max_vec this) (Min_vec this))"

subsection \<open>Rays and the slab test\<close>

text \<open>
  \<open>struct MiniRay\<close> has two data members, \<open>Position\<close> and \<open>Direction\<close>. Its third member,
  \<open>Inverse\<close>, is declared \<open>static thread_local\<close>: there is one such vector per thread,
  not one per ray, and \<open>ray.Inverse\<close> names it whatever \<open>ray\<close> is. It is the only
  variable of that kind, so the state of a thread is this vector.
\<close>

record MiniRay =
  Position :: vec3
  Direction :: vec3

record thread_locals =
  Inverse :: vec3

text \<open>The assignment \<open>ray.Inverse = v\<close>, run by the thread that owns the state.\<close>

definition set_Inverse :: "thread_locals \<Rightarrow> MiniRay \<Rightarrow> vec3 \<Rightarrow> thread_locals" where
  "set_Inverse tls ray v = tls\<lparr>Inverse := v\<rparr>"

text \<open>
  One line of the slab test:
  \<open>((0 < ray.Inverse.x ? first : second) - ray.Position.x) * ray.Inverse.x\<close>.
\<close>

definition slab :: "float32 \<Rightarrow> float32 \<Rightarrow> float32 \<Rightarrow> float32 \<Rightarrow> float32" where
  "slab rcp first second pos = fmul (fsub (if flt_less plus_zero rcp then first else second) pos) rcp"

text \<open>
  \<open>bool Intersect(const MiniRay &ray, float &min, const float length) const\<close>. The
  reference parameter \<open>min\<close> is only written, so it is a second result: the function
  returns (value left in \<open>min\<close>, returned flag).
\<close>

definition Intersect :: "thread_locals \<Rightarrow> AABB \<Rightarrow> MiniRay \<Rightarrow> float32 \<Rightarrow> float32 \<times> bool" where
  "Intersect tls this ray len =
     (let rcp = Inverse tls; pos = Position ray; lo = Min_vec this; hi = Max_vec this;
          x = slab (vx rcp) (vx lo) (vx hi) (vx pos);
          y = slab (vy rcp) (vy lo) (vy hi) (vy pos);
          z = slab (vz rcp) (vz lo) (vz hi) (vz pos);
          min_out = glm_max z (glm_max x y);
          x' = slab (vx rcp) (vx hi) (vx lo) (vx pos);
          y' = slab (vy rcp) (vy hi) (vy lo) (vy pos);
          z' = slab (vz rcp) (vz hi) (vz lo) (vz pos);
          max_t = glm_min z' (glm_min x' y')
      in (min_out, flt_le min_out max_t \<and> flt_less plus_zero max_t \<and> flt_less min_out len))"

text \<open>
  The local \<open>max\<close> of \<open>Intersect\<close>: the second group of three lines and
  \<open>const auto max = glm::min(z, glm::min(x, y));\<close>.
\<close>

definition Intersect_max :: "thread_locals \<Rightarrow> AABB \<Rightarrow> MiniRay \<Rightarrow> float32" where
  "Intersect_max tls this ray =
     (let rcp = Inverse tls; pos = Position ray; lo = Min_vec this; hi = Max_vec this;
          x = slab (vx rcp) (vx hi) (vx lo) (vx pos);
          y = slab (vy rcp) (vy hi) (vy lo) (vy pos);
          z = slab (vz rcp) (vz hi) (vz lo) (vz pos)
      in glm_min z (glm_min x y))"

subsection \<open>Nodes\<close>

text \<open>
  \<open>Node() : L(invalid), R(invalid)\<close>, whose body stores the integer 0 into the three
  atomic views of \<open>Box.Max\<close> and \<open>to_uint(maximum)\<close> into those of \<open>Box.Min\<close>.
\<close>

record Node =
  Box :: AABB
  L :: "32 word"
  R :: "32 word"

definition Node_new :: Node where
  "Node_new =
     \<lparr>Box = \<lparr>Min_vec = vec3_splat (to_float (to_uint maximum)),
              Max_vec = vec3_splat (to_float 0)\<rparr>,
      L = invalid, R = invalid\<rparr>"

subsection \<open>Morton codes\<close>

unbundle bit_operations_syntax

definition expandBits :: "32 word \<Rightarrow> 32 word" where
  "expandBits v0 =
     (let v1 = (v0 * 0x00010001) AND 0xFF0000FF;
          v2 = (v1 * 0x00000101) AND 0x0F00F00F;
          v3 = (v2 * 0x00000011) AND 0xC30C30C3;
          v4 = (v3 * 0x00000005) AND 0x49249249
      in v4)"

text \<open>\<open>std::min(std::max(x * 1024.0f, 0.0f), 1023.0f)\<close>\<close>

definition float_1024 :: float32 where "float_1024 = 0x44800000"
definition float_1023 :: float32 where "float_1023 = 0x447FC000"

definition morton_clamp :: "float32 \<Rightarrow> float32" where
  "morton_clamp x = glm_min (glm_max (fmul x float_1024) plus_zero) float_1023"

definition morton3D :: "float32 \<Rightarrow> float32 \<Rightarrow> float32 \<Rightarrow> 32 word option" where
  "morton3D x y z =
     (case float_to_uint32 (morton_clamp x) of None \<Rightarrow> None | Some xi \<Rightarrow>
      case float_to_uint32 (morton_clamp y) of None \<Rightarrow> None | Some yi \<Rightarrow>
      case float_to_uint32 (morton_clamp z) of None \<Rightarrow> None | Some zi \<Rightarrow>
        Some (expandBits xi * 4 + expandBits yi * 2 + expandBits zi))"

subsection \<open>Predicates used in the statements\<close>

text \<open>A float with the sign bit clear that is neither an infinity nor a NaN.\<close>

definition nonneg_finite :: "float32 \<Rightarrow> bool" where
  "nonneg_finite f = (\<not> sign_bit f \<and> is_finite f)"

definition nonneg_finite_box :: "AABB \<Rightarrow> bool" where
  "nonneg_finite_box b = (vec3_all nonneg_finite (Min_vec b) \<and> vec3_all nonneg_finite (Max_vec b))"

text \<open>A point lies in a box when \<open>Min <= q\<close> and \<open>q <= Max\<close> hold on every axis.\<close>

definition contains :: "AABB \<Rightarrow> vec3 \<Rightarrow> bool" where
  "contains b q = (vec3_all2 flt_le (Min_vec b) q \<and> vec3_all2 flt_le q (Max_vec b))"

definition float_one :: float32 where "float_one = 0x3F800000"
definition float_minus_one :: float32 where "float_minus_one = 0xBF800000"

subsection \<open>Magnitudes by bit pattern\<close>

text \<open>
  The 31 bits below the sign, read as a number \<open>k\<close>, order the magnitudes:
  \<open>mag_scaled k\<close> is the magnitude of the pattern \<open>k\<close> in units of \<open>2^-149\<close>.
  \<open>floor_idx n\<close> is the last pattern whose magnitude does not exceed \<open>n\<close> units, and
  \<open>nearest_even k q\<close> chooses between the pattern \<open>k\<close> and the next one for a magnitude
  of \<open>q\<close> units that lies between the two.
\<close>

definition mag_scaled :: "nat \<Rightarrow> nat" where
  "mag_scaled k = scaled_mag (k div 2 ^ 23) (k mod 2 ^ 23)"

definition floor_idx :: "nat \<Rightarrow> nat" where
  "floor_idx n = norm_shift n * 2 ^ 23 + n div 2 ^ norm_shift n"

definition nearest_even :: "nat \<Rightarrow> real \<Rightarrow> nat" where
  "nearest_even k q =
     (if q - real (mag_scaled k) < (real (mag_scaled (k + 1)) - real (mag_scaled k)) / 2
         \<or> (q - real (mag_scaled k) = (real (mag_scaled (k + 1)) - real (mag_scaled k)) / 2 \<and> even k)
      then k else k + 1)"

definition mag_bits :: "float32 \<Rightarrow> nat" where
  "mag_bits f = unat f mod 2 ^ 31"

subsection \<open>The slab test in the words of its description\<close>

text \<open>
  On an axis the near face is the min-face when the reciprocal direction is positive and
  the max-face otherwise; the far face is the other one. The crossing distance to a face
  is \<open>(face - origin) * reciprocal\<close>. \<open>flt_greatest\<close> and \<open>flt_least\<close> say that a
  float is a maximum or a minimum of a list in the order of the floats.
\<close>

definition near_face :: "float32 \<Rightarrow> float32 \<Rightarrow> float32 \<Rightarrow> float32" where
  "near_face rcp lo hi = (if flt_less plus_zero rcp then lo else hi)"

definition far_face :: "float32 \<Rightarrow> float32 \<Rightarrow> float32 \<Rightarrow> float32" where
  "far_face rcp lo hi = (if flt_less plus_zero rcp then hi else lo)"

definition crossing :: "float32 \<Rightarrow> float32 \<Rightarrow> float32 \<Rightarrow> float32" where
  "crossing face pos rcp = fmul (fsub face pos) rcp"

definition near_crossings :: "thread_locals \<Rightarrow> AABB \<Rightarrow> MiniRay \<Rightarrow> float32 list" where
  "near_crossings tls b ray =
     map (\<lambda>i. crossing (near_face (vec3_get (Inverse tls) i) (vec3_get (Min_vec b) i) (vec3_get (Max_vec b) i))
                  (vec3_get (Position ray) i) (vec3_get (Inverse tls) i)) [0, 1, 2]"

definition far_crossings :: "thread_locals \<Rightarrow> AABB \<Rightarrow> MiniRay \<Rightarrow> float32 list" where
  "far_crossings tls b ray =
     map (\<lambda>i. crossing (far_face (vec3_get (Inverse tls) i) (vec3_get (Min_vec b) i) (vec3_get (Max_vec b) i))
                  (vec3_get (Position ray) i) (vec3_get (Inverse tls) i)) [0, 1, 2]"

definition flt_greatest :: "float32 \<Rightarrow> float32 list \<Rightarrow> bool" where
  "flt_greatest m cs = (m \<in> set cs \<and> (\<forall>c \<in> set cs. flt_le c m))"

definition flt_least :: "float32 \<Rightarrow> float32 list \<Rightarrow> bool" where
  "flt_least m cs = (m \<in> set cs \<and> (\<forall>c \<in> set cs. flt_le m c))"

text \<open>The box \<open>[0,0,0]-[1,1,1]\<close> and the float 5.\<close>

definition unit_box :: AABB where
  "unit_box = \<lparr>Min_vec = vec3_splat plus_zero, Max_vec = vec3_splat float_one\<rparr>"

definition float_5 :: float32 where "float_5 = 0x40A00000"

text \<open>
  The ray of the miss case, origin \<open>(5,5,5)\<close> and direction \<open>(1,0,0)\<close>, with its
  reciprocal direction \<open>(1, +inf, +inf)\<close>; a second ray; the float 10.
\<close>

definition float_10 :: float32 where "float_10 = 0x41200000"

definition miss_ray :: MiniRay where
  "miss_ray = \<lparr>Position = vec3_splat float_5,
               Direction = \<lparr>vx = float_one, vy = plus_zero, vz = plus_zero\<rparr>\<rparr>"

definition miss_Inverse :: vec3 where
  "miss_Inverse = \<lparr>vx = float_one, vy = plus_inf, vz = plus_inf\<rparr>"

definition other_ray :: MiniRay where
  "other_ray = \<lparr>Position = vec3_splat plus_zero, Direction = vec3_splat float_minus_one\<rparr>"

text \<open>
  An origin strictly inside a box; the reciprocal of a direction, \<open>1.0f / d\<close> on every
  axis; the bit pattern of 1 below its sign.
\<close>

definition strictly_inside :: "AABB \<Rightarrow> vec3 \<Rightarrow> bool" where
  "strictly_inside b p = (vec3_all2 flt_less (Min_vec b) p \<and> vec3_all2 flt_less p (Max_vec b))"

definition reciprocal :: "vec3 \<Rightarrow> vec3" where
  "reciprocal v = vec3_map2 fdiv (vec3_splat float_one) v"

definition one_mag :: nat where
  "one_mag = 0x3F800000"

text \<open>
  A ray from the centre of the unit box along \<open>(1,1,1)\<close>. The box \<open>[0, 2^-100]^3\<close> with a
  ray from its centre \<open>2^-101\<close> along \<open>(2^60, 2^60, 2^60)\<close>.
\<close>

definition inside_ray :: MiniRay where
  "inside_ray = \<lparr>Position = vec3_splat 0x3F000000, Direction = vec3_splat float_one\<rparr>"

definition tiny_box :: AABB where
  "tiny_box = \<lparr>Min_vec = vec3_splat plus_zero, Max_vec = vec3_splat 0x0D800000\<rparr>"

definition tiny_ray :: MiniRay where
  "tiny_ray = \<lparr>Position = vec3_splat 0x0D000000, Direction = vec3_splat 0x5D800000\<rparr>"

text \<open>
  The box with \<open>Min = Max = 1.0\<close> and the box with \<open>Min = Max = -0.0\<close>. A ray that starts
  on the plane \<open>x = 0\<close> at \<open>(0, -5, -2)\<close> and runs along \<open>(0, 1, 1)\<close>.
\<close>

definition one_box :: AABB where
  "one_box = \<lparr>Min_vec = vec3_splat float_one, Max_vec = vec3_splat float_one\<rparr>"

definition minus_zero_box :: AABB where
  "minus_zero_box = \<lparr>Min_vec = vec3_splat minus_zero, Max_vec = vec3_splat minus_zero\<rparr>"

definition plane_ray :: MiniRay where
  "plane_ray = \<lparr>Position = \<lparr>vx = plus_zero, vy = 0xC0A00000, vz = 0xC0000000\<rparr>,
                Direction = \<lparr>vx = plus_zero, vy = float_one, vz = float_one\<rparr>\<rparr>"

text \<open>The box from the lowest to the largest finite float on every axis.\<close>

definition wide_box :: AABB where
  "wide_box = \<lparr>Min_vec = vec3_splat minimum, Max_vec = vec3_splat maximum\<rparr>"

subsection \<open>The Morton code in the words of its description\<close>

text \<open>
  A coordinate is scaled by 1024, clamped to \<open>[0, 1023]\<close> and truncated, on the real
  value of the float (the infinities at \<open>+-2^128\<close> clamp like any value out of range).
  \<open>spread_bits\<close> puts bit \<open>i\<close> of a 10-bit number at bit \<open>3 * i\<close>, two zero bits after
  each source bit. The three spread coordinates are combined as \<open>x * 4 + y * 2 + z\<close>.
  \<open>expand_ok v\<close> says that \<open>expandBits\<close> spreads the bits of \<open>v\<close>.
\<close>

definition morton_coord :: "real \<Rightarrow> nat" where
  "morton_coord r = nat \<lfloor>min 1023 (max 0 (r * 1024))\<rfloor>"

definition spread_bits :: "nat \<Rightarrow> nat" where
  "spread_bits v = (\<Sum>i\<leftarrow>[0..<10]. if bit v i then 2 ^ (3 * i) else 0)"

definition morton_reference :: "real \<Rightarrow> real \<Rightarrow> real \<Rightarrow> nat" where
  "morton_reference rx ry rz =
     spread_bits (morton_coord rx) * 4 + spread_bits (morton_coord ry) * 2
       + spread_bits (morton_coord rz)"

definition expand_ok :: "nat \<Rightarrow> bool" where
  "expand_ok v = (expandBits (word_of_nat v) = word_of_nat (spread_bits v))"

section \<open>The retry loops\<close>

lemma update_min_loop_eq:
  "update_min_loop sched cell cell v =
     (if v < cell then (v, tl (dropWhile (\<lambda>b. b) sched)) else (cell, sched))"
proof (induction sched)
  case Nil
  show ?case
    by (subst update_min_loop.simps) (simp add: compare_exchange_weak_def)
next
  case (Cons b sched)
  show ?case
    using Cons
    by (subst update_min_loop.simps) (simp add: compare_exchange_weak_def)
qed

lemma update_max_loop_eq:
  "update_max_loop sched cell cell v =
     (if cell < v then (v, tl (dropWhile (\<lambda>b. b) sched)) else (cell, sched))"
proof (induction sched)
  case Nil
  show ?case
    by (subst update_max_loop.simps) (simp add: compare_exchange_weak_def)
next
  case (Cons b sched)
  show ?case
    using Cons
    by (subst update_max_loop.simps) (simp add: compare_exchange_weak_def)
qed

lemma update_min_fst: "fst (update_min sched cell v) = min cell v"
  by (auto simp: update_min_def update_min_loop_eq min_def)

lemma update_max_fst: "fst (update_max sched cell v) = max cell v"
  by (auto simp: update_max_def update_max_loop_eq max_def)

text \<open>
  A call that no other thread disturbs, with any finite run of spurious failures: the cell
  ends at the unsigned minimum (maximum), after one attempt per leading spurious failure
  and the one that succeeds.
\<close>

lemma update_min_max_sequential:
  "update_min sched cell v =
     (min cell v, if v < cell then tl (dropWhile (\<lambda>b. b) sched) else sched)
   \<and> update_max sched cell v =
     (max cell v, if cell < v then tl (dropWhile (\<lambda>b. b) sched) else sched)"
  by (auto simp: update_min_def update_max_def update_min_loop_eq update_max_loop_eq
        min_def max_def)

subsection \<open>Among other threads\<close>

lemma disturbed_min_le: "disturbed_min ev cell \<le> cell"
  by (simp add: disturbed_min_def split: cas_event.splits)

lemma disturbed_max_ge: "cell \<le> disturbed_max ev cell"
  by (simp add: disturbed_max_def split: cas_event.splits)

lemma others_min_le: "others_min env t n cell \<le> cell"
proof (induction n arbitrary: t cell)
  case 0
  show ?case by simp
next
  case (Suc n)
  have "others_min env (Suc t) n (disturbed_min (env t) cell) \<le> disturbed_min (env t) cell"
    by (rule Suc.IH)
  also have "\<dots> \<le> cell" by (rule disturbed_min_le)
  finally show ?case by simp
qed

lemma others_max_ge: "cell \<le> others_max env t n cell"
proof (induction n arbitrary: t cell)
  case 0
  show ?case by simp
next
  case (Suc n)
  have "cell \<le> disturbed_max (env t) cell" by (rule disturbed_max_ge)
  also have "\<dots> \<le> others_max env (Suc t) n (disturbed_max (env t) cell)"
    by (rule Suc.IH)
  finally show ?case by simp
qed

lemma others_alone:
  "alone env \<Longrightarrow> others_min env t n cell = cell"
  "alone env \<Longrightarrow> others_max env t n cell = cell"
proof -
  assume a: "alone env"
  have d: "disturbed_min (env s) c = c" "disturbed_max (env s) c = c" for s c
    using a by (auto simp: alone_def disturbed_min_def disturbed_max_def split: cas_event.splits)
  show "others_min env t n cell = cell"
    by (induction n arbitrary: t) (simp_all add: d)
  show "others_max env t n cell = cell"
    by (induction n arbitrary: t) (simp_all add: d)
qed

text \<open>
  One attempt of a loop whose expected value is the value last read from the cell: it
  succeeds, or fails spuriously on an unchanged cell, or finds the cell strictly more
  extreme than expected.
\<close>

lemma attempt_min:
  shows "compare_exchange_weak_among ev (disturbed_min ev cell) cell v = (True, v, cell)
       \<or> (ev = Spurious \<and> compare_exchange_weak_among ev (disturbed_min ev cell) cell v = (False, cell, cell))
       \<or> (disturbed_min ev cell < cell
           \<and> compare_exchange_weak_among ev (disturbed_min ev cell) cell v
               = (False, disturbed_min ev cell, disturbed_min ev cell))"
  using disturbed_min_le [of ev cell]
  by (cases ev) (auto simp: compare_exchange_weak_among_def disturbed_min_def min_def)

lemma attempt_max:
  shows "compare_exchange_weak_among ev (disturbed_max ev cell) cell v = (True, v, cell)
       \<or> (ev = Spurious \<and> compare_exchange_weak_among ev (disturbed_max ev cell) cell v = (False, cell, cell))
       \<or> (cell < disturbed_max ev cell
           \<and> compare_exchange_weak_among ev (disturbed_max ev cell) cell v
               = (False, disturbed_max ev cell, disturbed_max ev cell))"
  using disturbed_max_ge [of cell ev]
  by (cases ev) (auto simp: compare_exchange_weak_among_def disturbed_max_def max_def)

lemma update_min_loop_among_returns:
  assumes "spurious_stops N env"
  shows "\<exists>n. update_min_loop_among env t cell cell v = Some (min v (others_min env t n cell), t + n)
            \<and> n \<le> (N - t) + unat cell + 1"
proof (induction "(N - t) + unat cell" arbitrary: t cell rule: less_induct)
  case less
  show ?case
  proof (cases "v < cell")
    case False
    then have "update_min_loop_among env t cell cell v = Some (min v (others_min env t 0 cell), t + 0)"
      by (subst update_min_loop_among.simps) (simp add: min_def)
    then show ?thesis by (intro exI [of _ 0]) simp
  next
    case True
    from attempt_min [of "env t" cell v] consider
      (ok) "compare_exchange_weak_among (env t) (disturbed_min (env t) cell) cell v = (True, v, cell)"
      | (spurious) "env t = Spurious"
          "compare_exchange_weak_among (env t) (disturbed_min (env t) cell) cell v = (False, cell, cell)"
      | (lost) "disturbed_min (env t) cell < cell"
          "compare_exchange_weak_among (env t) (disturbed_min (env t) cell) cell v
             = (False, disturbed_min (env t) cell, disturbed_min (env t) cell)"
      by blast
    then show ?thesis
    proof cases
      case ok
      have "v < disturbed_min (env t) cell"
        using ok True by (auto simp: compare_exchange_weak_among_def split: if_splits)
      then have "min v (others_min env t 1 cell) = v" by simp
      moreover have "update_min_loop_among env t cell cell v = Some (v, Suc t)"
        using True by (subst update_min_loop_among.simps) (simp add: ok)
      ultimately show ?thesis by (intro exI [of _ 1]) simp
    next
      case spurious
      have "t < N"
        using assms spurious(1) by (auto simp: spurious_stops_def not_le [symmetric])
      then have "(N - Suc t) + unat cell < (N - t) + unat cell" by simp
      from less [OF this] obtain n where
        n: "update_min_loop_among env (Suc t) cell cell v
              = Some (min v (others_min env (Suc t) n cell), Suc t + n)"
          "n \<le> (N - Suc t) + unat cell + 1"
        by blast
      have d: "disturbed_min (env t) cell = cell"
        by (simp add: spurious(1) disturbed_min_def)
      have s: "compare_exchange_weak_among (env t) cell cell v = (False, cell, cell)"
        using spurious(2) by (simp only: d)
      have "update_min_loop_among env t cell cell v
              = Some (min v (others_min env t (Suc n) cell), t + Suc n)"
        using True by (subst update_min_loop_among.simps) (simp add: s n(1) d)
      moreover have "Suc n \<le> (N - t) + unat cell + 1" using n(2) \<open>t < N\<close> by simp
      ultimately show ?thesis by blast
    next
      case lost
      let ?c = "disturbed_min (env t) cell"
      have "unat ?c < unat cell" using lost(1) by (simp add: word_less_nat_alt)
      then have m: "(N - Suc t) + unat ?c < (N - t) + unat cell" by simp
      from less [OF this] obtain n where
        n: "update_min_loop_among env (Suc t) ?c ?c v
              = Some (min v (others_min env (Suc t) n ?c), Suc t + n)"
          "n \<le> (N - Suc t) + unat ?c + 1"
        by blast
      have "update_min_loop_among env t cell cell v
              = Some (min v (others_min env t (Suc n) cell), t + Suc n)"
        using True by (subst update_min_loop_among.simps) (simp add: lost(2) n(1))
      moreover have "Suc n \<le> (N - t) + unat cell + 1" using n(2) m by simp
      ultimately show ?thesis by blast
    qed
  qed
qed

lemma update_max_loop_among_returns:
  assumes "spurious_stops N env"
  shows "\<exists>n. update_max_loop_among env t cell cell v = Some (max v (others_max env t n cell), t + n)
            \<and> n \<le> (N - t) + (2 ^ 32 - 1 - unat cell) + 1"
proof (induction "(N - t) + (2 ^ 32 - 1 - unat cell)" arbitrary: t cell rule: less_induct)
  case less
  show ?case
  proof (cases "cell < v")
    case False
    then have "update_max_loop_among env t cell cell v = Some (max v (others_max env t 0 cell), t + 0)"
      by (subst update_max_loop_among.simps) (auto simp: max_def)
    then show ?thesis by (intro exI [of _ 0]) simp
  next
    case True
    from attempt_max [of "env t" cell v] consider
      (ok) "compare_exchange_weak_among (env t) (disturbed_max (env t) cell) cell v = (True, v, cell)"
      | (spurious) "env t = Spurious"
          "compare_exchange_weak_among (env t) (disturbed_max (env t) cell) cell v = (False, cell, cell)"
      | (lost) "cell < disturbed_max (env t) cell"
          "compare_exchange_weak_among (env t) (disturbed_max (env t) cell) cell v
             = (False, disturbed_max (env t) cell, disturbed_max (env t) cell)"
      by blast
    then show ?thesis
    proof cases
      case ok
      have "disturbed_max (env t) cell < v"
        using ok True by (auto simp: compare_exchange_weak_among_def split: if_splits)
      then have "max v (others_max env t 1 cell) = v" by simp
      moreover have "update_max_loop_among env t cell cell v = Some (v, Suc t)"
        using True by (subst update_max_loop_among.simps) (simp add: ok)
      ultimately show ?thesis by (intro exI [of _ 1]) simp
    next
      case spurious
      have "t < N"
        using assms spurious(1) by (auto simp: spurious_stops_def not_le [symmetric])
      then have "(N - Suc t) + (2 ^ 32 - 1 - unat cell) < (N - t) + (2 ^ 32 - 1 - unat cell)" by simp
      from less [OF this] obtain n where
        n: "update_max_loop_among env (Suc t) cell cell v
              = Some (max v (others_max env (Suc t) n cell), Suc t + n)"
          "n \<le> (N - Suc t) + (2 ^ 32 - 1 - unat cell) + 1"
        by blast
      have d: "disturbed_max (env t) cell = cell"
        by (simp add: spurious(1) disturbed_max_def)
      have s: "compare_exchange_weak_among (env t) cell cell v = (False, cell, cell)"
        using spurious(2) by (simp only: d)
      have "update_max_loop_among env t cell cell v
              = Some (max v (others_max env t (Suc n) cell), t + Suc n)"
        using True by (subst update_max_loop_among.simps) (simp add: s n(1) d)
      moreover have "Suc n \<le> (N - t) + (2 ^ 32 - 1 - unat cell) + 1" using n(2) \<open>t < N\<close> by simp
      ultimately show ?thesis by blast
    next
      case lost
      let ?c = "disturbed_max (env t) cell"
      have "unat cell < unat ?c" using lost(1) by (simp add: word_less_nat_alt)
      moreover have "unat ?c < 2 ^ 32" using unsigned_less [of ?c] by simp
      ultimately have "(2 ^ 32 - 1 - unat ?c) < (2 ^ 32 - 1 - unat cell)" by linarith
      then have m: "(N - Suc t) + (2 ^ 32 - 1 - unat ?c) < (N - t) + (2 ^ 32 - 1 - unat cell)" by simp
      from less [OF this] obtain n where
        n: "update_max_loop_among env (Suc t) ?c ?c v
              = Some (max v (others_max env (Suc t) n ?c), Suc t + n)"
          "n \<le> (N - Suc t) + (2 ^ 32 - 1 - unat ?c) + 1"
        by blast
      have "update_max_loop_among env t cell cell v
              = Some (max v (others_max env t (Suc n) cell), t + Suc n)"
        using True by (subst update_max_loop_among.simps) (simp add: lost(2) n(1))
      moreover have "Suc n \<le> (N - t) + (2 ^ 32 - 1 - unat cell) + 1" using n(2) m by simp
      ultimately show ?thesis by blast
    qed
  qed
qed

lemma update_min_among_alone:
  assumes "spurious_stops N env" "alone env"
  shows "\<exists>n. update_min_among env t cell v = Some (min cell v, t + n)"
  using update_min_loop_among_returns [OF assms(1), of t cell v] others_alone(1) [OF assms(2)]
  by (auto simp: update_min_among_def min.commute)

lemma update_max_among_alone:
  assumes "spurious_stops N env" "alone env"
  shows "\<exists>n. update_max_among env t cell v = Some (max cell v, t + n)"
  using update_max_loop_among_returns [OF assms(1), of t cell v] others_alone(2) [OF assms(2)]
  by (auto simp: update_max_among_def max.commute)

text \<open>
  C8 (as amended). Let the loops of \<open>update_min\<close> and \<open>update_max\<close> run among other
  threads that update the same cell, with spurious failures of the weak compare-exchange
  that stop at some attempt \<open>N\<close>. For every stored value, every argument and every such
  environment, the loop returns: after some number \<open>n\<close> of attempts, at most
  \<open>N - t\<close> plus the number of values below (above) the stored one plus one. On exit the
  cell holds the unsigned minimum (maximum) of the argument and of what the other threads
  made of the stored value meanwhile, which is at most (at least) the stored value; when
  no other thread updates the cell, this is the minimum (maximum) of the stored value and
  the argument. An attempt whose expected value is the value last read either succeeds, or
  fails spuriously and leaves the cell as it was, or finds in the cell a value strictly
  below (above) the expected one: the last case lowers \<open>unat cell\<close>, the second one happens
  before \<open>N\<close> only, and this is why the loop ends.
\<close>

theorem update_min_max_among_others:
  assumes "spurious_stops N env"
  shows "(\<exists>n. update_min_among env t cell v = Some (min v (others_min env t n cell), t + n)
             \<and> others_min env t n cell \<le> cell
             \<and> n \<le> (N - t) + unat cell + 1)
       \<and> (\<exists>n. update_max_among env t cell v = Some (max v (others_max env t n cell), t + n)
             \<and> cell \<le> others_max env t n cell
             \<and> n \<le> (N - t) + (2 ^ 32 - 1 - unat cell) + 1)
       \<and> (alone env \<longrightarrow>
             (\<exists>n. update_min_among env t cell v = Some (min cell v, t + n))
           \<and> (\<exists>n. update_max_among env t cell v = Some (max cell v, t + n)))
       \<and> (compare_exchange_weak_among ev (disturbed_min ev cell) cell v = (True, v, cell)
           \<or> (ev = Spurious \<and> compare_exchange_weak_among ev (disturbed_min ev cell) cell v = (False, cell, cell))
           \<or> (disturbed_min ev cell < cell
               \<and> compare_exchange_weak_among ev (disturbed_min ev cell) cell v
                   = (False, disturbed_min ev cell, disturbed_min ev cell)))
       \<and> (compare_exchange_weak_among ev (disturbed_max ev cell) cell v = (True, v, cell)
           \<or> (ev = Spurious \<and> compare_exchange_weak_among ev (disturbed_max ev cell) cell v = (False, cell, cell))
           \<or> (cell < disturbed_max ev cell
               \<and> compare_exchange_weak_among ev (disturbed_max ev cell) cell v
                   = (False, disturbed_max ev cell, disturbed_max ev cell)))"
proof (intro conjI impI)
  show "\<exists>n. update_min_among env t cell v = Some (min v (others_min env t n cell), t + n)
             \<and> others_min env t n cell \<le> cell
             \<and> n \<le> (N - t) + unat cell + 1"
    using update_min_loop_among_returns [OF assms, of t cell v] others_min_le [of env t _ cell]
    unfolding update_min_among_def by blast
  show "\<exists>n. update_max_among env t cell v = Some (max v (others_max env t n cell), t + n)
             \<and> cell \<le> others_max env t n cell
             \<and> n \<le> (N - t) + (2 ^ 32 - 1 - unat cell) + 1"
    using update_max_loop_among_returns [OF assms, of t cell v] others_max_ge [of cell env t]
    unfolding update_max_among_def by blast
  show "\<exists>n. update_min_among env t cell v = Some (min cell v, t + n)" if "alone env"
    using update_min_among_alone [OF assms that] .
  show "\<exists>n. update_max_among env t cell v = Some (max cell v, t + n)" if "alone env"
    using update_max_among_alone [OF assms that] .
  show "compare_exchange_weak_among ev (disturbed_min ev cell) cell v = (True, v, cell)
           \<or> (ev = Spurious \<and> compare_exchange_weak_among ev (disturbed_min ev cell) cell v = (False, cell, cell))
           \<or> (disturbed_min ev cell < cell
               \<and> compare_exchange_weak_among ev (disturbed_min ev cell) cell v
                   = (False, disturbed_min ev cell, disturbed_min ev cell))"
    by (rule attempt_min)
  show "compare_exchange_weak_among ev (disturbed_max ev cell) cell v = (True, v, cell)
           \<or> (ev = Spurious \<and> compare_exchange_weak_among ev (disturbed_max ev cell) cell v = (False, cell, cell))
           \<or> (cell < disturbed_max ev cell
               \<and> compare_exchange_weak_among ev (disturbed_max ev cell) cell v
                   = (False, disturbed_max ev cell, disturbed_max ev cell))"
    by (rule attempt_max)
qed

lemmas run_eval = update_min_loop_among.simps update_max_loop_among.simps update_min_among_def update_max_among_def
  compare_exchange_weak_among_def disturbed_min_def disturbed_max_def busy_env_def hiccup_env_def Let_def

theorem update_min_max_among_others_witness:
  "spurious_stops 1 busy_env \<and> spurious_stops 1 hiccup_env \<and> alone hiccup_env
   \<and> update_min_among busy_env 0 5 3 = Some (3, 3)
   \<and> update_min_among busy_env 0 5 4 = Some (4, 2)
   \<and> update_max_among busy_env 0 2 3 = Some (4, 2)
   \<and> update_min_among hiccup_env 0 5 3 = Some (3, 2)
   \<and> update_max_among hiccup_env 0 5 7 = Some (7, 2)"
proof -
  have b: "spurious_stops 1 busy_env" and h: "spurious_stops 1 hiccup_env"
    and a: "alone hiccup_env"
    by (simp_all add: spurious_stops_def alone_def busy_env_def hiccup_env_def)
  show ?thesis
    using update_min_max_among_others [OF b, of 0 5 3 Spurious]
      update_min_max_among_others [OF h, of 0 5 3 Spurious] a b h
    by (simp add: run_eval)
qed

text \<open>
  C8 as stated fails: an attempt that fails need not find the exit condition met. With 5
  in the cell and the argument 3, the attempt that follows an update to 4 by another
  thread fails and reads 4, and \<open>old_value > value\<close> still holds; the attempt that fails
  spuriously reads 5 again. The loop goes on in both cases, and returns with 3 in the cell
  after the third attempt.
\<close>

theorem retry_attempt_short_of_exit:
  "compare_exchange_weak_among (busy_env 1) (disturbed_min (busy_env 1) 5) 5 3 = (False, 4, 4)
   \<and> (3 :: 32 word) < 4
   \<and> update_min_loop_among busy_env 1 5 5 3 = Some (3, 3)
   \<and> compare_exchange_weak_among (busy_env 0) (disturbed_min (busy_env 0) 5) 5 3 = (False, 5, 5)
   \<and> (3 :: 32 word) < 5
   \<and> update_min_loop_among busy_env 0 5 5 3 = Some (3, 3)"
  by (simp add: run_eval)

text \<open>
  The bound on the spurious failures is needed: when every attempt fails spuriously, the
  loop of \<open>update_min\<close> never returns.
\<close>

lemma update_min_loop_among_stuck:
  assumes "update_min_loop_among env t cell old v = Some r"
  shows "\<not> (env = always_spurious \<and> cell = old \<and> v < old)"
proof (rule update_min_loop_among.raw_induct
    [where P = "\<lambda>env t cell old v r. \<not> (env = always_spurious \<and> cell = old \<and> v < old)",
      OF _ assms])
  fix run :: "(nat \<Rightarrow> cas_event) \<Rightarrow> nat \<Rightarrow> 32 word \<Rightarrow> 32 word \<Rightarrow> 32 word \<Rightarrow> (32 word \<times> nat) option"
    and env t cell old v r
  assume ih: "\<And>env t cell old v r. run env t cell old v = Some r
                \<Longrightarrow> \<not> (env = always_spurious \<and> cell = old \<and> v < old)"
    and step: "(if v < old then
        (let r = compare_exchange_weak_among (env t) (disturbed_min (env t) cell) old v in
         if fst r then Some (fst (snd r), Suc t)
         else run env (Suc t) (fst (snd r)) (snd (snd r)) v)
      else Some (cell, t)) = Some r"
  show "\<not> (env = always_spurious \<and> cell = old \<and> v < old)"
  proof
    assume a: "env = always_spurious \<and> cell = old \<and> v < old"
    then have lt: "v < old" by simp
    have c: "compare_exchange_weak_among (env t) (disturbed_min (env t) cell) old v = (False, old, old)"
      using a by (simp add: compare_exchange_weak_among_def always_spurious_def disturbed_min_def)
    from step lt have "(let r = compare_exchange_weak_among (env t) (disturbed_min (env t) cell) old v
         in if fst r then Some (fst (snd r), Suc t)
            else run env (Suc t) (fst (snd r)) (snd (snd r)) v) = Some r"
      by simp
    then have "run env (Suc t) old old v = Some r"
      unfolding c Let_def by simp
    then have "\<not> (env = always_spurious \<and> old = old \<and> v < old)" by (rule ih)
    with a show False by blast
  qed
qed

lemma update_min_among_never_returns:
  "v < cell \<Longrightarrow> update_min_among always_spurious t cell v = None"
  using update_min_loop_among_stuck [of always_spurious t cell cell v]
  by (cases "update_min_loop_among always_spurious t cell cell v") (auto simp: update_min_among_def)

section \<open>Order of the bit patterns and the atomic expansion\<close>

lemma scaled_mag_less:
  assumes "m < 2 ^ 23" "m' < 2 ^ 23" "e < e' \<or> (e = e' \<and> m < m')"
  shows "scaled_mag e m < scaled_mag e' m'"
proof (cases "e < e'")
  case True
  have "scaled_mag e m < 2 ^ 23 * 2 ^ e"
  proof (cases "e = 0")
    case True
    then show ?thesis using assms(1) by (simp add: scaled_mag_def)
  next
    case False
    then obtain k where k: "e = Suc k" by (cases e) auto
    have "(2 ^ 23 + m) * 2 ^ k < (2 ^ 23 + 2 ^ 23) * 2 ^ k"
      using assms(1) by simp
    then show ?thesis using k by (simp add: scaled_mag_def)
  qed
  also have "(2::nat) ^ 23 * 2 ^ e \<le> 2 ^ 23 * 2 ^ (e' - 1)"
    using True by (simp add: power_increasing)
  also have "\<dots> \<le> scaled_mag e' m'"
    using True by (simp add: scaled_mag_def)
  finally show ?thesis .
next
  case False
  with assms(3) have "e = e'" "m < m'" by auto
  then show ?thesis by (simp add: scaled_mag_def)
qed

lemma nonneg_fields:
  assumes "\<not> sign_bit f"
  shows "biased_exp f = unat f div 2 ^ 23" "unat f = biased_exp f * 2 ^ 23 + mantissa f"
proof -
  have "unat f < 2 ^ 31" using assms by (simp add: sign_bit_def)
  then have "unat f div 2 ^ 23 < 256" by simp
  then show "biased_exp f = unat f div 2 ^ 23" by (simp add: biased_exp_def)
  then show "unat f = biased_exp f * 2 ^ 23 + mantissa f" by (simp add: mantissa_def)
qed

lemma mantissa_less: "mantissa f < 2 ^ 23"
  by (simp add: mantissa_def)

lemma nonneg_valof: "\<not> sign_bit f \<Longrightarrow> valof f = real (scaled_mag (biased_exp f) (mantissa f)) / 2 ^ 149"
  by (simp add: valof_def)

lemma nonneg_less_imp:
  assumes "\<not> sign_bit a" "\<not> sign_bit b" "a < b"
  shows "valof a < valof b"
proof -
  have "unat a < unat b" using assms(3) by (simp add: word_less_nat_alt)
  then have "biased_exp a * 2 ^ 23 + mantissa a < biased_exp b * 2 ^ 23 + mantissa b"
    using nonneg_fields(2) [OF assms(1)] nonneg_fields(2) [OF assms(2)] by simp
  then have "biased_exp a < biased_exp b \<or> (biased_exp a = biased_exp b \<and> mantissa a < mantissa b)"
    using mantissa_less [of a] mantissa_less [of b] by simp arith
  then have "scaled_mag (biased_exp a) (mantissa a) < scaled_mag (biased_exp b) (mantissa b)"
    by (rule scaled_mag_less [OF mantissa_less mantissa_less])
  then show ?thesis
    using assms by (simp add: nonneg_valof divide_strict_right_mono)
qed

lemma nonneg_less_iff:
  assumes "\<not> sign_bit a" "\<not> sign_bit b"
  shows "valof a < valof b \<longleftrightarrow> a < b"
proof
  assume "a < b" then show "valof a < valof b" by (rule nonneg_less_imp [OF assms])
next
  assume *: "valof a < valof b"
  show "a < b"
  proof (rule ccontr)
    assume "\<not> a < b"
    then have "a = b \<or> b < a" by auto
    then show False
      using * nonneg_less_imp [OF assms(2) assms(1)] by auto
  qed
qed

lemma Expand_axis_eq:
  "Expand_axis box i (this, sched) =
     (this\<lparr>Min_vec := vec3_set (Min_vec this) i (min (vec3_get (Min_vec this) i) (vec3_get (Min_vec box) i)),
           Max_vec := vec3_set (Max_vec this) i (max (vec3_get (Max_vec this) i) (vec3_get (Max_vec box) i))\<rparr>,
      snd (update_max (snd (update_min sched (vec3_get (Min_vec this) i) (vec3_get (Min_vec box) i)))
             (vec3_get (Max_vec this) i) (vec3_get (Max_vec box) i)))"
  by (simp add: Expand_axis_def case_prod_beta update_min_fst update_max_fst)

lemma Expand_box_words:
  "fst (Expand_box sched this box) =
     \<lparr>Min_vec = vec3_map2 min (Min_vec this) (Min_vec box),
      Max_vec = vec3_map2 max (Max_vec this) (Max_vec box)\<rparr>"
  by (simp add: Expand_box_def Expand_axis_eq vec3_set_def vec3_get_def vec3_map2_def)

lemma finite_not_nan: "is_finite f \<Longrightarrow> \<not> is_nan f"
  by (simp add: is_finite_def is_nan_def)

lemma nonneg_glm_min:
  assumes "nonneg_finite a" "nonneg_finite b"
  shows "min a b = glm_min a b" "max a b = glm_max a b"
  using assms nonneg_less_iff [of a b] nonneg_less_iff [of b a]
  by (auto simp: nonneg_finite_def glm_min_def glm_max_def flt_less_def finite_not_nan min_def max_def)

lemma glm_min_valof:
  "\<not> is_nan a \<Longrightarrow> \<not> is_nan b \<Longrightarrow> valof (glm_min a b) = min (valof a) (valof b)"
  by (auto simp: glm_min_def flt_less_def min_def)

lemma glm_max_valof:
  "\<not> is_nan a \<Longrightarrow> \<not> is_nan b \<Longrightarrow> valof (glm_max a b) = max (valof a) (valof b)"
  by (auto simp: glm_max_def flt_less_def max_def)

lemma vec3_get_map2: "vec3_get (vec3_map2 g a b) i = g (vec3_get a i) (vec3_get b i)"
  by (simp add: vec3_get_def vec3_map2_def)

lemma vec3_all_get: "vec3_all P v \<Longrightarrow> P (vec3_get v i)"
  by (simp add: vec3_all_def vec3_get_def)

lemma Expand_box_nonneg_component:
  assumes "nonneg_finite_box A" "nonneg_finite_box B"
  shows "vec3_get (Min_vec (fst (Expand_box sched A B))) i
           = glm_min (vec3_get (Min_vec A) i) (vec3_get (Min_vec B) i)"
    and "vec3_get (Max_vec (fst (Expand_box sched A B))) i
           = glm_max (vec3_get (Max_vec A) i) (vec3_get (Max_vec B) i)"
    and "valof (vec3_get (Min_vec (fst (Expand_box sched A B))) i)
           = min (valof (vec3_get (Min_vec A) i)) (valof (vec3_get (Min_vec B) i))"
    and "valof (vec3_get (Max_vec (fst (Expand_box sched A B))) i)
           = max (valof (vec3_get (Max_vec A) i)) (valof (vec3_get (Max_vec B) i))"
proof -
  have a: "nonneg_finite (vec3_get (Min_vec A) i)" "nonneg_finite (vec3_get (Max_vec A) i)"
    and b: "nonneg_finite (vec3_get (Min_vec B) i)" "nonneg_finite (vec3_get (Max_vec B) i)"
    using assms by (simp_all add: nonneg_finite_box_def vec3_all_get)
  show lo: "vec3_get (Min_vec (fst (Expand_box sched A B))) i
           = glm_min (vec3_get (Min_vec A) i) (vec3_get (Min_vec B) i)"
    by (simp add: Expand_box_words vec3_get_map2 nonneg_glm_min(1) [OF a(1) b(1)])
  show hi: "vec3_get (Max_vec (fst (Expand_box sched A B))) i
           = glm_max (vec3_get (Max_vec A) i) (vec3_get (Max_vec B) i)"
    by (simp add: Expand_box_words vec3_get_map2 nonneg_glm_min(2) [OF a(2) b(2)])
  show "valof (vec3_get (Min_vec (fst (Expand_box sched A B))) i)
           = min (valof (vec3_get (Min_vec A) i)) (valof (vec3_get (Min_vec B) i))"
    using a(1) b(1) by (simp add: lo glm_min_valof nonneg_finite_def finite_not_nan)
  show "valof (vec3_get (Max_vec (fst (Expand_box sched A B))) i)
           = max (valof (vec3_get (Max_vec A) i)) (valof (vec3_get (Max_vec B) i))"
    using a(2) b(2) by (simp add: hi glm_max_valof nonneg_finite_def finite_not_nan)
qed

lemmas float_eval = valof_def sign_bit_def biased_exp_def mantissa_def scaled_mag_def
  is_nan_def is_inf_def is_zero_def is_finite_def

lemma Expand_box_negative_fails:
  "valof (vec3_get (Min_vec (fst (Expand_box sched
       \<lparr>Min_vec = vec3_splat float_one, Max_vec = vec3_splat float_one\<rparr>
       \<lparr>Min_vec = vec3_splat float_minus_one, Max_vec = vec3_splat float_minus_one\<rparr>))) 0)
     \<noteq> min (valof float_one) (valof float_minus_one)"
  by (simp add: Expand_box_words vec3_map2_def vec3_splat_def vec3_get_def float_one_def
      float_minus_one_def float_eval)

text \<open>
  C1 (as amended). When all components of \<open>A\<close> and \<open>B\<close> are finite floats with the sign
  bit clear (non-negative, and not \<open>-0.0\<close>), a call \<open>A.Expand(B)\<close> run by one thread,
  under any schedule of spurious failures, leaves in every component of \<open>A.Min\<close> the
  numeric minimum and in every component of \<open>A.Max\<close> the numeric maximum of the two old
  components: the result is what \<open>glm::min\<close> and \<open>glm::max\<close> return, and its value is
  the \<open>min\<close> and \<open>max\<close> of the two values. The unsigned comparison of the bit patterns
  follows the numeric order only there: there are finite boxes, with a component whose
  sign bit is set, for which the equality fails.
\<close>

theorem Expand_box_numeric_iff_nonneg:
  "(nonneg_finite_box A \<and> nonneg_finite_box B \<longrightarrow>
      (\<forall>i<3.
         vec3_get (Min_vec (fst (Expand_box sched A B))) i
           = glm_min (vec3_get (Min_vec A) i) (vec3_get (Min_vec B) i)
       \<and> vec3_get (Max_vec (fst (Expand_box sched A B))) i
           = glm_max (vec3_get (Max_vec A) i) (vec3_get (Max_vec B) i)
       \<and> valof (vec3_get (Min_vec (fst (Expand_box sched A B))) i)
           = min (valof (vec3_get (Min_vec A) i)) (valof (vec3_get (Min_vec B) i))
       \<and> valof (vec3_get (Max_vec (fst (Expand_box sched A B))) i)
           = max (valof (vec3_get (Max_vec A) i)) (valof (vec3_get (Max_vec B) i))))
   \<and> (\<exists>A' B'. vec3_all is_finite (Min_vec A') \<and> vec3_all is_finite (Max_vec A')
         \<and> vec3_all is_finite (Min_vec B') \<and> vec3_all is_finite (Max_vec B')
         \<and> (\<exists>i<3. sign_bit (vec3_get (Min_vec B') i)
                  \<and> valof (vec3_get (Min_vec (fst (Expand_box sched A' B'))) i)
                    \<noteq> min (valof (vec3_get (Min_vec A') i)) (valof (vec3_get (Min_vec B') i))))"
proof (intro conjI impI allI)
  fix i
  assume "nonneg_finite_box A \<and> nonneg_finite_box B"
  then have ab: "nonneg_finite_box A" "nonneg_finite_box B" by simp_all
  show "vec3_get (Min_vec (fst (Expand_box sched A B))) i
           = glm_min (vec3_get (Min_vec A) i) (vec3_get (Min_vec B) i)"
    "vec3_get (Max_vec (fst (Expand_box sched A B))) i
           = glm_max (vec3_get (Max_vec A) i) (vec3_get (Max_vec B) i)"
    "valof (vec3_get (Min_vec (fst (Expand_box sched A B))) i)
           = min (valof (vec3_get (Min_vec A) i)) (valof (vec3_get (Min_vec B) i))"
    "valof (vec3_get (Max_vec (fst (Expand_box sched A B))) i)
           = max (valof (vec3_get (Max_vec A) i)) (valof (vec3_get (Max_vec B) i))"
    by (rule Expand_box_nonneg_component [OF ab])+
next
  let ?A = "\<lparr>Min_vec = vec3_splat float_one, Max_vec = vec3_splat float_one\<rparr>"
  let ?B = "\<lparr>Min_vec = vec3_splat float_minus_one, Max_vec = vec3_splat float_minus_one\<rparr>"
  have fin: "is_finite float_one" "is_finite float_minus_one"
    by (simp_all add: float_one_def float_minus_one_def float_eval)
  have "valof (vec3_get (Min_vec (fst (Expand_box sched ?A ?B))) 0)
     \<noteq> min (valof (vec3_get (Min_vec ?A) 0)) (valof (vec3_get (Min_vec ?B) 0))"
    using Expand_box_negative_fails [of sched] by (simp add: vec3_get_def vec3_splat_def)
  moreover have "sign_bit (vec3_get (Min_vec ?B) 0)"
    by (simp add: vec3_get_def vec3_splat_def float_minus_one_def float_eval)
  ultimately have "\<exists>i<3. sign_bit (vec3_get (Min_vec ?B) i)
     \<and> valof (vec3_get (Min_vec (fst (Expand_box sched ?A ?B))) i)
     \<noteq> min (valof (vec3_get (Min_vec ?A) i)) (valof (vec3_get (Min_vec ?B) i))"
    by (intro exI [of _ "0::nat"] conjI) simp_all
  then show "\<exists>A' B'. vec3_all is_finite (Min_vec A') \<and> vec3_all is_finite (Max_vec A')
         \<and> vec3_all is_finite (Min_vec B') \<and> vec3_all is_finite (Max_vec B')
         \<and> (\<exists>i<3. sign_bit (vec3_get (Min_vec B') i)
                  \<and> valof (vec3_get (Min_vec (fst (Expand_box sched A' B'))) i)
                    \<noteq> min (valof (vec3_get (Min_vec A') i)) (valof (vec3_get (Min_vec B') i)))"
    using fin
    by (intro exI [of _ ?A] exI [of _ ?B]) (simp add: vec3_all_def vec3_splat_def)
qed

theorem Expand_box_numeric_iff_nonneg_witness:
  "nonneg_finite_box \<lparr>Min_vec = vec3_splat float_one, Max_vec = vec3_splat float_one\<rparr>
   \<and> nonneg_finite_box \<lparr>Min_vec = vec3_splat 0x3F000000, Max_vec = vec3_splat 0x40000000\<rparr>
   \<and> valof (vec3_get (Min_vec (fst (Expand_box [True, False]
          \<lparr>Min_vec = vec3_splat float_one, Max_vec = vec3_splat float_one\<rparr>
          \<lparr>Min_vec = vec3_splat 0x3F000000, Max_vec = vec3_splat 0x40000000\<rparr>))) 0) = 1 / 2
   \<and> valof (vec3_get (Max_vec (fst (Expand_box [True, False]
          \<lparr>Min_vec = vec3_splat float_one, Max_vec = vec3_splat float_one\<rparr>
          \<lparr>Min_vec = vec3_splat 0x3F000000, Max_vec = vec3_splat 0x40000000\<rparr>))) 0) = 2"
proof -
  let ?A = "\<lparr>Min_vec = vec3_splat float_one, Max_vec = vec3_splat float_one\<rparr>"
  let ?B = "\<lparr>Min_vec = vec3_splat 0x3F000000, Max_vec = vec3_splat 0x40000000\<rparr>"
  have h: "nonneg_finite_box ?A \<and> nonneg_finite_box ?B"
    by (simp add: nonneg_finite_box_def vec3_all_def vec3_splat_def nonneg_finite_def
        float_one_def float_eval)
  have "0 < (3::nat)" by simp
  with Expand_box_numeric_iff_nonneg [of ?A ?B "[True, False]"] h
  have "valof (vec3_get (Min_vec (fst (Expand_box [True, False] ?A ?B))) 0)
           = min (valof (vec3_get (Min_vec ?A) 0)) (valof (vec3_get (Min_vec ?B) 0))"
    "valof (vec3_get (Max_vec (fst (Expand_box [True, False] ?A ?B))) 0)
           = max (valof (vec3_get (Max_vec ?A) 0)) (valof (vec3_get (Max_vec ?B) 0))"
    by blast+
  then show ?thesis
    using h by (simp add: vec3_get_def vec3_splat_def float_one_def float_eval)
qed

text \<open>
  C1 as stated fails: \<open>-0.0\<close> is a finite float and \<open>0 <= -0.0\<close> holds, but its bit
  pattern is above that of every float with the sign bit clear. Expanding the box
  \<open>Min = Max = 1.0\<close> by the box \<open>Min = Max = -0.0\<close> leaves \<open>Min\<close> at 1.0, where the
  numeric minimum is 0, and sets \<open>Max\<close> to \<open>-0.0\<close>, where the numeric maximum is 1.
\<close>

theorem Expand_box_minus_zero_fails:
  "vec3_all is_finite (Min_vec one_box) \<and> vec3_all is_finite (Max_vec one_box)
   \<and> vec3_all is_finite (Min_vec minus_zero_box) \<and> vec3_all is_finite (Max_vec minus_zero_box)
   \<and> vec3_all (flt_le plus_zero) (Min_vec one_box) \<and> vec3_all (flt_le plus_zero) (Max_vec one_box)
   \<and> vec3_all (flt_le plus_zero) (Min_vec minus_zero_box)
   \<and> vec3_all (flt_le plus_zero) (Max_vec minus_zero_box)
   \<and> fst (Expand_box [] one_box minus_zero_box)
       = \<lparr>Min_vec = vec3_splat float_one, Max_vec = vec3_splat minus_zero\<rparr>
   \<and> valof (vx (Min_vec (fst (Expand_box [] one_box minus_zero_box)))) = 1
   \<and> min (valof (vx (Min_vec one_box))) (valof (vx (Min_vec minus_zero_box))) = 0
   \<and> valof (vx (Max_vec (fst (Expand_box [] one_box minus_zero_box)))) = 0
   \<and> max (valof (vx (Max_vec one_box))) (valof (vx (Max_vec minus_zero_box))) = 1"
  by (simp add: Expand_box_words one_box_def minus_zero_box_def vec3_all_def vec3_map2_def
      vec3_splat_def flt_le_def float_eval plus_zero_def minus_zero_def float_one_def)

section \<open>Initialization and expansion by a point\<close>

lemma scaled_mag_le_max:
  assumes "e < 255" "m < 2 ^ 23"
  shows "scaled_mag e m \<le> scaled_mag 254 (2 ^ 23 - 1)"
proof (cases "e = 254 \<and> m = 2 ^ 23 - 1")
  case True
  then show ?thesis by simp
next
  case False
  then have "e < 254 \<or> (e = 254 \<and> m < 2 ^ 23 - 1)" using assms by auto
  then have "scaled_mag e m < scaled_mag 254 (2 ^ 23 - 1)"
    by (intro scaled_mag_less) (use assms in auto)
  then show ?thesis by simp
qed

lemma valof_maximum: "valof maximum = 2 ^ 128 - 2 ^ 104" "valof minimum = - (2 ^ 128 - 2 ^ 104)"
  by (simp_all add: maximum_def minimum_def float_eval)

lemma scaled_mag_maximum: "real (scaled_mag 254 (2 ^ 23 - 1)) / 2 ^ 149 = 2 ^ 128 - 2 ^ 104"
  by (simp add: scaled_mag_def)

lemma finite_abs_valof:
  assumes "is_finite f"
  shows "\<bar>valof f\<bar> \<le> 2 ^ 128 - 2 ^ 104"
proof -
  have "scaled_mag (biased_exp f) (mantissa f) \<le> scaled_mag 254 (2 ^ 23 - 1)"
    using assms mantissa_less [of f] by (intro scaled_mag_le_max) (simp_all add: is_finite_def)
  then have "real (scaled_mag (biased_exp f) (mantissa f)) / 2 ^ 149
               \<le> real (scaled_mag 254 (2 ^ 23 - 1)) / 2 ^ 149"
    by (simp add: divide_right_mono)
  then have "real (scaled_mag (biased_exp f) (mantissa f)) / 2 ^ 149 \<le> 2 ^ 128 - 2 ^ 104"
    by (simp only: scaled_mag_maximum)
  then show ?thesis
    by (simp add: valof_def abs_mult)
qed

lemma not_nan_maximum: "\<not> is_nan maximum" "\<not> is_nan minimum" "is_finite maximum" "is_finite minimum"
  by (simp_all add: maximum_def minimum_def float_eval)

lemma glm_min_maximum:
  assumes "\<not> is_inf c"
  shows "glm_min c maximum = c" "glm_max c minimum = c"
proof -
  have "is_nan c \<or> is_finite c"
    using assms by (auto simp: is_nan_def is_inf_def is_finite_def biased_exp_def)
  then have "\<not> flt_less maximum c \<and> \<not> flt_less c minimum"
  proof
    assume "is_nan c" then show ?thesis by (simp add: flt_less_def)
  next
    assume "is_finite c"
    from finite_abs_valof [OF this] show ?thesis
      by (auto simp: flt_less_def valof_maximum)
  qed
  then show "glm_min c maximum = c" "glm_max c minimum = c"
    by (simp_all add: glm_min_def glm_max_def)
qed

text \<open>
  C5 (as amended). \<open>Initialize()\<close> resets the box to \<open>Min = maximum\<close> and
  \<open>Max = minimum\<close> on every component, the largest finite float \<open>2^128 - 2^104\<close> and its
  negation, not the two infinities. Expanding the freshly initialized box by a point \<open>p\<close>
  none of whose components is an infinity yields \<open>Min = Max = p\<close>.
\<close>

theorem Initialize_Expand_point:
  "Initialize b = \<lparr>Min_vec = vec3_splat maximum, Max_vec = vec3_splat minimum\<rparr>
   \<and> is_finite maximum \<and> valof maximum = 2 ^ 128 - 2 ^ 104
   \<and> is_finite minimum \<and> valof minimum = - (2 ^ 128 - 2 ^ 104)
   \<and> (vec3_all (\<lambda>c. \<not> is_inf c) p \<longrightarrow>
         Expand_point (Initialize b) p = \<lparr>Min_vec = p, Max_vec = p\<rparr>)"
  by (simp add: Initialize_def Expand_point_def vec3_map2_def vec3_splat_def vec3_all_def
      glm_min_maximum valof_maximum not_nan_maximum)

theorem Initialize_Expand_point_witness:
  "vec3_all (\<lambda>c. \<not> is_inf c) \<lparr>vx = float_one, vy = float_minus_one, vz = quiet_nan\<rparr>
   \<and> Expand_point (Initialize \<lparr>Min_vec = vec3_splat 0, Max_vec = vec3_splat 0\<rparr>)
         \<lparr>vx = float_one, vy = float_minus_one, vz = quiet_nan\<rparr>
       = \<lparr>Min_vec = \<lparr>vx = float_one, vy = float_minus_one, vz = quiet_nan\<rparr>,
          Max_vec = \<lparr>vx = float_one, vy = float_minus_one, vz = quiet_nan\<rparr>\<rparr>"
proof -
  have h: "vec3_all (\<lambda>c. \<not> is_inf c) \<lparr>vx = float_one, vy = float_minus_one, vz = quiet_nan\<rparr>"
    by (simp add: vec3_all_def float_one_def float_minus_one_def quiet_nan_def float_eval)
  show ?thesis
    using h Initialize_Expand_point
      [of "\<lparr>Min_vec = vec3_splat 0, Max_vec = vec3_splat 0\<rparr>"
          "\<lparr>vx = float_one, vy = float_minus_one, vz = quiet_nan\<rparr>"]
    by blast
qed

text \<open>
  C5 as stated fails: after \<open>Initialize()\<close> the bounds are not the infinities, and
  expanding by the point with all components \<open>+inf\<close> does not give \<open>Min = Max = p\<close>
  (\<open>Min\<close> stays at \<open>maximum\<close>).
\<close>

theorem Initialize_not_infinite:
  "Min_vec (Initialize \<lparr>Min_vec = vec3_splat 0, Max_vec = vec3_splat 0\<rparr>) \<noteq> vec3_splat plus_inf
   \<and> Max_vec (Initialize \<lparr>Min_vec = vec3_splat 0, Max_vec = vec3_splat 0\<rparr>) \<noteq> vec3_splat minus_inf
   \<and> Expand_point (Initialize \<lparr>Min_vec = vec3_splat 0, Max_vec = vec3_splat 0\<rparr>) (vec3_splat plus_inf)
       \<noteq> \<lparr>Min_vec = vec3_splat plus_inf, Max_vec = vec3_splat plus_inf\<rparr>"
  by (simp add: Initialize_def Expand_point_def vec3_map2_def vec3_splat_def glm_min_def glm_max_def
      flt_less_def plus_inf_def minus_inf_def maximum_def minimum_def float_eval)

section \<open>Default-constructed nodes\<close>

lemma nonneg_finite_le_maximum:
  assumes "nonneg_finite f"
  shows "f \<le> maximum" "0 \<le> f"
proof -
  have "unat f < 2 ^ 31" using assms by (simp add: nonneg_finite_def sign_bit_def)
  moreover have "unat f div 2 ^ 23 mod 256 < 255"
    using assms by (simp add: nonneg_finite_def is_finite_def biased_exp_def)
  ultimately have "unat f < 255 * 2 ^ 23" by simp
  then show "f \<le> maximum"
    by (simp add: maximum_def word_le_nat_alt)
  show "0 \<le> f" by simp
qed

lemma Node_new_neutral_component:
  assumes "nonneg_finite f"
  shows "min maximum f = f" "max 0 f = f"
  using nonneg_finite_le_maximum [OF assms] by (simp_all add: min_def max_def)

text \<open>
  C6 (as amended). A default-constructed \<open>Node\<close> has \<open>L\<close> and \<open>R\<close> equal to the all-ones
  sentinel. Its box has \<open>Min = maximum\<close>, the largest finite float, and \<open>Max = +0.0\<close>
  (the bit pattern 0) on every component, not \<open>+inf\<close> and \<open>-inf\<close>. This is the neutral
  box of the atomic expansion on the boxes whose components are finite floats with the
  sign bit clear (non-negative, and not \<open>-0.0\<close>): expanding it by such a box \<open>B\<close> gives
  \<open>B\<close>, under every schedule.
\<close>

theorem Node_new_fields:
  "L Node_new = 0xFFFFFFFF \<and> R Node_new = 0xFFFFFFFF
   \<and> Box Node_new = \<lparr>Min_vec = vec3_splat maximum, Max_vec = vec3_splat plus_zero\<rparr>
   \<and> valof maximum = 2 ^ 128 - 2 ^ 104 \<and> valof plus_zero = 0
   \<and> (nonneg_finite_box B \<longrightarrow> fst (Expand_box sched (Box Node_new) B) = B)"
proof -
  have "fst (Expand_box sched (Box Node_new) B) = B" if "nonneg_finite_box B"
  proof -
    have "vec3_map2 min (vec3_splat maximum) (Min_vec B) = Min_vec B"
      "vec3_map2 max (vec3_splat 0) (Max_vec B) = Max_vec B"
      using that
      by (simp_all add: nonneg_finite_box_def vec3_all_def vec3_map2_def vec3_splat_def
          Node_new_neutral_component)
    then show ?thesis
      by (simp add: Expand_box_words Node_new_def to_float_def to_uint_def)
  qed
  moreover have "valof plus_zero = 0"
    by (simp add: plus_zero_def float_eval)
  moreover have "Box Node_new = \<lparr>Min_vec = vec3_splat maximum, Max_vec = vec3_splat plus_zero\<rparr>"
    by (simp add: Node_new_def to_float_def to_uint_def plus_zero_def)
  moreover have "L Node_new = 0xFFFFFFFF" "R Node_new = 0xFFFFFFFF"
    by (simp_all add: Node_new_def invalid_def)
  ultimately show ?thesis
    using valof_maximum(1) by blast
qed

theorem Node_new_fields_witness:
  "nonneg_finite_box \<lparr>Min_vec = vec3_splat float_one, Max_vec = vec3_splat 0x40000000\<rparr>
   \<and> fst (Expand_box [True] (Box Node_new)
          \<lparr>Min_vec = vec3_splat float_one, Max_vec = vec3_splat 0x40000000\<rparr>)
       = \<lparr>Min_vec = vec3_splat float_one, Max_vec = vec3_splat 0x40000000\<rparr>"
proof -
  have h: "nonneg_finite_box \<lparr>Min_vec = vec3_splat float_one, Max_vec = vec3_splat 0x40000000\<rparr>"
    by (simp add: nonneg_finite_box_def vec3_all_def vec3_splat_def nonneg_finite_def
        float_one_def float_eval)
  show ?thesis
    using h Node_new_fields [of "\<lparr>Min_vec = vec3_splat float_one, Max_vec = vec3_splat 0x40000000\<rparr>" "[True]"]
    by blast
qed

text \<open>
  C6 as stated fails: the box of a default-constructed node has neither \<open>Min = +inf\<close>
  nor \<open>Max = -inf\<close>; both bounds are finite.
\<close>

theorem Node_new_box_not_infinite:
  "Min_vec (Box Node_new) \<noteq> vec3_splat plus_inf
   \<and> Max_vec (Box Node_new) \<noteq> vec3_splat minus_inf
   \<and> \<not> is_inf (vx (Min_vec (Box Node_new))) \<and> \<not> is_inf (vx (Max_vec (Box Node_new)))"
  by (simp add: Node_new_def vec3_splat_def to_float_def to_uint_def maximum_def plus_inf_def
      minus_inf_def float_eval)

section \<open>Expansion by a point\<close>

lemma flt_le_refl: "\<not> is_nan a \<Longrightarrow> flt_le a a"
  by (simp add: flt_le_def)

lemma glm_min_le:
  assumes "\<not> is_nan p"
  shows "flt_le (glm_min p m) p"
    and "flt_le m q \<Longrightarrow> flt_le (glm_min p m) q"
  using assms by (auto simp: glm_min_def flt_le_def flt_less_def)

lemma glm_max_ge:
  assumes "\<not> is_nan p"
  shows "flt_le p (glm_max p m)"
    and "flt_le q m \<Longrightarrow> flt_le q (glm_max p m)"
  using assms by (auto simp: glm_max_def flt_le_def flt_less_def)

text \<open>
  C7. \<open>Expand(p)\<close> replaces \<open>Min\<close> by \<open>glm::min(p, Min)\<close> and \<open>Max\<close> by
  \<open>glm::max(p, Max)\<close>, component by component, and the box has no other state. Where
  neither operand is a NaN the new component has the smaller (larger) of the two values.
  For a finite \<open>p\<close> the new box contains \<open>p\<close> and every point that the old box
  contained.
\<close>

theorem Expand_point_contains:
  "Expand_point b p
     = \<lparr>Min_vec = vec3_map2 glm_min p (Min_vec b), Max_vec = vec3_map2 glm_max p (Max_vec b)\<rparr>
   \<and> (\<forall>i<3. \<not> is_nan (vec3_get p i) \<and> \<not> is_nan (vec3_get (Min_vec b) i) \<longrightarrow>
         valof (vec3_get (Min_vec (Expand_point b p)) i)
           = min (valof (vec3_get p i)) (valof (vec3_get (Min_vec b) i)))
   \<and> (\<forall>i<3. \<not> is_nan (vec3_get p i) \<and> \<not> is_nan (vec3_get (Max_vec b) i) \<longrightarrow>
         valof (vec3_get (Max_vec (Expand_point b p)) i)
           = max (valof (vec3_get p i)) (valof (vec3_get (Max_vec b) i)))
   \<and> (vec3_all is_finite p \<longrightarrow>
         contains (Expand_point b p) p \<and> (\<forall>q. contains b q \<longrightarrow> contains (Expand_point b p) q))"
proof (intro conjI allI impI)
  show "Expand_point b p
     = \<lparr>Min_vec = vec3_map2 glm_min p (Min_vec b), Max_vec = vec3_map2 glm_max p (Max_vec b)\<rparr>"
    by (simp add: Expand_point_def)
next
  fix i assume "\<not> is_nan (vec3_get p i) \<and> \<not> is_nan (vec3_get (Min_vec b) i)"
  then show "valof (vec3_get (Min_vec (Expand_point b p)) i)
           = min (valof (vec3_get p i)) (valof (vec3_get (Min_vec b) i))"
    by (simp add: Expand_point_def vec3_get_map2 glm_min_valof)
next
  fix i assume "\<not> is_nan (vec3_get p i) \<and> \<not> is_nan (vec3_get (Max_vec b) i)"
  then show "valof (vec3_get (Max_vec (Expand_point b p)) i)
           = max (valof (vec3_get p i)) (valof (vec3_get (Max_vec b) i))"
    by (simp add: Expand_point_def vec3_get_map2 glm_max_valof)
next
  assume "vec3_all is_finite p"
  then have nn: "\<not> is_nan (vx p)" "\<not> is_nan (vy p)" "\<not> is_nan (vz p)"
    by (simp_all add: vec3_all_def finite_not_nan)
  then show "contains (Expand_point b p) p"
    by (simp add: contains_def Expand_point_def vec3_all2_def vec3_map2_def glm_min_le(1) glm_max_ge(1))
  fix q assume "contains b q"
  then show "contains (Expand_point b p) q"
    using nn
    by (simp add: contains_def Expand_point_def vec3_all2_def vec3_map2_def glm_min_le(2) glm_max_ge(2))
qed

theorem Expand_point_contains_witness:
  "vec3_all is_finite (vec3_splat 0x40000000)
   \<and> contains \<lparr>Min_vec = vec3_splat 0, Max_vec = vec3_splat float_one\<rparr> (vec3_splat 0x3F000000)
   \<and> contains (Expand_point \<lparr>Min_vec = vec3_splat 0, Max_vec = vec3_splat float_one\<rparr>
         (vec3_splat 0x40000000)) (vec3_splat 0x40000000)
   \<and> contains (Expand_point \<lparr>Min_vec = vec3_splat 0, Max_vec = vec3_splat float_one\<rparr>
         (vec3_splat 0x40000000)) (vec3_splat 0x3F000000)
   \<and> valof (vec3_get (Max_vec (Expand_point \<lparr>Min_vec = vec3_splat 0, Max_vec = vec3_splat float_one\<rparr>
         (vec3_splat 0x40000000))) 1) = 2"
proof -
  let ?b = "\<lparr>Min_vec = vec3_splat 0, Max_vec = vec3_splat float_one\<rparr>"
  let ?p = "vec3_splat 0x40000000"
  have h1: "vec3_all is_finite ?p"
    by (simp add: vec3_all_def vec3_splat_def float_eval)
  have h2: "contains ?b (vec3_splat 0x3F000000)"
    by (simp add: contains_def vec3_all2_def vec3_splat_def flt_le_def float_one_def float_eval)
  have h3: "\<not> is_nan (vec3_get ?p 1) \<and> \<not> is_nan (vec3_get (Max_vec ?b) 1)"
    by (simp add: vec3_get_def vec3_splat_def float_one_def float_eval)
  have h4: "(1::nat) < 3" by simp
  have v: "max (valof (vec3_get ?p 1)) (valof (vec3_get (Max_vec ?b) 1)) = 2"
    by (simp add: vec3_get_def vec3_splat_def float_one_def float_eval)
  from Expand_point_contains [of ?b ?p] h1 h2 h3 h4 v show ?thesis
    by metis
qed

section \<open>Rounding to nearest\<close>

lemma norm_shift_upper: "n div 2 ^ norm_shift n < 2 ^ 24"
proof (induction n rule: norm_shift.induct)
  case (1 n)
  show ?case
  proof (cases "n < 2 ^ 24")
    case True
    then show ?thesis by (subst norm_shift.simps) simp
  next
    case False
    have "n div 2 ^ Suc (norm_shift (n div 2)) = (n div 2) div 2 ^ norm_shift (n div 2)"
      by (simp add: div_mult2_eq)
    with False 1 show ?thesis by (subst norm_shift.simps) simp
  qed
qed

lemma norm_shift_lower: "0 < norm_shift n \<Longrightarrow> 2 ^ 23 \<le> n div 2 ^ norm_shift n"
proof (induction n rule: norm_shift.induct)
  case (1 n)
  show ?case
  proof (cases "n < 2 ^ 24")
    case True
    then have "norm_shift n = 0" by (subst norm_shift.simps) simp
    with 1(2) show ?thesis by simp
  next
    case False
    then have eq: "norm_shift n = Suc (norm_shift (n div 2))"
      by (subst norm_shift.simps) simp
    have dd: "n div 2 ^ Suc (norm_shift (n div 2)) = (n div 2) div 2 ^ norm_shift (n div 2)"
      by (simp add: div_mult2_eq)
    show ?thesis
    proof (cases "norm_shift (n div 2) = 0")
      case True
      with False eq show ?thesis by simp
    next
      case nz: False
      with 1(1) [OF False] have "2 ^ 23 \<le> (n div 2) div 2 ^ norm_shift (n div 2)" by simp
      then show ?thesis by (simp only: eq dd)
    qed
  qed
qed

lemma norm_shift_zero: "n < 2 ^ 24 \<Longrightarrow> norm_shift n = 0"
  by (subst norm_shift.simps) simp

lemma mag_scaled_split:
  assumes "t < 2 ^ 24" "0 < sh \<Longrightarrow> 2 ^ 23 \<le> t"
  shows "mag_scaled (sh * 2 ^ 23 + t) = t * 2 ^ sh"
proof (cases "t < 2 ^ 23")
  case True
  with assms(2) have "sh = 0" by (cases sh) auto
  with True show ?thesis by (simp add: mag_scaled_def scaled_mag_def)
next
  case False
  then have t: "t div 2 ^ 23 = 1" "t mod 2 ^ 23 = t - 2 ^ 23"
    using assms(1) by (simp_all add: div_eq_dividend_iff mod_if le_div_geq)
  have "(sh * 2 ^ 23 + t) div 2 ^ 23 = sh + 1" "(sh * 2 ^ 23 + t) mod 2 ^ 23 = t - 2 ^ 23"
    using t by simp_all
  then show ?thesis
    using False by (simp add: mag_scaled_def scaled_mag_def)
qed

lemma mag_scaled_strict_mono: "k < k' \<Longrightarrow> mag_scaled k < mag_scaled k'"
  unfolding mag_scaled_def
proof (rule scaled_mag_less)
  assume "k < k'"
  then have "k div 2 ^ 23 \<le> k' div 2 ^ 23" by (simp add: div_le_mono)
  moreover have "k mod 2 ^ 23 < k' mod 2 ^ 23" if "k div 2 ^ 23 = k' div 2 ^ 23"
    using that \<open>k < k'\<close> by (metis div_mult_mod_eq nat_add_left_cancel_less)
  ultimately show "k div 2 ^ 23 < k' div 2 ^ 23 \<or> k div 2 ^ 23 = k' div 2 ^ 23 \<and> k mod 2 ^ 23 < k' mod 2 ^ 23"
    by linarith
qed simp_all

lemma mag_scaled_mono: "k \<le> k' \<Longrightarrow> mag_scaled k \<le> mag_scaled k'"
  using mag_scaled_strict_mono [of k k'] by (cases "k = k'") auto

lemma mag_scaled_less_iff: "mag_scaled k < mag_scaled k' \<longleftrightarrow> k < k'"
  using mag_scaled_strict_mono [of k k'] mag_scaled_mono [of k' k] by (meson not_less)

lemma mag_scaled_floor_idx:
  "mag_scaled (floor_idx n) = (n div 2 ^ norm_shift n) * 2 ^ norm_shift n"
  unfolding floor_idx_def
  by (rule mag_scaled_split [OF norm_shift_upper norm_shift_lower])

lemma mag_scaled_floor_idx_Suc:
  "mag_scaled (floor_idx n + 1) = (n div 2 ^ norm_shift n) * 2 ^ norm_shift n + 2 ^ norm_shift n"
proof (cases "n div 2 ^ norm_shift n + 1 < 2 ^ 24")
  case True
  have "mag_scaled (norm_shift n * 2 ^ 23 + (n div 2 ^ norm_shift n + 1))
          = (n div 2 ^ norm_shift n + 1) * 2 ^ norm_shift n"
    by (rule mag_scaled_split [OF True]) (use norm_shift_lower [of n] in simp)
  then show ?thesis by (simp add: floor_idx_def add.assoc)
next
  case False
  with norm_shift_upper [of n] have t: "n div 2 ^ norm_shift n = 2 ^ 24 - 1" by simp
  have "mag_scaled (Suc (norm_shift n) * 2 ^ 23 + 2 ^ 23) = 2 ^ 23 * 2 ^ Suc (norm_shift n)"
    by (rule mag_scaled_split) simp_all
  moreover have "floor_idx n + 1 = Suc (norm_shift n) * 2 ^ 23 + 2 ^ 23"
    by (simp add: floor_idx_def t)
  ultimately show ?thesis by (simp add: t)
qed

lemma floor_idx_bounds:
  "mag_scaled (floor_idx n) \<le> n" "n < mag_scaled (floor_idx n + 1)"
proof -
  have "n = (n div 2 ^ norm_shift n) * 2 ^ norm_shift n + n mod 2 ^ norm_shift n"
    by (rule div_mult_mod_eq [symmetric])
  moreover have "n mod 2 ^ norm_shift n < 2 ^ norm_shift n" by simp
  ultimately show "mag_scaled (floor_idx n) \<le> n" "n < mag_scaled (floor_idx n + 1)"
    unfolding mag_scaled_floor_idx mag_scaled_floor_idx_Suc by linarith+
qed

lemma floor_idx_mono:
  assumes "n \<le> n'"
  shows "floor_idx n \<le> floor_idx n'"
proof (rule ccontr)
  assume "\<not> floor_idx n \<le> floor_idx n'"
  then have "floor_idx n' + 1 \<le> floor_idx n" by simp
  then have "mag_scaled (floor_idx n' + 1) \<le> mag_scaled (floor_idx n)"
    by (rule mag_scaled_mono)
  with floor_idx_bounds(1) [of n] floor_idx_bounds(2) [of n'] assms show False by linarith
qed

lemma even_floor_idx: "even (floor_idx n) \<longleftrightarrow> even (n div 2 ^ norm_shift n)"
  by (simp add: floor_idx_def)

lemma round_mag_nearest:
  "round_mag r = min inf_mag (nearest_even (floor_idx (nat \<lfloor>r * 2 ^ 149\<rfloor>)) (r * 2 ^ 149))"
  unfolding round_mag_def Let_def nearest_even_def mag_scaled_floor_idx mag_scaled_floor_idx_Suc
    even_floor_idx
  by (simp add: floor_idx_def)

lemma nearest_even_range: "k \<le> nearest_even k q" "nearest_even k q \<le> k + 1"
  by (simp_all add: nearest_even_def)

lemma nearest_even_mono_q: "q \<le> q' \<Longrightarrow> nearest_even k q \<le> nearest_even k q'"
  by (auto simp: nearest_even_def)

lemma round_mag_mono:
  assumes "r \<le> r'"
  shows "round_mag r \<le> round_mag r'"
proof -
  let ?q = "r * 2 ^ 149" and ?q' = "r' * 2 ^ 149"
  let ?k = "floor_idx (nat \<lfloor>?q\<rfloor>)" and ?k' = "floor_idx (nat \<lfloor>?q'\<rfloor>)"
  have q: "?q \<le> ?q'" using assms by simp
  then have "nat \<lfloor>?q\<rfloor> \<le> nat \<lfloor>?q'\<rfloor>" by (simp add: floor_mono nat_mono)
  then have k: "?k \<le> ?k'" by (rule floor_idx_mono)
  have "nearest_even ?k ?q \<le> nearest_even ?k' ?q'"
  proof (cases "?k = ?k'")
    case True
    then show ?thesis using nearest_even_mono_q [OF q, of ?k] by simp
  next
    case False
    with k have "?k + 1 \<le> ?k'" by simp
    with nearest_even_range(2) [of ?k ?q] nearest_even_range(1) [of ?k' ?q']
    show ?thesis by linarith
  qed
  then show ?thesis
    by (simp add: round_mag_nearest min.coboundedI2)
qed

lemma round_mag_le_inf: "round_mag r \<le> inf_mag"
  by (simp add: round_mag_def Let_def)

lemma mag_bits_fields:
  "biased_exp f = mag_bits f div 2 ^ 23" "mantissa f = mag_bits f mod 2 ^ 23"
proof -
  have "unat f mod (2 ^ 23 * 256) = 2 ^ 23 * (unat f div 2 ^ 23 mod 256) + unat f mod 2 ^ 23"
    by (rule mod_mult2_eq)
  then have "mag_bits f = 2 ^ 23 * biased_exp f + unat f mod 2 ^ 23"
    by (simp add: mag_bits_def biased_exp_def)
  then have "mag_bits f div 2 ^ 23 = (2 ^ 23 * biased_exp f + unat f mod 2 ^ 23) div 2 ^ 23"
    by simp
  also have "\<dots> = biased_exp f"
    by simp
  finally show "biased_exp f = mag_bits f div 2 ^ 23" by simp
  have "(2::nat) ^ 23 dvd 2 ^ 31" by (simp add: le_imp_power_dvd)
  then show "mantissa f = mag_bits f mod 2 ^ 23"
    unfolding mantissa_def mag_bits_def by (simp add: mod_mod_cancel)
qed

lemma valof_mag_bits:
  "valof f = (if sign_bit f then - 1 else 1) * real (mag_scaled (mag_bits f)) / 2 ^ 149"
  by (simp add: valof_def mag_scaled_def mag_bits_fields)

lemma abs_valof: "\<bar>valof f\<bar> = real (mag_scaled (mag_bits f)) / 2 ^ 149"
  by (simp add: valof_mag_bits abs_mult)

lemma mag_bits_less: "mag_bits f < 2 ^ 31"
  by (simp add: mag_bits_def)

lemma inf_mag_less: "inf_mag < 2 ^ 31"
  by (simp add: inf_mag_def)

lemma mag_bits_cases:
  obtains (top) "biased_exp f = 255" "mag_bits f = inf_mag + mantissa f"
    | (below) "biased_exp f < 255" "mag_bits f < inf_mag"
proof -
  have k: "mag_bits f = biased_exp f * 2 ^ 23 + mantissa f"
    unfolding mag_bits_fields by (rule div_mult_mod_eq [symmetric])
  have d: "biased_exp f < 256"
    by (simp add: biased_exp_def)
  show thesis
  proof (cases "biased_exp f = 255")
    case True
    with k have "mag_bits f = inf_mag + mantissa f" by (simp add: inf_mag_def)
    with True show thesis by (rule top)
  next
    case False
    with d have e: "biased_exp f \<le> 254" by simp
    then have "biased_exp f * 2 ^ 23 \<le> 254 * 2 ^ 23" by (rule mult_le_mono1)
    moreover have "mantissa f < 2 ^ 23" by (simp add: mantissa_def)
    ultimately have "mag_bits f < inf_mag"
      unfolding k inf_mag_def by linarith
    with e show thesis by (intro below) simp_all
  qed
qed

lemma class_by_mag_bits:
  "is_nan f \<longleftrightarrow> inf_mag < mag_bits f"
  "is_inf f \<longleftrightarrow> mag_bits f = inf_mag"
  "is_finite f \<longleftrightarrow> mag_bits f < inf_mag"
  by (cases f rule: mag_bits_cases; simp add: is_nan_def is_inf_def is_finite_def)+

lemma is_zero_mag_bits: "is_zero f \<longleftrightarrow> mag_bits f = 0"
proof -
  have "mag_bits f = biased_exp f * 2 ^ 23 + mantissa f"
    unfolding mag_bits_fields by (rule div_mult_mod_eq [symmetric])
  then show ?thesis by (simp add: is_zero_def)
qed

lemma pack_float_bits:
  assumes "k \<le> inf_mag"
  shows "mag_bits (pack_float s k) = k" "sign_bit (pack_float s k) = s"
proof -
  have k: "k < 2 ^ 31" using assms inf_mag_less by simp
  then have "(if s then 2 ^ 31 else 0) + k < (2::nat) ^ 32" by simp
  then have u: "unat (pack_float s k) = (if s then 2 ^ 31 else 0) + k"
    unfolding pack_float_def
    using unat_of_nat [where ?'a = 32, of "(if s then 2 ^ 31 else 0) + k"]
    by (simp del: of_nat_add)
  show "mag_bits (pack_float s k) = k"
    using k by (simp add: mag_bits_def u)
  show "sign_bit (pack_float s k) = s"
    using k by (simp add: sign_bit_def u)
qed

lemma pack_float_class:
  assumes "k \<le> inf_mag"
  shows "\<not> is_nan (pack_float s k)"
    "is_inf (pack_float s k) \<longleftrightarrow> k = inf_mag"
    "is_finite (pack_float s k) \<longleftrightarrow> k < inf_mag"
    "is_zero (pack_float s k) \<longleftrightarrow> k = 0"
  using assms by (simp_all add: class_by_mag_bits is_zero_mag_bits pack_float_bits)

lemma valof_pack_float:
  "k \<le> inf_mag \<Longrightarrow>
     valof (pack_float s k) = (if s then - 1 else 1) * real (mag_scaled k) / 2 ^ 149"
  by (simp add: valof_mag_bits pack_float_bits)

lemma round_mag_exact:
  assumes "k \<le> inf_mag"
  shows "round_mag (real (mag_scaled k) / 2 ^ 149) = k"
proof -
  have fl: "nat \<lfloor>real (mag_scaled k) / 2 ^ 149 * 2 ^ 149\<rfloor> = mag_scaled k" by simp
  have "mag_scaled (floor_idx (mag_scaled k)) \<le> mag_scaled k"
    "mag_scaled k < mag_scaled (floor_idx (mag_scaled k) + 1)"
    by (rule floor_idx_bounds)+
  then have "floor_idx (mag_scaled k) \<le> k" "k < floor_idx (mag_scaled k) + 1"
    using mag_scaled_less_iff [of k "floor_idx (mag_scaled k) + 1"]
      mag_scaled_less_iff [of k "floor_idx (mag_scaled k)"] by auto
  then have idx: "floor_idx (mag_scaled k) = k" by simp
  have "mag_scaled k < mag_scaled (k + 1)" by (simp add: mag_scaled_strict_mono)
  then have "nearest_even k (real (mag_scaled k)) = k"
    by (simp add: nearest_even_def)
  then show ?thesis
    using assms by (simp add: round_mag_nearest idx del: of_nat_add)
qed

lemma mag_scaled_values:
  "mag_scaled 0 = 0" "mag_scaled 1 = 1" "mag_scaled inf_mag = 2 ^ 277"
  by (simp_all add: mag_scaled_def scaled_mag_def inf_mag_def)

lemma round_mag_zero: "round_mag 0 = 0"
  using round_mag_exact [of 0] by (simp add: mag_scaled_values)

lemma round_mag_overflow:
  assumes "2 ^ 128 \<le> r"
  shows "round_mag r = inf_mag"
proof -
  have "round_mag (real (mag_scaled inf_mag) / 2 ^ 149) = inf_mag"
    by (rule round_mag_exact) simp
  then have "round_mag (2 ^ 128) = inf_mag"
    by (simp add: mag_scaled_values)
  with round_mag_mono [OF assms] round_mag_le_inf [of r] show ?thesis by simp
qed

lemma round_mag_pos:
  assumes "1 / 2 ^ 149 \<le> r"
  shows "0 < round_mag r"
proof -
  have "round_mag (real (mag_scaled 1) / 2 ^ 149) = 1"
    by (rule round_mag_exact) (simp add: inf_mag_def)
  then have "round_mag (1 / 2 ^ 149) = 1" by (simp only: mag_scaled_values of_nat_1)
  with round_mag_mono [OF assms] show ?thesis by simp
qed

section \<open>Signs and classes of the results of the operations\<close>

lemma not_nan_cases: "\<not> is_nan f \<Longrightarrow> is_inf f \<or> is_finite f"
  by (auto simp: class_by_mag_bits)

lemma inf_not_finite: "is_inf f \<Longrightarrow> \<not> is_finite f" "is_inf f \<Longrightarrow> \<not> is_nan f"
  "is_inf f \<Longrightarrow> \<not> is_zero f"
  by (auto simp: class_by_mag_bits is_zero_mag_bits inf_mag_def)

lemma zero_finite: "is_zero f \<Longrightarrow> is_finite f"
  by (simp add: class_by_mag_bits is_zero_mag_bits inf_mag_def)

lemma sign_valof: "sign_bit f \<Longrightarrow> valof f \<le> 0" "\<not> sign_bit f \<Longrightarrow> 0 \<le> valof f"
  by (simp_all add: valof_def)

lemma mag_scaled_pos: "0 < k \<Longrightarrow> 0 < mag_scaled k"
  using mag_scaled_strict_mono [of 0 k] by (simp add: mag_scaled_values)

lemma valof_zero_iff: "valof f = 0 \<longleftrightarrow> is_zero f"
proof -
  have "mag_scaled (mag_bits f) = 0 \<longleftrightarrow> mag_bits f = 0"
    using mag_scaled_pos [of "mag_bits f"] by (cases "mag_bits f = 0") (simp_all add: mag_scaled_values)
  then show ?thesis
    by (simp add: valof_mag_bits is_zero_mag_bits)
qed

lemma valof_neg_iff: "valof f < 0 \<longleftrightarrow> sign_bit f \<and> \<not> is_zero f"
  using sign_valof [of f] valof_zero_iff [of f] by (cases "sign_bit f") auto

lemma valof_pos_iff: "0 < valof f \<longleftrightarrow> \<not> sign_bit f \<and> \<not> is_zero f"
  using sign_valof [of f] valof_zero_iff [of f] by (cases "sign_bit f") auto

lemma abs_valof_inf: "is_inf f \<Longrightarrow> \<bar>valof f\<bar> = 2 ^ 128"
  by (simp add: abs_valof class_by_mag_bits mag_scaled_values)

lemma abs_valof_finite: "is_finite f \<Longrightarrow> \<bar>valof f\<bar> < 2 ^ 128"
proof -
  assume "is_finite f"
  then have "mag_scaled (mag_bits f) < mag_scaled inf_mag"
    by (simp add: class_by_mag_bits mag_scaled_strict_mono)
  then have "real (mag_scaled (mag_bits f)) < 2 ^ 277"
    by (simp add: mag_scaled_values)
  then show ?thesis by (simp add: abs_valof)
qed

lemma valof_inf: "is_inf f \<Longrightarrow> valof f = (if sign_bit f then - (2 ^ 128) else 2 ^ 128)"
  by (simp add: valof_mag_bits class_by_mag_bits mag_scaled_values)

text \<open>The value of a rounded magnitude.\<close>

lemma valof_units: "\<exists>n::int. valof f = real_of_int n / 2 ^ 149"
proof (cases "sign_bit f")
  case True
  then have "valof f = real_of_int (- int (mag_scaled (mag_bits f))) / 2 ^ 149"
    by (simp add: valof_mag_bits)
  then show ?thesis by blast
next
  case False
  then have "valof f = real_of_int (int (mag_scaled (mag_bits f))) / 2 ^ 149"
    by (simp add: valof_mag_bits)
  then show ?thesis by blast
qed

lemma valof_diff_ge:
  assumes "valof a \<noteq> valof b"
  shows "1 / 2 ^ 149 \<le> \<bar>valof a - valof b\<bar>"
proof -
  obtain m n :: int where m: "valof a = real_of_int m / 2 ^ 149"
    and n: "valof b = real_of_int n / 2 ^ 149"
    using valof_units by blast
  with assms have "m \<noteq> n" by auto
  then have "1 \<le> \<bar>m - n\<bar>" by simp
  then have "1 \<le> \<bar>real_of_int (m - n)\<bar>" by (metis of_int_1_le_iff of_int_abs)
  moreover have "\<bar>valof a - valof b\<bar> = \<bar>real_of_int (m - n)\<bar> / 2 ^ 149"
    by (simp add: m n diff_divide_distrib [symmetric] del: of_int_diff)
  ultimately show ?thesis by (simp add: divide_right_mono)
qed

lemma fsub_finite:
  assumes "is_finite a" "is_finite b" "valof a \<noteq> valof b"
  shows "fsub a b = pack_float (valof a < valof b) (round_mag \<bar>valof a - valof b\<bar>)"
  using assms by (simp add: fsub_def Let_def class_by_mag_bits)

lemma fsub_less:
  assumes "flt_less a b"
  shows "\<not> is_nan (fsub a b)" "sign_bit (fsub a b)" "\<not> is_zero (fsub a b)"
proof -
  from assms have nn: "\<not> is_nan a" "\<not> is_nan b" and lt: "valof a < valof b"
    by (simp_all add: flt_less_def)
  have "\<not> is_nan (fsub a b) \<and> sign_bit (fsub a b) \<and> \<not> is_zero (fsub a b)"
  proof (cases "is_inf a")
    case True
    then have a: "\<bar>valof a\<bar> = 2 ^ 128" by (rule abs_valof_inf)
    have b: "\<bar>valof b\<bar> \<le> 2 ^ 128"
      using not_nan_cases [OF nn(2)] abs_valof_inf [of b] abs_valof_finite [of b] by auto
    from a b lt have "valof a < 0" by linarith
    then have sa: "sign_bit a" by (simp add: valof_neg_iff)
    have "\<not> (is_inf b \<and> sign_bit a = sign_bit b)"
      using lt a sa valof_inf [of b] valof_inf [OF True] by (auto split: if_splits)
    then have "fsub a b = a"
      using nn True by (auto simp: fsub_def)
    then show ?thesis using True sa by (simp add: inf_not_finite)
  next
    case fa: False
    show ?thesis
    proof (cases "is_inf b")
      case True
      have a: "\<bar>valof a\<bar> < 2 ^ 128"
        using not_nan_cases [OF nn(1)] fa abs_valof_finite [of a] by auto
      from True have "\<bar>valof b\<bar> = 2 ^ 128" by (rule abs_valof_inf)
      with a lt have "0 < valof b" by linarith
      then have "\<not> sign_bit b" by (simp add: valof_pos_iff)
      then have "fsub a b = pack_float True inf_mag"
        using nn fa True by (simp add: fsub_def)
      then show ?thesis
        by (simp add: pack_float_class pack_float_bits inf_mag_def)
    next
      case fb: False
      have fin: "is_finite a" "is_finite b"
        using not_nan_cases nn fa fb by blast+
      have eq: "fsub a b = pack_float True (round_mag \<bar>valof a - valof b\<bar>)"
        using fsub_finite [OF fin] lt by simp
      have "0 < round_mag \<bar>valof a - valof b\<bar>"
        using lt by (intro round_mag_pos valof_diff_ge) simp
      then show ?thesis
        by (simp add: eq pack_float_class pack_float_bits round_mag_le_inf)
    qed
  qed
  then show "\<not> is_nan (fsub a b)" "sign_bit (fsub a b)" "\<not> is_zero (fsub a b)" by simp_all
qed

lemma fsub_greater:
  assumes "flt_less b a"
  shows "\<not> is_nan (fsub a b)" "\<not> sign_bit (fsub a b)" "\<not> is_zero (fsub a b)"
proof -
  from assms have nn: "\<not> is_nan a" "\<not> is_nan b" and lt: "valof b < valof a"
    by (simp_all add: flt_less_def)
  have "\<not> is_nan (fsub a b) \<and> \<not> sign_bit (fsub a b) \<and> \<not> is_zero (fsub a b)"
  proof (cases "is_inf a")
    case True
    then have a: "\<bar>valof a\<bar> = 2 ^ 128" by (rule abs_valof_inf)
    have b: "\<bar>valof b\<bar> \<le> 2 ^ 128"
      using not_nan_cases [OF nn(2)] abs_valof_inf [of b] abs_valof_finite [of b] by auto
    from a b lt have "0 < valof a" by linarith
    then have sa: "\<not> sign_bit a" by (simp add: valof_pos_iff)
    have "\<not> (is_inf b \<and> sign_bit a = sign_bit b)"
      using lt a sa valof_inf [of b] valof_inf [OF True] by (auto split: if_splits)
    then have "fsub a b = a"
      using nn True by (auto simp: fsub_def)
    then show ?thesis using True sa by (simp add: inf_not_finite)
  next
    case fa: False
    show ?thesis
    proof (cases "is_inf b")
      case True
      have a: "\<bar>valof a\<bar> < 2 ^ 128"
        using not_nan_cases [OF nn(1)] fa abs_valof_finite [of a] by auto
      from True have "\<bar>valof b\<bar> = 2 ^ 128" by (rule abs_valof_inf)
      with a lt have "valof b < 0" by linarith
      then have "sign_bit b" by (simp add: valof_neg_iff)
      then have "fsub a b = pack_float False inf_mag"
        using nn fa True by (simp add: fsub_def)
      then show ?thesis
        by (simp add: pack_float_class pack_float_bits inf_mag_def)
    next
      case fb: False
      have fin: "is_finite a" "is_finite b"
        using not_nan_cases nn fa fb by blast+
      have eq: "fsub a b = pack_float False (round_mag \<bar>valof a - valof b\<bar>)"
        using fsub_finite [OF fin] lt by simp
      have "0 < round_mag \<bar>valof a - valof b\<bar>"
        using lt by (intro round_mag_pos valof_diff_ge) simp
      then show ?thesis
        by (simp add: eq pack_float_class pack_float_bits round_mag_le_inf)
    qed
  qed
  then show "\<not> is_nan (fsub a b)" "\<not> sign_bit (fsub a b)" "\<not> is_zero (fsub a b)" by simp_all
qed

lemma fmul_nonzero:
  assumes "\<not> is_nan a" "\<not> is_nan b" "\<not> is_zero a" "\<not> is_zero b"
  shows "\<not> is_nan (fmul a b)" "sign_bit (fmul a b) = (sign_bit a \<noteq> sign_bit b)"
  using assms
  by (simp_all add: fmul_def pack_float_class pack_float_bits round_mag_le_inf)

lemma fmul_finite:
  assumes "is_finite a" "is_finite b"
  shows "fmul a b = pack_float (sign_bit a \<noteq> sign_bit b) (round_mag (\<bar>valof a\<bar> * \<bar>valof b\<bar>))"
  using assms by (simp add: fmul_def class_by_mag_bits)

lemma fdiv_finite:
  assumes "is_finite a" "is_finite b" "\<not> is_zero b"
  shows "fdiv a b = pack_float (sign_bit a \<noteq> sign_bit b) (round_mag (\<bar>valof a\<bar> / \<bar>valof b\<bar>))"
  using assms by (simp add: fdiv_def class_by_mag_bits)

section \<open>The slab test\<close>

lemma glm_max3_greatest:
  assumes "\<not> is_nan a" "\<not> is_nan b" "\<not> is_nan c"
  shows "flt_greatest (glm_max c (glm_max a b)) [a, b, c]"
  using assms by (auto simp: flt_greatest_def glm_max_def flt_less_def flt_le_def)

lemma glm_min3_least:
  assumes "\<not> is_nan a" "\<not> is_nan b" "\<not> is_nan c"
  shows "flt_least (glm_min c (glm_min a b)) [a, b, c]"
  using assms by (auto simp: flt_least_def glm_min_def flt_less_def flt_le_def)

lemma glm_max3_mem: "glm_max c (glm_max a b) \<in> set [a, b, c]"
  by (simp add: glm_max_def)

lemma glm_min3_mem: "glm_min c (glm_min a b) \<in> set [a, b, c]"
  by (simp add: glm_min_def)

lemma vec3_get_simps:
  "vec3_get v 0 = vx v" "vec3_get v 1 = vy v" "vec3_get v (Suc 0) = vy v" "vec3_get v 2 = vz v"
  by (simp_all add: vec3_get_def)

lemma crossings_slab:
  "near_crossings tls b ray =
     [slab (vx (Inverse tls)) (vx (Min_vec b)) (vx (Max_vec b)) (vx (Position ray)),
      slab (vy (Inverse tls)) (vy (Min_vec b)) (vy (Max_vec b)) (vy (Position ray)),
      slab (vz (Inverse tls)) (vz (Min_vec b)) (vz (Max_vec b)) (vz (Position ray))]"
  "far_crossings tls b ray =
     [slab (vx (Inverse tls)) (vx (Max_vec b)) (vx (Min_vec b)) (vx (Position ray)),
      slab (vy (Inverse tls)) (vy (Max_vec b)) (vy (Min_vec b)) (vy (Position ray)),
      slab (vz (Inverse tls)) (vz (Max_vec b)) (vz (Min_vec b)) (vz (Position ray))]"
  by (simp_all add: near_crossings_def far_crossings_def crossing_def near_face_def far_face_def
      slab_def vec3_get_simps)

lemma Intersect_crossings:
  assumes "near_crossings tls b ray = [nx, ny, nz]" "far_crossings tls b ray = [fx, fy, fz]"
  shows "Intersect tls b ray len =
     (glm_max nz (glm_max nx ny),
      flt_le (glm_max nz (glm_max nx ny)) (glm_min fz (glm_min fx fy))
      \<and> flt_less plus_zero (glm_min fz (glm_min fx fy))
      \<and> flt_less (glm_max nz (glm_max nx ny)) len)"
proof -
  from assms(1) have n: "nx = slab (vx (Inverse tls)) (vx (Min_vec b)) (vx (Max_vec b)) (vx (Position ray))"
    "ny = slab (vy (Inverse tls)) (vy (Min_vec b)) (vy (Max_vec b)) (vy (Position ray))"
    "nz = slab (vz (Inverse tls)) (vz (Min_vec b)) (vz (Max_vec b)) (vz (Position ray))"
    unfolding crossings_slab by simp_all
  from assms(2) have f: "fx = slab (vx (Inverse tls)) (vx (Max_vec b)) (vx (Min_vec b)) (vx (Position ray))"
    "fy = slab (vy (Inverse tls)) (vy (Max_vec b)) (vy (Min_vec b)) (vy (Position ray))"
    "fz = slab (vz (Inverse tls)) (vz (Max_vec b)) (vz (Min_vec b)) (vz (Position ray))"
    unfolding crossings_slab by simp_all
  show ?thesis
    unfolding n f by (simp add: Intersect_def Let_def)
qed

text \<open>
  C3 (as amended). Let the near crossings be the three crossing distances to the near
  faces and the far crossings those to the far faces, each computed with the reciprocal
  direction that the test reads. \<open>Intersect\<close> leaves in \<open>min\<close> the value \<open>tNear = glm::max(z, glm::max(x, y))\<close>
  of the near crossings whatever flag it returns, and the flag is exactly
  \<open>tNear <= tFar && 0 < tFar && tNear < length\<close> with
  \<open>tFar = glm::min(z, glm::min(x, y))\<close> of the far crossings. \<open>tNear\<close> is one of the near
  crossings and \<open>tFar\<close> one of the far crossings; when no near crossing is a NaN,
  \<open>tNear\<close> is their maximum, and when no far crossing is a NaN, \<open>tFar\<close> is their minimum.
\<close>

theorem Intersect_slab_test:
  assumes "near_crossings tls b ray = [nx, ny, nz]" "far_crossings tls b ray = [fx, fy, fz]"
    and "tNear = glm_max nz (glm_max nx ny)" "tFar = glm_min fz (glm_min fx fy)"
  shows "Intersect tls b ray len
           = (tNear, flt_le tNear tFar \<and> flt_less plus_zero tFar \<and> flt_less tNear len)
     \<and> tNear \<in> set (near_crossings tls b ray) \<and> tFar \<in> set (far_crossings tls b ray)
     \<and> ((\<forall>c \<in> set (near_crossings tls b ray). \<not> is_nan c)
          \<longrightarrow> flt_greatest tNear (near_crossings tls b ray))
     \<and> ((\<forall>c \<in> set (far_crossings tls b ray). \<not> is_nan c)
          \<longrightarrow> flt_least tFar (far_crossings tls b ray))"
proof (intro conjI impI)
  show "Intersect tls b ray len
           = (tNear, flt_le tNear tFar \<and> flt_less plus_zero tFar \<and> flt_less tNear len)"
    unfolding assms(3,4) by (rule Intersect_crossings [OF assms(1,2)])
  show "tNear \<in> set (near_crossings tls b ray)"
    unfolding assms(1,3) by (rule glm_max3_mem)
  show "tFar \<in> set (far_crossings tls b ray)"
    unfolding assms(2,4) by (rule glm_min3_mem)
next
  assume "\<forall>c \<in> set (near_crossings tls b ray). \<not> is_nan c"
  then show "flt_greatest tNear (near_crossings tls b ray)"
    unfolding assms(1,3) by (intro glm_max3_greatest) simp_all
next
  assume "\<forall>c \<in> set (far_crossings tls b ray). \<not> is_nan c"
  then show "flt_least tFar (far_crossings tls b ray)"
    unfolding assms(2,4) by (intro glm_min3_least) simp_all
qed

text \<open>Evaluation of the operations where the result is exact.\<close>

lemma fsub_exact:
  assumes "is_finite a" "is_finite b" "valof a - valof b = r" "r \<noteq> 0"
    and "k \<le> inf_mag" "real (mag_scaled k) / 2 ^ 149 = \<bar>r\<bar>"
  shows "fsub a b = pack_float (r < 0) k"
proof -
  have "round_mag \<bar>valof a - valof b\<bar> = k"
    using round_mag_exact [OF assms(5)] assms(3,6) by simp
  moreover have "valof a \<noteq> valof b" using assms(3,4) by auto
  ultimately show ?thesis
    using fsub_finite [OF assms(1,2)] assms(3) by auto
qed

lemma fmul_exact:
  assumes "is_finite a" "is_finite b"
    and "k \<le> inf_mag" "real (mag_scaled k) / 2 ^ 149 = \<bar>valof a\<bar> * \<bar>valof b\<bar>"
  shows "fmul a b = pack_float (sign_bit a \<noteq> sign_bit b) k"
  using round_mag_exact [OF assms(3)] fmul_finite [OF assms(1,2)] assms(4) by simp

lemma fdiv_exact:
  assumes "is_finite a" "is_finite b" "\<not> is_zero b"
    and "k \<le> inf_mag" "real (mag_scaled k) / 2 ^ 149 = \<bar>valof a\<bar> / \<bar>valof b\<bar>"
  shows "fdiv a b = pack_float (sign_bit a \<noteq> sign_bit b) k"
  using round_mag_exact [OF assms(4)] fdiv_finite [OF assms(1,2,3)] assms(5) by simp

lemmas pattern_eval = float_eval mag_scaled_def inf_mag_def pack_float_def
  plus_zero_def minus_zero_def plus_inf_def minus_inf_def float_one_def float_minus_one_def

lemma reciprocal_eval:
  "fdiv float_one float_one = float_one" "fdiv float_one plus_zero = plus_inf"
  "fdiv float_one 0x5D800000 = 0x21800000"
proof -
  show "fdiv float_one float_one = float_one"
    using fdiv_exact [of float_one float_one "0x3F800000"] by (simp add: pattern_eval)
  show "fdiv float_one plus_zero = plus_inf"
    by (simp add: fdiv_def pattern_eval)
  show "fdiv float_one 0x5D800000 = 0x21800000"
    using fdiv_exact [of float_one "0x5D800000" "0x21800000"] by (simp add: pattern_eval)
qed

lemma miss_sub:
  "fsub plus_zero float_5 = 0xC0A00000" "fsub float_one float_5 = 0xC0800000"
proof -
  show "fsub plus_zero float_5 = 0xC0A00000"
    using fsub_exact [of plus_zero float_5 "- 5" "0x40A00000"]
    by (simp add: pattern_eval float_5_def)
  show "fsub float_one float_5 = 0xC0800000"
    using fsub_exact [of float_one float_5 "- 4" "0x40800000"]
    by (simp add: pattern_eval float_5_def)
qed

lemma miss_mul:
  "fmul 0xC0A00000 float_one = 0xC0A00000" "fmul 0xC0800000 float_one = 0xC0800000"
  "fmul 0xC0A00000 plus_inf = minus_inf" "fmul 0xC0800000 plus_inf = minus_inf"
proof -
  show "fmul 0xC0A00000 float_one = 0xC0A00000"
    using fmul_exact [of "0xC0A00000" float_one "0x40A00000"]
    by (simp add: pattern_eval)
  show "fmul 0xC0800000 float_one = 0xC0800000"
    using fmul_exact [of "0xC0800000" float_one "0x40800000"]
    by (simp add: pattern_eval)
  show "fmul 0xC0A00000 plus_inf = minus_inf" "fmul 0xC0800000 plus_inf = minus_inf"
    by (simp_all add: fmul_def pattern_eval)
qed

lemma miss_crossings:
  "near_crossings \<lparr>Inverse = \<lparr>vx = float_one, vy = plus_inf, vz = plus_inf\<rparr>\<rparr> unit_box
     \<lparr>Position = vec3_splat float_5, Direction = \<lparr>vx = float_one, vy = plus_zero, vz = plus_zero\<rparr>\<rparr>
   = [0xC0A00000, minus_inf, minus_inf]"
  "far_crossings \<lparr>Inverse = \<lparr>vx = float_one, vy = plus_inf, vz = plus_inf\<rparr>\<rparr> unit_box
     \<lparr>Position = vec3_splat float_5, Direction = \<lparr>vx = float_one, vy = plus_zero, vz = plus_zero\<rparr>\<rparr>
   = [0xC0800000, minus_inf, minus_inf]"
proof -
  have pos: "flt_less plus_zero float_one" "flt_less plus_zero plus_inf"
    by (simp_all add: flt_less_def pattern_eval)
  show "near_crossings \<lparr>Inverse = \<lparr>vx = float_one, vy = plus_inf, vz = plus_inf\<rparr>\<rparr> unit_box
     \<lparr>Position = vec3_splat float_5, Direction = \<lparr>vx = float_one, vy = plus_zero, vz = plus_zero\<rparr>\<rparr>
   = [0xC0A00000, minus_inf, minus_inf]"
    by (simp add: near_crossings_def crossing_def near_face_def vec3_get_simps unit_box_def
        vec3_splat_def pos miss_sub miss_mul)
  show "far_crossings \<lparr>Inverse = \<lparr>vx = float_one, vy = plus_inf, vz = plus_inf\<rparr>\<rparr> unit_box
     \<lparr>Position = vec3_splat float_5, Direction = \<lparr>vx = float_one, vy = plus_zero, vz = plus_zero\<rparr>\<rparr>
   = [0xC0800000, minus_inf, minus_inf]"
    by (simp add: far_crossings_def crossing_def far_face_def vec3_get_simps unit_box_def
        vec3_splat_def pos miss_sub miss_mul)
qed

lemma miss_extremes:
  "glm_max minus_inf (glm_max 0xC0A00000 minus_inf) = 0xC0A00000"
  "glm_min minus_inf (glm_min 0xC0800000 minus_inf) = minus_inf"
  by (simp_all add: glm_max_def glm_min_def flt_less_def pattern_eval)

theorem Intersect_slab_test_witness:
  "Intersect \<lparr>Inverse = \<lparr>vx = float_one, vy = plus_inf, vz = plus_inf\<rparr>\<rparr> unit_box
     \<lparr>Position = vec3_splat float_5, Direction = \<lparr>vx = float_one, vy = plus_zero, vz = plus_zero\<rparr>\<rparr>
     float_one
   = (0xC0A00000, False)
   \<and> flt_greatest 0xC0A00000 [0xC0A00000, minus_inf, minus_inf]
   \<and> flt_least minus_inf [0xC0800000, minus_inf, minus_inf]"
proof -
  have nn: "\<forall>c \<in> set [0xC0A00000, minus_inf, minus_inf]. \<not> is_nan c"
    "\<forall>c \<in> set [0xC0800000, minus_inf, minus_inf]. \<not> is_nan c"
    by (simp_all add: pattern_eval)
  have le: "\<not> flt_le 0xC0A00000 minus_inf"
    by (simp add: flt_le_def pattern_eval)
  show ?thesis
    using Intersect_slab_test [OF miss_crossings miss_extremes [symmetric], of float_one] nn le
    by (simp only: miss_crossings) simp
qed

lemma plane_sub:
  "fsub plus_zero plus_zero = plus_zero" "fsub plus_zero 0xC0A00000 = float_5"
  "fsub plus_zero 0xC0000000 = 0x40000000" "fsub float_one plus_zero = float_one"
  "fsub float_one 0xC0A00000 = 0x40C00000" "fsub float_one 0xC0000000 = 0x40400000"
proof -
  show "fsub plus_zero plus_zero = plus_zero"
    by (simp add: fsub_def pattern_eval)
  show "fsub plus_zero 0xC0A00000 = float_5"
    using fsub_exact [of plus_zero "0xC0A00000" 5 "0x40A00000"]
    by (simp add: pattern_eval float_5_def)
  show "fsub plus_zero 0xC0000000 = 0x40000000"
    using fsub_exact [of plus_zero "0xC0000000" 2 "0x40000000"]
    by (simp add: pattern_eval)
  show "fsub float_one plus_zero = float_one"
    using fsub_exact [of float_one plus_zero 1 "0x3F800000"]
    by (simp add: pattern_eval)
  show "fsub float_one 0xC0A00000 = 0x40C00000"
    using fsub_exact [of float_one "0xC0A00000" 6 "0x40C00000"]
    by (simp add: pattern_eval)
  show "fsub float_one 0xC0000000 = 0x40400000"
    using fsub_exact [of float_one "0xC0000000" 3 "0x40400000"]
    by (simp add: pattern_eval)
qed

lemma plane_mul:
  "is_nan (fmul plus_zero plus_inf)" "fmul float_5 float_one = float_5"
  "fmul 0x40000000 float_one = 0x40000000" "fmul float_one plus_inf = plus_inf"
  "fmul 0x40C00000 float_one = 0x40C00000" "fmul 0x40400000 float_one = 0x40400000"
proof -
  show "is_nan (fmul plus_zero plus_inf)"
    by (simp add: fmul_def pattern_eval quiet_nan_def)
  show "fmul float_5 float_one = float_5"
    using fmul_exact [of float_5 float_one "0x40A00000"] by (simp add: pattern_eval float_5_def)
  show "fmul 0x40000000 float_one = 0x40000000"
    using fmul_exact [of "0x40000000" float_one "0x40000000"] by (simp add: pattern_eval)
  show "fmul float_one plus_inf = plus_inf"
    by (simp add: fmul_def pattern_eval)
  show "fmul 0x40C00000 float_one = 0x40C00000"
    using fmul_exact [of "0x40C00000" float_one "0x40C00000"] by (simp add: pattern_eval)
  show "fmul 0x40400000 float_one = 0x40400000"
    using fmul_exact [of "0x40400000" float_one "0x40400000"] by (simp add: pattern_eval)
qed

lemma plane_reciprocal:
  "reciprocal (Direction plane_ray) = \<lparr>vx = plus_inf, vy = float_one, vz = float_one\<rparr>"
  by (simp add: reciprocal_def plane_ray_def vec3_map2_def vec3_splat_def reciprocal_eval)

lemma plane_crossings:
  "near_crossings \<lparr>Inverse = reciprocal (Direction plane_ray)\<rparr> unit_box plane_ray
     = [fmul plus_zero plus_inf, float_5, 0x40000000]"
  "far_crossings \<lparr>Inverse = reciprocal (Direction plane_ray)\<rparr> unit_box plane_ray
     = [plus_inf, 0x40C00000, 0x40400000]"
proof -
  have pos: "flt_less plus_zero float_one" "flt_less plus_zero plus_inf"
    by (simp_all add: flt_less_def pattern_eval)
  show "near_crossings \<lparr>Inverse = reciprocal (Direction plane_ray)\<rparr> unit_box plane_ray
     = [fmul plus_zero plus_inf, float_5, 0x40000000]"
    unfolding plane_reciprocal
    by (simp add: near_crossings_def crossing_def near_face_def vec3_get_simps unit_box_def
        plane_ray_def vec3_splat_def pos plane_sub plane_mul)
  show "far_crossings \<lparr>Inverse = reciprocal (Direction plane_ray)\<rparr> unit_box plane_ray
     = [plus_inf, 0x40C00000, 0x40400000]"
    unfolding plane_reciprocal
    by (simp add: far_crossings_def crossing_def far_face_def vec3_get_simps unit_box_def
        plane_ray_def vec3_splat_def pos plane_sub plane_mul)
qed

lemma plane_extremes:
  "glm_max 0x40000000 (glm_max (fmul plus_zero plus_inf) float_5) = 0x40000000"
  "glm_min 0x40400000 (glm_min plus_inf 0x40C00000) = 0x40400000"
proof -
  have n: "\<not> flt_less (fmul plus_zero plus_inf) float_5"
    "\<not> flt_less 0x40000000 (fmul plus_zero plus_inf)"
    using plane_mul(1) by (simp_all add: flt_less_def)
  show "glm_max 0x40000000 (glm_max (fmul plus_zero plus_inf) float_5) = 0x40000000"
    by (simp add: glm_max_def n)
  show "glm_min 0x40400000 (glm_min plus_inf 0x40C00000) = 0x40400000"
    by (simp add: glm_min_def flt_less_def pattern_eval)
qed

text \<open>
  C3 as stated fails: \<open>tNear\<close> need not be the maximum of the near crossings. For the unit
  box and the ray from \<open>(0, -5, -2)\<close> along \<open>(0, 1, 1)\<close>, with the reciprocal direction
  \<open>(+inf, 1, 1)\<close> computed by the division, the near crossings are \<open>0 * inf\<close>, a NaN, then
  5 and 2. \<open>glm::max(x, y)\<close> keeps the NaN, \<open>glm::max(z, NaN)\<close> returns \<open>z\<close>, and the test
  stores \<open>tNear = 2\<close>, below the crossing 5; it reports a hit.
\<close>

theorem Intersect_tNear_below_crossing:
  "Intersect \<lparr>Inverse = reciprocal (Direction plane_ray)\<rparr> unit_box plane_ray float_10
     = (0x40000000, True)
   \<and> is_nan (near_crossings \<lparr>Inverse = reciprocal (Direction plane_ray)\<rparr> unit_box plane_ray ! 0)
   \<and> near_crossings \<lparr>Inverse = reciprocal (Direction plane_ray)\<rparr> unit_box plane_ray ! 1 = float_5
   \<and> near_crossings \<lparr>Inverse = reciprocal (Direction plane_ray)\<rparr> unit_box plane_ray ! 2
       = 0x40000000
   \<and> flt_less 0x40000000 float_5
   \<and> \<not> flt_greatest
         (fst (Intersect \<lparr>Inverse = reciprocal (Direction plane_ray)\<rparr> unit_box plane_ray float_10))
         (near_crossings \<lparr>Inverse = reciprocal (Direction plane_ray)\<rparr> unit_box plane_ray)"
proof -
  let ?tls = "\<lparr>Inverse = reciprocal (Direction plane_ray)\<rparr>"
  have c: "flt_le 0x40000000 0x40400000" "flt_less plus_zero 0x40400000"
    "flt_less 0x40000000 float_10" "flt_less 0x40000000 float_5" "\<not> flt_le float_5 0x40000000"
    by (simp_all add: flt_le_def flt_less_def float_10_def float_5_def pattern_eval)
  have i: "Intersect ?tls unit_box plane_ray float_10 = (0x40000000, True)"
    using Intersect_crossings [OF plane_crossings, of float_10]
    by (simp only: plane_extremes c) simp
  have g: "\<not> flt_greatest 0x40000000 (near_crossings ?tls unit_box plane_ray)"
    unfolding plane_crossings(1) using c(5) by (simp add: flt_greatest_def)
  show ?thesis
    unfolding i using plane_mul(1) c(4) g
    by (simp add: plane_crossings(1))
qed

section \<open>Where the slab test reads the reciprocal direction\<close>

lemma Intersect_miss_ray:
  "Intersect \<lparr>Inverse = miss_Inverse\<rparr> unit_box miss_ray len = (0xC0A00000, False)"
proof -
  have "\<not> flt_le 0xC0A00000 minus_inf"
    by (simp add: flt_le_def pattern_eval)
  then show ?thesis
    using Intersect_crossings [OF miss_crossings, of len]
    by (simp add: miss_extremes miss_ray_def miss_Inverse_def)
qed

lemma back_mul:
  "fmul 0xC0A00000 float_minus_one = 0x40A00000" "fmul 0xC0800000 float_minus_one = 0x40800000"
proof -
  show "fmul 0xC0A00000 float_minus_one = 0x40A00000"
    using fmul_exact [of "0xC0A00000" float_minus_one "0x40A00000"]
    by (simp add: pattern_eval)
  show "fmul 0xC0800000 float_minus_one = 0x40800000"
    using fmul_exact [of "0xC0800000" float_minus_one "0x40800000"]
    by (simp add: pattern_eval)
qed

lemma Intersect_after_set_Inverse:
  "Intersect (set_Inverse \<lparr>Inverse = miss_Inverse\<rparr> other_ray (vec3_splat float_minus_one))
     unit_box miss_ray float_10 = (0x40800000, True)"
proof -
  let ?tls = "set_Inverse \<lparr>Inverse = miss_Inverse\<rparr> other_ray (vec3_splat float_minus_one)"
  have neg: "\<not> flt_less plus_zero float_minus_one"
    by (simp add: flt_less_def pattern_eval)
  have n: "near_crossings ?tls unit_box miss_ray = [0x40800000, 0x40800000, 0x40800000]"
    by (simp add: near_crossings_def crossing_def near_face_def vec3_get_simps unit_box_def
        vec3_splat_def set_Inverse_def miss_ray_def neg miss_sub back_mul)
  have f: "far_crossings ?tls unit_box miss_ray = [0x40A00000, 0x40A00000, 0x40A00000]"
    by (simp add: far_crossings_def crossing_def far_face_def vec3_get_simps unit_box_def
        vec3_splat_def set_Inverse_def miss_ray_def neg miss_sub back_mul)
  have e: "glm_max 0x40800000 (glm_max 0x40800000 0x40800000) = 0x40800000"
    "glm_min 0x40A00000 (glm_min 0x40A00000 0x40A00000) = 0x40A00000"
    by (simp_all add: glm_max_def glm_min_def)
  have c: "flt_le 0x40800000 0x40A00000" "flt_less plus_zero 0x40A00000"
    "flt_less 0x40800000 float_10"
    by (simp_all add: flt_le_def flt_less_def float_10_def pattern_eval)
  show ?thesis
    using Intersect_crossings [OF n f, of float_10] by (simp add: e c)
qed

text \<open>
  C9 (as amended). The reciprocal direction that \<open>Intersect\<close> reads is the \<open>Inverse\<close> of
  the calling thread, shared by all rays that the thread handles. The result of
  \<open>Intersect\<close> depends only on the box, on the \<open>Position\<close> of the ray, on the thread's
  current \<open>Inverse\<close> and on the length; the \<open>Direction\<close> of the ray is not read. Setting
  \<open>Inverse\<close> through any ray sets it for every ray tested afterwards on that thread.
\<close>

theorem Intersect_reads_thread_Inverse:
  "(Inverse tls = Inverse tls' \<and> Position ray = Position ray'
      \<longrightarrow> Intersect tls b ray len = Intersect tls' b ray' len)
   \<and> Inverse (set_Inverse tls ray1 v) = v
   \<and> Intersect (set_Inverse tls ray1 v) b ray2 len = Intersect \<lparr>Inverse = v\<rparr> b ray2 len"
proof (intro conjI impI)
  assume "Inverse tls = Inverse tls' \<and> Position ray = Position ray'"
  then have same: "Inverse tls = Inverse tls'" "Position ray = Position ray'" by simp_all
  show "Intersect tls b ray len = Intersect tls' b ray' len"
    unfolding Intersect_def same ..
next
  show written: "Inverse (set_Inverse tls ray1 v) = v"
    by (simp add: set_Inverse_def)
  have "Inverse (set_Inverse tls ray1 v) = Inverse \<lparr>Inverse = v\<rparr>"
    using written by simp
  then show "Intersect (set_Inverse tls ray1 v) b ray2 len = Intersect \<lparr>Inverse = v\<rparr> b ray2 len"
    unfolding Intersect_def by (simp only:)
qed

theorem Intersect_reads_thread_Inverse_witness:
  "Inverse \<lparr>Inverse = miss_Inverse\<rparr> = Inverse (set_Inverse \<lparr>Inverse = vec3_splat plus_zero\<rparr> other_ray miss_Inverse)
   \<and> Position miss_ray = Position (miss_ray\<lparr>Direction := vec3_splat float_minus_one\<rparr>)
   \<and> Intersect \<lparr>Inverse = miss_Inverse\<rparr> unit_box miss_ray float_10
       = Intersect (set_Inverse \<lparr>Inverse = vec3_splat plus_zero\<rparr> other_ray miss_Inverse) unit_box
           (miss_ray\<lparr>Direction := vec3_splat float_minus_one\<rparr>) float_10"
proof -
  have h: "Inverse \<lparr>Inverse = miss_Inverse\<rparr>
             = Inverse (set_Inverse \<lparr>Inverse = vec3_splat plus_zero\<rparr> other_ray miss_Inverse)
           \<and> Position miss_ray = Position (miss_ray\<lparr>Direction := vec3_splat float_minus_one\<rparr>)"
    by (simp add: set_Inverse_def)
  show ?thesis
    using h Intersect_reads_thread_Inverse
      [of "\<lparr>Inverse = miss_Inverse\<rparr>"
          "set_Inverse \<lparr>Inverse = vec3_splat plus_zero\<rparr> other_ray miss_Inverse"
          miss_ray "miss_ray\<lparr>Direction := vec3_splat float_minus_one\<rparr>" unit_box float_10]
    by blast
qed

text \<open>
  C9 as stated fails: with \<open>Inverse\<close> set for the ray of the miss case, the test of that
  ray against the unit box reports a miss; after \<open>Inverse\<close> has been set through another
  ray, the same test of the same ray reports a hit at distance 4.
\<close>

theorem Intersect_other_ray_interferes:
  "miss_ray \<noteq> other_ray
   \<and> Intersect \<lparr>Inverse = miss_Inverse\<rparr> unit_box miss_ray float_10 = (0xC0A00000, False)
   \<and> Intersect (set_Inverse \<lparr>Inverse = miss_Inverse\<rparr> other_ray (vec3_splat float_minus_one))
        unit_box miss_ray float_10 = (0x40800000, True)"
proof -
  have "Position miss_ray \<noteq> Position other_ray"
    by (simp add: miss_ray_def other_ray_def vec3_splat_def float_5_def plus_zero_def)
  then have "miss_ray \<noteq> other_ray" by auto
  then show ?thesis
    by (simp add: Intersect_miss_ray Intersect_after_set_Inverse)
qed

section \<open>A ray that starts inside the box\<close>

lemma float_one_class: "is_finite float_one" "\<not> sign_bit float_one" "valof float_one = 1"
  "\<not> is_nan float_one" "\<not> is_zero float_one"
  by (simp_all add: pattern_eval)

lemma plus_zero_class: "\<not> is_nan plus_zero" "valof plus_zero = 0" "is_zero plus_zero"
  "is_finite plus_zero" "\<not> sign_bit plus_zero"
  by (simp_all add: pattern_eval)

lemma round_mag_one: "round_mag 1 = one_mag" "real (mag_scaled one_mag) / 2 ^ 149 = 1"
proof -
  show m: "real (mag_scaled one_mag) / 2 ^ 149 = 1"
    by (simp add: one_mag_def mag_scaled_def scaled_mag_def)
  have "one_mag \<le> inf_mag" by (simp add: one_mag_def inf_mag_def)
  from round_mag_exact [OF this] show "round_mag 1 = one_mag" by (simp only: m)
qed

lemma abs_valof_ge_unit:
  assumes "\<not> is_zero a"
  shows "1 / 2 ^ 149 \<le> \<bar>valof a\<bar>"
proof -
  have "0 < mag_bits a" using assms by (simp add: is_zero_mag_bits)
  then have "1 \<le> mag_scaled (mag_bits a)"
    using mag_scaled_pos [of "mag_bits a"] by simp
  then have "1 \<le> real (mag_scaled (mag_bits a))" by simp
  then show ?thesis by (simp add: abs_valof divide_right_mono)
qed

lemma fdiv_one_class:
  assumes "is_finite d" "\<not> is_zero d"
  shows "\<not> is_nan (fdiv float_one d)" "\<not> is_zero (fdiv float_one d)"
    "sign_bit (fdiv float_one d) = sign_bit d"
proof -
  have eq: "fdiv float_one d = pack_float (sign_bit d) (round_mag (1 / \<bar>valof d\<bar>))"
    using fdiv_finite [OF float_one_class(1) assms] by (simp add: float_one_class)
  have pos: "0 < \<bar>valof d\<bar>" using assms(2) by (simp add: valof_zero_iff)
  have "\<bar>valof d\<bar> < 2 ^ 128" using assms(1) by (rule abs_valof_finite)
  then have "\<bar>valof d\<bar> \<le> 2 ^ 149" by simp
  then have "1 / 2 ^ 149 \<le> 1 / \<bar>valof d\<bar>"
    using pos by (simp add: frac_le)
  then have "0 < round_mag (1 / \<bar>valof d\<bar>)" by (rule round_mag_pos)
  then show "\<not> is_nan (fdiv float_one d)" "\<not> is_zero (fdiv float_one d)"
    "sign_bit (fdiv float_one d) = sign_bit d"
    by (simp_all add: eq pack_float_class pack_float_bits round_mag_le_inf)
qed

lemma fdiv_one_ge:
  assumes "is_finite d" "\<not> is_zero d" "\<bar>valof d\<bar> \<le> 1"
  shows "1 \<le> \<bar>valof (fdiv float_one d)\<bar>"
proof -
  have eq: "fdiv float_one d = pack_float (sign_bit d) (round_mag (1 / \<bar>valof d\<bar>))"
    using fdiv_finite [OF float_one_class(1) assms(1,2)] by (simp add: float_one_class)
  have pos: "0 < \<bar>valof d\<bar>" using assms(2) by (simp add: valof_zero_iff)
  then have "1 \<le> 1 / \<bar>valof d\<bar>" using assms(3) by simp
  then have "one_mag \<le> round_mag (1 / \<bar>valof d\<bar>)"
    using round_mag_mono [of 1 "1 / \<bar>valof d\<bar>"] by (simp add: round_mag_one)
  then have "mag_scaled one_mag \<le> mag_scaled (round_mag (1 / \<bar>valof d\<bar>))"
    by (rule mag_scaled_mono)
  then have "real (mag_scaled one_mag) / 2 ^ 149
               \<le> real (mag_scaled (round_mag (1 / \<bar>valof d\<bar>))) / 2 ^ 149"
    by (simp add: divide_right_mono)
  then have "1 \<le> real (mag_scaled (round_mag (1 / \<bar>valof d\<bar>))) / 2 ^ 149"
    by (simp only: round_mag_one(2))
  moreover have "\<bar>valof (fdiv float_one d)\<bar>
                  = real (mag_scaled (round_mag (1 / \<bar>valof d\<bar>))) / 2 ^ 149"
    unfolding eq abs_valof by (simp only: pack_float_bits(1) [OF round_mag_le_inf])
  ultimately show ?thesis by simp
qed

lemma fmul_not_zero:
  assumes "\<not> is_nan a" "\<not> is_nan b" "\<not> is_zero a" "1 \<le> \<bar>valof b\<bar>"
  shows "\<not> is_zero (fmul a b)"
proof (cases "is_inf a \<or> is_inf b")
  case True
  have "\<not> is_zero b" using assms(4) valof_zero_iff [of b] by auto
  then have "fmul a b = pack_float (sign_bit a \<noteq> sign_bit b) inf_mag"
    using True assms by (auto simp: fmul_def)
  then show ?thesis by (simp add: pack_float_class inf_mag_def)
next
  case False
  then have fin: "is_finite a" "is_finite b"
    using not_nan_cases assms(1,2) by blast+
  have "1 / 2 ^ 149 * 1 \<le> \<bar>valof a\<bar> * \<bar>valof b\<bar>"
    using abs_valof_ge_unit [OF assms(3)] assms(4) by (intro mult_mono) simp_all
  then have "0 < round_mag (\<bar>valof a\<bar> * \<bar>valof b\<bar>)"
    by (intro round_mag_pos) simp
  then show ?thesis
    by (simp add: fmul_finite [OF fin] pack_float_class round_mag_le_inf)
qed

lemma flt_less_zero_iff:
  assumes "\<not> is_nan r" "\<not> is_zero r"
  shows "flt_less plus_zero r \<longleftrightarrow> \<not> sign_bit r"
  using assms by (simp add: flt_less_def plus_zero_class valof_pos_iff)

lemma slab_signs:
  assumes "flt_less lo p" "flt_less p hi" "\<not> is_nan r" "\<not> is_zero r"
  shows "\<not> is_nan (slab r lo hi p)" "sign_bit (slab r lo hi p)"
    "\<not> is_nan (slab r hi lo p)" "\<not> sign_bit (slab r hi lo p)"
    "1 \<le> \<bar>valof r\<bar> \<Longrightarrow> \<not> is_zero (slab r lo hi p) \<and> \<not> is_zero (slab r hi lo p)"
proof -
  note lo = fsub_less [OF assms(1)] and hi = fsub_greater [OF assms(2)]
  have n: "slab r lo hi p = fmul (if sign_bit r then fsub hi p else fsub lo p) r"
    and f: "slab r hi lo p = fmul (if sign_bit r then fsub lo p else fsub hi p) r"
    by (simp_all add: slab_def flt_less_zero_iff [OF assms(3,4)])
  show "\<not> is_nan (slab r lo hi p)" "sign_bit (slab r lo hi p)"
    "\<not> is_nan (slab r hi lo p)" "\<not> sign_bit (slab r hi lo p)"
    unfolding n f using lo hi assms(3,4) by (simp_all add: fmul_nonzero)
  show "\<not> is_zero (slab r lo hi p) \<and> \<not> is_zero (slab r hi lo p)" if "1 \<le> \<bar>valof r\<bar>"
    unfolding n f using lo hi assms(3) that by (simp add: fmul_not_zero)
qed

lemma flt_le_zero: "\<not> is_nan c \<Longrightarrow> sign_bit c \<Longrightarrow> flt_le c plus_zero"
  "\<not> is_nan c \<Longrightarrow> \<not> sign_bit c \<Longrightarrow> flt_le plus_zero c"
  by (simp_all add: flt_le_def plus_zero_class sign_valof)

lemma flt_less_zero: "\<not> is_nan c \<Longrightarrow> sign_bit c \<Longrightarrow> \<not> is_zero c \<Longrightarrow> flt_less c plus_zero"
  "\<not> is_nan c \<Longrightarrow> \<not> sign_bit c \<Longrightarrow> \<not> is_zero c \<Longrightarrow> flt_less plus_zero c"
  by (simp_all add: flt_less_def plus_zero_class valof_neg_iff valof_pos_iff)

lemma flt_order_trans:
  "flt_le a plus_zero \<Longrightarrow> flt_le plus_zero b \<Longrightarrow> flt_le a b"
  "flt_less a plus_zero \<Longrightarrow> flt_le plus_zero b \<Longrightarrow> flt_less a b"
  by (auto simp: flt_le_def flt_less_def plus_zero_class)

lemma axis_inside:
  assumes "flt_less lo p" "flt_less p hi" "is_finite d" "\<not> is_zero d"
  shows "flt_le (slab (fdiv float_one d) lo hi p) plus_zero"
    "flt_le plus_zero (slab (fdiv float_one d) hi lo p)"
    "\<bar>valof d\<bar> \<le> 1 \<Longrightarrow> flt_less (slab (fdiv float_one d) lo hi p) plus_zero
        \<and> flt_less plus_zero (slab (fdiv float_one d) hi lo p)"
proof -
  note r = fdiv_one_class [OF assms(3,4)]
  note s = slab_signs [OF assms(1,2) r(1,2)]
  show "flt_le (slab (fdiv float_one d) lo hi p) plus_zero"
    using s(1,2) by (rule flt_le_zero(1))
  show "flt_le plus_zero (slab (fdiv float_one d) hi lo p)"
    using s(3,4) by (rule flt_le_zero(2))
  show "flt_less (slab (fdiv float_one d) lo hi p) plus_zero
        \<and> flt_less plus_zero (slab (fdiv float_one d) hi lo p)" if "\<bar>valof d\<bar> \<le> 1"
    using s(1-4) s(5) [OF fdiv_one_ge [OF assms(3,4) that]]
    by (simp add: flt_less_zero)
qed

lemma glm_max3_cases:
  "P a \<Longrightarrow> P b \<Longrightarrow> P c \<Longrightarrow> P (glm_max c (glm_max a b))"
  by (simp add: glm_max_def)

lemma glm_min3_cases:
  "P a \<Longrightarrow> P b \<Longrightarrow> P c \<Longrightarrow> P (glm_min c (glm_min a b))"
  by (simp add: glm_min_def)

lemma Intersect_max_crossings:
  assumes "far_crossings tls b ray = [fx, fy, fz]"
  shows "Intersect_max tls b ray = glm_min fz (glm_min fx fy)"
proof -
  from assms have f: "fx = slab (vx (Inverse tls)) (vx (Max_vec b)) (vx (Min_vec b)) (vx (Position ray))"
    "fy = slab (vy (Inverse tls)) (vy (Max_vec b)) (vy (Min_vec b)) (vy (Position ray))"
    "fz = slab (vz (Inverse tls)) (vz (Max_vec b)) (vz (Min_vec b)) (vz (Position ray))"
    unfolding crossings_slab by simp_all
  show ?thesis
    unfolding f by (simp add: Intersect_max_def Let_def)
qed

lemma Intersect_own_extremes:
  "Intersect tls b ray len
     = (fst (Intersect tls b ray len),
        flt_le (fst (Intersect tls b ray len)) (Intersect_max tls b ray)
        \<and> flt_less plus_zero (Intersect_max tls b ray)
        \<and> flt_less (fst (Intersect tls b ray len)) len)"
  by (simp add: Intersect_def Intersect_max_def Let_def)

lemma flt_le_not_nan: "flt_le a b \<Longrightarrow> \<not> is_nan a \<and> \<not> is_nan b"
  by (simp add: flt_le_def)

lemma Intersect_inside_extremes:
  assumes "strictly_inside b (Position ray)"
    and "vec3_all (\<lambda>d. is_finite d \<and> \<not> is_zero d) (Direction ray)"
    and "Inverse tls = reciprocal (Direction ray)"
    and "tNear = fst (Intersect tls b ray len)" "tFar = Intersect_max tls b ray"
  shows "flt_greatest tNear (near_crossings tls b ray)"
    and "flt_least tFar (far_crossings tls b ray)"
    and "flt_le tNear plus_zero" and "flt_le plus_zero tFar"
    and "snd (Intersect tls b ray len) = (flt_less plus_zero tFar \<and> flt_less tNear len)"
    and "vec3_all (\<lambda>d. \<bar>valof d\<bar> \<le> 1) (Direction ray) \<Longrightarrow> flt_le plus_zero len \<Longrightarrow>
           snd (Intersect tls b ray len) \<and> flt_less tNear plus_zero \<and> flt_less plus_zero tFar"
proof -
  let ?lo = "Min_vec b" and ?hi = "Max_vec b" and ?p = "Position ray" and ?d = "Direction ray"
  have inv: "vx (Inverse tls) = fdiv float_one (vx ?d)" "vy (Inverse tls) = fdiv float_one (vy ?d)"
    "vz (Inverse tls) = fdiv float_one (vz ?d)"
    by (simp_all add: assms(3) reciprocal_def vec3_map2_def vec3_splat_def)
  define nx where "nx = slab (vx (Inverse tls)) (vx ?lo) (vx ?hi) (vx ?p)"
  define ny where "ny = slab (vy (Inverse tls)) (vy ?lo) (vy ?hi) (vy ?p)"
  define nz where "nz = slab (vz (Inverse tls)) (vz ?lo) (vz ?hi) (vz ?p)"
  define fx where "fx = slab (vx (Inverse tls)) (vx ?hi) (vx ?lo) (vx ?p)"
  define fy where "fy = slab (vy (Inverse tls)) (vy ?hi) (vy ?lo) (vy ?p)"
  define fz where "fz = slab (vz (Inverse tls)) (vz ?hi) (vz ?lo) (vz ?p)"
  have nc: "near_crossings tls b ray = [nx, ny, nz]" and fc: "far_crossings tls b ray = [fx, fy, fz]"
    by (simp_all add: crossings_slab nx_def ny_def nz_def fx_def fy_def fz_def)
  have tNear: "tNear = glm_max nz (glm_max nx ny)"
    unfolding assms(4) using Intersect_crossings [OF nc fc, of len] by simp
  have tFar: "tFar = glm_min fz (glm_min fx fy)"
    unfolding assms(5) by (rule Intersect_max_crossings [OF fc])
  from assms(1) have ins:
    "flt_less (vx ?lo) (vx ?p)" "flt_less (vx ?p) (vx ?hi)"
    "flt_less (vy ?lo) (vy ?p)" "flt_less (vy ?p) (vy ?hi)"
    "flt_less (vz ?lo) (vz ?p)" "flt_less (vz ?p) (vz ?hi)"
    by (simp_all add: strictly_inside_def vec3_all2_def)
  from assms(2) have dir:
    "is_finite (vx ?d)" "\<not> is_zero (vx ?d)" "is_finite (vy ?d)" "\<not> is_zero (vy ?d)"
    "is_finite (vz ?d)" "\<not> is_zero (vz ?d)"
    by (simp_all add: vec3_all_def)
  note ax = axis_inside [OF ins(1,2) dir(1,2)] and ay = axis_inside [OF ins(3,4) dir(3,4)]
    and az = axis_inside [OF ins(5,6) dir(5,6)]
  have near: "flt_le nx plus_zero" "flt_le ny plus_zero" "flt_le nz plus_zero"
    and far: "flt_le plus_zero fx" "flt_le plus_zero fy" "flt_le plus_zero fz"
    unfolding nx_def ny_def nz_def fx_def fy_def fz_def inv
    by (rule ax ay az)+
  show "flt_greatest tNear (near_crossings tls b ray)"
    unfolding nc tNear using near [THEN flt_le_not_nan]
    by (intro glm_max3_greatest) simp_all
  show "flt_least tFar (far_crossings tls b ray)"
    unfolding fc tFar using far [THEN flt_le_not_nan]
    by (intro glm_min3_least) simp_all
  show tn: "flt_le tNear plus_zero"
    unfolding tNear using near by (rule glm_max3_cases)
  show tf: "flt_le plus_zero tFar"
    unfolding tFar using far by (rule glm_min3_cases)
  have res: "Intersect tls b ray len = (tNear, flt_less plus_zero tFar \<and> flt_less tNear len)"
    using Intersect_crossings [OF nc fc, of len] flt_order_trans(1) [OF tn tf]
    by (simp add: tNear tFar)
  then show "snd (Intersect tls b ray len) = (flt_less plus_zero tFar \<and> flt_less tNear len)"
    by simp
  show "snd (Intersect tls b ray len) \<and> flt_less tNear plus_zero \<and> flt_less plus_zero tFar"
    if u: "vec3_all (\<lambda>d. \<bar>valof d\<bar> \<le> 1) ?d" and l: "flt_le plus_zero len"
  proof -
    from u have u': "\<bar>valof (vx ?d)\<bar> \<le> 1" "\<bar>valof (vy ?d)\<bar> \<le> 1" "\<bar>valof (vz ?d)\<bar> \<le> 1"
      by (simp_all add: vec3_all_def)
    have sn: "flt_less nx plus_zero" "flt_less ny plus_zero" "flt_less nz plus_zero"
      and sf: "flt_less plus_zero fx" "flt_less plus_zero fy" "flt_less plus_zero fz"
      unfolding nx_def ny_def nz_def fx_def fy_def fz_def inv
      using ax(3) [OF u'(1)] ay(3) [OF u'(2)] az(3) [OF u'(3)] by simp_all
    have a: "flt_less tNear plus_zero"
      unfolding tNear using sn by (rule glm_max3_cases)
    have c: "flt_less plus_zero tFar"
      unfolding tFar using sf by (rule glm_min3_cases)
    from res a c flt_order_trans(2) [OF a l] show ?thesis by simp
  qed
qed

lemma round_mag_underflow:
  assumes "0 \<le> r" "r < 1 / 2 ^ 150"
  shows "round_mag r = 0"
proof -
  have q: "0 \<le> r * 2 ^ 149" "r * 2 ^ 149 < 1 / 2"
    using assms by (simp_all add: field_simps)
  then have "\<lfloor>r * 2 ^ 149\<rfloor> = 0" by (simp add: floor_eq_iff)
  then have n: "nat \<lfloor>r * 2 ^ 149\<rfloor> = 0" by simp
  show ?thesis
    unfolding round_mag_def Let_def n using q
    by (simp add: norm_shift_zero)
qed

lemma miss_reciprocal: "reciprocal (Direction miss_ray) = miss_Inverse"
  by (simp add: reciprocal_def miss_ray_def miss_Inverse_def vec3_map2_def vec3_splat_def
      reciprocal_eval)

text \<open>
  C4 (as amended). Let \<open>tNear\<close> be the value that \<open>Intersect\<close> leaves in \<open>min\<close> and \<open>tFar\<close>
  the value of its local \<open>max\<close>; the returned flag is always
  \<open>tNear <= tFar && 0 < tFar && tNear < length\<close>. Take a box with \<open>Min < Max\<close> on all axes,
  a ray whose origin lies strictly inside it and whose direction is finite and non-zero on
  all axes, and let the reciprocal direction be \<open>1 / direction\<close>. Then \<open>tNear\<close> is the
  maximum of the near crossings and \<open>tFar\<close> the minimum of the far crossings,
  \<open>tNear <= 0 <= tFar\<close>, and the returned flag is exactly \<open>0 < tFar && tNear < length\<close>.
  When in addition every component of the direction has magnitude at most 1 and
  \<open>length >= 0\<close>, the flag is true and \<open>tNear < 0 < tFar\<close>. For the miss case, the unit box
  and the ray from \<open>(5,5,5)\<close> along \<open>(1,0,0)\<close> with the reciprocal \<open>(1, +inf, +inf)\<close>
  computed by the division, the flag is false for every length.
\<close>

theorem Intersect_origin_inside:
  "Intersect tls b ray len
     = (fst (Intersect tls b ray len),
        flt_le (fst (Intersect tls b ray len)) (Intersect_max tls b ray)
        \<and> flt_less plus_zero (Intersect_max tls b ray)
        \<and> flt_less (fst (Intersect tls b ray len)) len)
   \<and> (vec3_all2 flt_less (Min_vec b) (Max_vec b) \<and> strictly_inside b (Position ray)
       \<and> vec3_all (\<lambda>d. is_finite d \<and> \<not> is_zero d) (Direction ray)
       \<and> Inverse tls = reciprocal (Direction ray) \<longrightarrow>
         flt_greatest (fst (Intersect tls b ray len)) (near_crossings tls b ray)
       \<and> flt_least (Intersect_max tls b ray) (far_crossings tls b ray)
       \<and> flt_le (fst (Intersect tls b ray len)) plus_zero
       \<and> flt_le plus_zero (Intersect_max tls b ray)
       \<and> snd (Intersect tls b ray len)
           = (flt_less plus_zero (Intersect_max tls b ray)
              \<and> flt_less (fst (Intersect tls b ray len)) len)
       \<and> (vec3_all (\<lambda>d. \<bar>valof d\<bar> \<le> 1) (Direction ray) \<and> flt_le plus_zero len \<longrightarrow>
             snd (Intersect tls b ray len)
           \<and> flt_less (fst (Intersect tls b ray len)) plus_zero
           \<and> flt_less plus_zero (Intersect_max tls b ray)))
   \<and> Intersect \<lparr>Inverse = reciprocal (Direction miss_ray)\<rparr> unit_box miss_ray len'
       = (0xC0A00000, False)"
proof (intro conjI impI)
  show "Intersect tls b ray len
     = (fst (Intersect tls b ray len),
        flt_le (fst (Intersect tls b ray len)) (Intersect_max tls b ray)
        \<and> flt_less plus_zero (Intersect_max tls b ray)
        \<and> flt_less (fst (Intersect tls b ray len)) len)"
    by (rule Intersect_own_extremes)
  show "Intersect \<lparr>Inverse = reciprocal (Direction miss_ray)\<rparr> unit_box miss_ray len'
       = (0xC0A00000, False)"
    unfolding miss_reciprocal by (rule Intersect_miss_ray)
next
  assume h: "vec3_all2 flt_less (Min_vec b) (Max_vec b) \<and> strictly_inside b (Position ray)
       \<and> vec3_all (\<lambda>d. is_finite d \<and> \<not> is_zero d) (Direction ray)
       \<and> Inverse tls = reciprocal (Direction ray)"
  then have h': "strictly_inside b (Position ray)"
    "vec3_all (\<lambda>d. is_finite d \<and> \<not> is_zero d) (Direction ray)"
    "Inverse tls = reciprocal (Direction ray)"
    by simp_all
  note e = Intersect_inside_extremes [OF h' refl refl]
  show "flt_greatest (fst (Intersect tls b ray len)) (near_crossings tls b ray)"
    "flt_least (Intersect_max tls b ray) (far_crossings tls b ray)"
    "flt_le (fst (Intersect tls b ray len)) plus_zero"
    "flt_le plus_zero (Intersect_max tls b ray)"
    "snd (Intersect tls b ray len)
           = (flt_less plus_zero (Intersect_max tls b ray)
              \<and> flt_less (fst (Intersect tls b ray len)) len)"
    by (rule e)+
  assume u: "vec3_all (\<lambda>d. \<bar>valof d\<bar> \<le> 1) (Direction ray) \<and> flt_le plus_zero len"
  then have u': "vec3_all (\<lambda>d. \<bar>valof d\<bar> \<le> 1) (Direction ray)" "flt_le plus_zero len"
    by simp_all
  from e(6) [OF u'] show "snd (Intersect tls b ray len)"
    "flt_less (fst (Intersect tls b ray len)) plus_zero"
    "flt_less plus_zero (Intersect_max tls b ray)"
    by simp_all
qed

lemma inside_sub:
  "fsub plus_zero 0x3F000000 = 0xBF000000" "fsub float_one 0x3F000000 = 0x3F000000"
proof -
  show "fsub plus_zero 0x3F000000 = 0xBF000000"
    using fsub_exact [of plus_zero "0x3F000000" "- (1 / 2)" "0x3F000000"]
    by (simp add: pattern_eval)
  show "fsub float_one 0x3F000000 = 0x3F000000"
    using fsub_exact [of float_one "0x3F000000" "1 / 2" "0x3F000000"]
    by (simp add: pattern_eval)
qed

lemma inside_mul:
  "fmul 0xBF000000 float_one = 0xBF000000" "fmul 0x3F000000 float_one = 0x3F000000"
proof -
  show "fmul 0xBF000000 float_one = 0xBF000000"
    using fmul_exact [of "0xBF000000" float_one "0x3F000000"] by (simp add: pattern_eval)
  show "fmul 0x3F000000 float_one = 0x3F000000"
    using fmul_exact [of "0x3F000000" float_one "0x3F000000"] by (simp add: pattern_eval)
qed

lemma Intersect_inside_ray:
  "Intersect \<lparr>Inverse = reciprocal (Direction inside_ray)\<rparr> unit_box inside_ray float_10
     = (0xBF000000, True)"
  "Intersect_max \<lparr>Inverse = reciprocal (Direction inside_ray)\<rparr> unit_box inside_ray = 0x3F000000"
proof -
  let ?tls = "\<lparr>Inverse = reciprocal (Direction inside_ray)\<rparr>"
  have rc: "reciprocal (Direction inside_ray) = vec3_splat float_one"
    by (simp add: reciprocal_def inside_ray_def vec3_map2_def vec3_splat_def reciprocal_eval)
  have pos: "flt_less plus_zero float_one"
    by (simp add: flt_less_def pattern_eval)
  have n: "near_crossings ?tls unit_box inside_ray = [0xBF000000, 0xBF000000, 0xBF000000]"
    unfolding rc
    by (simp add: near_crossings_def crossing_def near_face_def vec3_get_simps unit_box_def
        inside_ray_def vec3_splat_def pos inside_sub inside_mul)
  have f: "far_crossings ?tls unit_box inside_ray = [0x3F000000, 0x3F000000, 0x3F000000]"
    unfolding rc
    by (simp add: far_crossings_def crossing_def far_face_def vec3_get_simps unit_box_def
        inside_ray_def vec3_splat_def pos inside_sub inside_mul)
  have e: "glm_max 0xBF000000 (glm_max 0xBF000000 0xBF000000) = 0xBF000000"
    "glm_min 0x3F000000 (glm_min 0x3F000000 0x3F000000) = 0x3F000000"
    by (simp_all add: glm_max_def glm_min_def)
  have c: "flt_less 0xBF000000 float_10" "flt_le 0xBF000000 0x3F000000"
    "flt_less plus_zero 0x3F000000"
    by (simp_all add: flt_less_def flt_le_def float_10_def pattern_eval)
  show "Intersect ?tls unit_box inside_ray float_10 = (0xBF000000, True)"
    using Intersect_crossings [OF n f, of float_10] by (simp add: e c)
  show "Intersect_max ?tls unit_box inside_ray = 0x3F000000"
    using Intersect_max_crossings [OF f] by (simp add: e)
qed

theorem Intersect_origin_inside_witness:
  "vec3_all2 flt_less (Min_vec unit_box) (Max_vec unit_box)
   \<and> strictly_inside unit_box (Position inside_ray)
   \<and> vec3_all (\<lambda>d. is_finite d \<and> \<not> is_zero d) (Direction inside_ray)
   \<and> vec3_all (\<lambda>d. \<bar>valof d\<bar> \<le> 1) (Direction inside_ray) \<and> flt_le plus_zero float_10
   \<and> Intersect \<lparr>Inverse = reciprocal (Direction inside_ray)\<rparr> unit_box inside_ray float_10
       = (0xBF000000, True)
   \<and> Intersect_max \<lparr>Inverse = reciprocal (Direction inside_ray)\<rparr> unit_box inside_ray = 0x3F000000
   \<and> flt_less 0xBF000000 plus_zero \<and> flt_less plus_zero 0x3F000000"
proof -
  have h1: "vec3_all2 flt_less (Min_vec unit_box) (Max_vec unit_box)"
    by (simp add: unit_box_def vec3_all2_def vec3_splat_def flt_less_def pattern_eval)
  have h2: "strictly_inside unit_box (Position inside_ray)"
    by (simp add: strictly_inside_def unit_box_def inside_ray_def vec3_all2_def vec3_splat_def
        flt_less_def pattern_eval)
  have h3: "vec3_all (\<lambda>d. is_finite d \<and> \<not> is_zero d) (Direction inside_ray)"
    by (simp add: inside_ray_def vec3_all_def vec3_splat_def pattern_eval)
  have h4: "Inverse \<lparr>Inverse = reciprocal (Direction inside_ray)\<rparr> = reciprocal (Direction inside_ray)"
    by simp
  have h5: "vec3_all (\<lambda>d. \<bar>valof d\<bar> \<le> 1) (Direction inside_ray)"
    by (simp add: inside_ray_def vec3_all_def vec3_splat_def pattern_eval)
  have h6: "flt_le plus_zero float_10"
    by (simp add: flt_le_def float_10_def pattern_eval)
  from Intersect_origin_inside
    [of "\<lparr>Inverse = reciprocal (Direction inside_ray)\<rparr>" unit_box inside_ray float_10]
    h1 h2 h3 h4 h5 h6
  have "flt_less (fst (Intersect \<lparr>Inverse = reciprocal (Direction inside_ray)\<rparr> unit_box inside_ray
           float_10)) plus_zero
     \<and> flt_less plus_zero (Intersect_max \<lparr>Inverse = reciprocal (Direction inside_ray)\<rparr> unit_box
           inside_ray)"
    by blast
  then show ?thesis
    using h1 h2 h3 h5 h6 by (simp add: Intersect_inside_ray)
qed

lemma tiny_sub:
  "fsub plus_zero 0x0D000000 = 0x8D000000" "fsub 0x0D800000 0x0D000000 = 0x0D000000"
proof -
  show "fsub plus_zero 0x0D000000 = 0x8D000000"
    using fsub_exact [of plus_zero "0x0D000000" "- (1 / 2 ^ 101)" "0x0D000000"]
    by (simp add: pattern_eval)
  show "fsub 0x0D800000 0x0D000000 = 0x0D000000"
    using fsub_exact [of "0x0D800000" "0x0D000000" "1 / 2 ^ 101" "0x0D000000"]
    by (simp add: pattern_eval)
qed

lemma tiny_mul:
  "fmul 0x8D000000 0x21800000 = minus_zero" "fmul 0x0D000000 0x21800000 = plus_zero"
proof -
  have r: "round_mag (1 / 2 ^ 101 * (1 / 2 ^ 60)) = 0"
    by (rule round_mag_underflow) simp_all
  have v: "\<bar>valof 0x8D000000\<bar> * \<bar>valof 0x21800000\<bar> = 1 / 2 ^ 101 * (1 / 2 ^ 60)"
    "\<bar>valof 0x0D000000\<bar> * \<bar>valof 0x21800000\<bar> = 1 / 2 ^ 101 * (1 / 2 ^ 60)"
    by (simp_all add: pattern_eval)
  show "fmul 0x8D000000 0x21800000 = minus_zero"
    using fmul_finite [of "0x8D000000" "0x21800000"]
    by (simp only: v r) (simp add: pattern_eval)
  show "fmul 0x0D000000 0x21800000 = plus_zero"
    using fmul_finite [of "0x0D000000" "0x21800000"]
    by (simp only: v r) (simp add: pattern_eval)
qed

lemma Intersect_tiny:
  "Intersect \<lparr>Inverse = reciprocal (Direction tiny_ray)\<rparr> tiny_box tiny_ray len
     = (minus_zero, False)"
proof -
  let ?tls = "\<lparr>Inverse = reciprocal (Direction tiny_ray)\<rparr>"
  have rc: "reciprocal (Direction tiny_ray) = vec3_splat 0x21800000"
    by (simp add: reciprocal_def tiny_ray_def vec3_map2_def vec3_splat_def reciprocal_eval)
  have pos: "flt_less plus_zero 0x21800000"
    by (simp add: flt_less_def pattern_eval)
  have n: "near_crossings ?tls tiny_box tiny_ray = [minus_zero, minus_zero, minus_zero]"
    unfolding rc
    by (simp add: near_crossings_def crossing_def near_face_def vec3_get_simps tiny_box_def
        tiny_ray_def vec3_splat_def pos tiny_sub tiny_mul)
  have f: "far_crossings ?tls tiny_box tiny_ray = [plus_zero, plus_zero, plus_zero]"
    unfolding rc
    by (simp add: far_crossings_def crossing_def far_face_def vec3_get_simps tiny_box_def
        tiny_ray_def vec3_splat_def pos tiny_sub tiny_mul)
  have e: "glm_max minus_zero (glm_max minus_zero minus_zero) = minus_zero"
    "glm_min plus_zero (glm_min plus_zero plus_zero) = plus_zero"
    by (simp_all add: glm_max_def glm_min_def)
  have c: "\<not> flt_less plus_zero plus_zero"
    by (simp add: flt_less_def)
  show ?thesis
    using Intersect_crossings [OF n f, of len] by (simp add: e c)
qed

lemma Intersect_negative_length:
  "Intersect \<lparr>Inverse = reciprocal (Direction inside_ray)\<rparr> unit_box inside_ray float_minus_one
     = (0xBF000000, False)"
proof -
  let ?tls = "\<lparr>Inverse = reciprocal (Direction inside_ray)\<rparr>"
  have rc: "reciprocal (Direction inside_ray) = vec3_splat float_one"
    by (simp add: reciprocal_def inside_ray_def vec3_map2_def vec3_splat_def reciprocal_eval)
  have pos: "flt_less plus_zero float_one"
    by (simp add: flt_less_def pattern_eval)
  have n: "near_crossings ?tls unit_box inside_ray = [0xBF000000, 0xBF000000, 0xBF000000]"
    unfolding rc
    by (simp add: near_crossings_def crossing_def near_face_def vec3_get_simps unit_box_def
        inside_ray_def vec3_splat_def pos inside_sub inside_mul)
  have f: "far_crossings ?tls unit_box inside_ray = [0x3F000000, 0x3F000000, 0x3F000000]"
    unfolding rc
    by (simp add: far_crossings_def crossing_def far_face_def vec3_get_simps unit_box_def
        inside_ray_def vec3_splat_def pos inside_sub inside_mul)
  have e: "glm_max 0xBF000000 (glm_max 0xBF000000 0xBF000000) = 0xBF000000"
    "glm_min 0x3F000000 (glm_min 0x3F000000 0x3F000000) = 0x3F000000"
    by (simp_all add: glm_max_def glm_min_def)
  have c: "\<not> flt_less 0xBF000000 float_minus_one"
    by (simp add: flt_less_def pattern_eval)
  show ?thesis
    using Intersect_crossings [OF n f, of float_minus_one] by (simp add: e c)
qed

text \<open>
  C4 as stated fails. In the box \<open>[0, 2^-100]^3\<close> the ray from the centre \<open>2^-101\<close> along
  \<open>(2^60, 2^60, 2^60)\<close> has the far crossings \<open>2^-101 * 2^-60\<close>, which are below half of
  the least subnormal and round to zero: \<open>tFar = 0\<close> and the test reports a miss. In the unit box the ray from the centre along \<open>(1,1,1)\<close> is
  reported as a miss for the length \<open>-1\<close>.
\<close>

theorem Intersect_origin_inside_can_miss:
  "vec3_all2 flt_less (Min_vec tiny_box) (Max_vec tiny_box)
   \<and> strictly_inside tiny_box (Position tiny_ray)
   \<and> vec3_all (\<lambda>d. is_finite d \<and> \<not> is_zero d) (Direction tiny_ray)
   \<and> Intersect \<lparr>Inverse = reciprocal (Direction tiny_ray)\<rparr> tiny_box tiny_ray float_10
       = (minus_zero, False)
   \<and> vec3_all2 flt_less (Min_vec unit_box) (Max_vec unit_box)
   \<and> strictly_inside unit_box (Position inside_ray)
   \<and> vec3_all (\<lambda>d. is_finite d \<and> \<not> is_zero d) (Direction inside_ray)
   \<and> Intersect \<lparr>Inverse = reciprocal (Direction inside_ray)\<rparr> unit_box inside_ray float_minus_one
       = (0xBF000000, False)"
proof -
  have "vec3_all2 flt_less (Min_vec tiny_box) (Max_vec tiny_box)"
    by (simp add: tiny_box_def vec3_all2_def vec3_splat_def flt_less_def pattern_eval)
  moreover have "strictly_inside tiny_box (Position tiny_ray)"
    by (simp add: strictly_inside_def tiny_box_def tiny_ray_def vec3_all2_def vec3_splat_def
        flt_less_def pattern_eval)
  moreover have "vec3_all (\<lambda>d. is_finite d \<and> \<not> is_zero d) (Direction tiny_ray)"
    by (simp add: tiny_ray_def vec3_all_def vec3_splat_def pattern_eval)
  moreover have "vec3_all2 flt_less (Min_vec unit_box) (Max_vec unit_box)"
    by (simp add: unit_box_def vec3_all2_def vec3_splat_def flt_less_def pattern_eval)
  moreover have "strictly_inside unit_box (Position inside_ray)"
    by (simp add: strictly_inside_def unit_box_def inside_ray_def vec3_all2_def vec3_splat_def
        flt_less_def pattern_eval)
  moreover have "vec3_all (\<lambda>d. is_finite d \<and> \<not> is_zero d) (Direction inside_ray)"
    by (simp add: inside_ray_def vec3_all_def vec3_splat_def pattern_eval)
  ultimately show ?thesis
    using Intersect_tiny [of float_10] Intersect_negative_length by blast
qed

section \<open>Normalization into the box\<close>

lemma quiet_nan_class: "is_nan quiet_nan" "\<not> is_finite quiet_nan"
  by (simp_all add: quiet_nan_def float_eval)

lemma fdiv_by_zero_or_nan:
  assumes "is_zero z \<or> is_nan z"
  shows "\<not> is_finite (fdiv a z)"
proof -
  have "fdiv a z = quiet_nan \<or> fdiv a z = pack_float (sign_bit a \<noteq> sign_bit z) inf_mag"
    using assms inf_not_finite(3) [of z] by (auto simp: fdiv_def)
  then show ?thesis
    by (auto simp: quiet_nan_class pack_float_class)
qed

lemma fsub_equal_values:
  assumes "flt_eq lo hi"
  shows "is_zero (fsub hi lo) \<or> is_nan (fsub hi lo)"
proof -
  from assms have nn: "\<not> is_nan lo" "\<not> is_nan hi" and eq: "valof lo = valof hi"
    by (simp_all add: flt_eq_def)
  show ?thesis
  proof (cases "is_inf hi")
    case True
    then have "\<bar>valof lo\<bar> = 2 ^ 128" using abs_valof_inf [of hi] eq by simp
    then have lo: "is_inf lo"
      using not_nan_cases [OF nn(1)] abs_valof_finite [of lo] by auto
    have "sign_bit hi = sign_bit lo"
      using valof_inf [OF True] valof_inf [OF lo] eq by (auto split: if_splits)
    then have "fsub hi lo = quiet_nan"
      using True lo nn by (simp add: fsub_def)
    then show ?thesis by (simp add: quiet_nan_class)
  next
    case False
    then have hi: "is_finite hi" using not_nan_cases [OF nn(2)] by blast
    then have "\<bar>valof lo\<bar> < 2 ^ 128" using abs_valof_finite [of hi] eq by simp
    then have lo: "\<not> is_inf lo" using abs_valof_inf [of lo] by auto
    have "fsub hi lo = pack_float (sign_bit hi \<and> \<not> sign_bit lo) 0"
      using nn False lo eq by (simp add: fsub_def)
    then show ?thesis by (simp add: pack_float_class)
  qed
qed

lemma between_finite:
  assumes "is_finite lo" "is_finite hi" "flt_le lo p" "flt_le p hi"
  shows "is_finite p"
proof -
  from assms(3,4) have nn: "\<not> is_nan p" and le: "valof lo \<le> valof p" "valof p \<le> valof hi"
    by (simp_all add: flt_le_def)
  have "\<bar>valof p\<bar> < 2 ^ 128"
    using le abs_valof_finite [OF assms(1)] abs_valof_finite [OF assms(2)] by linarith
  then have "\<not> is_inf p" using abs_valof_inf [of p] by auto
  with nn show ?thesis using not_nan_cases by blast
qed

lemma fsub_finite_operands:
  assumes "flt_less lo hi" "is_finite (fsub hi lo)"
  shows "is_finite lo" "is_finite hi"
proof -
  from assms(1) have nn: "\<not> is_nan lo" "\<not> is_nan hi"
    by (simp_all add: flt_less_def)
  have "\<not> is_inf hi \<and> \<not> is_inf lo"
  proof (rule ccontr)
    assume "\<not> (\<not> is_inf hi \<and> \<not> is_inf lo)"
    then have "fsub hi lo = quiet_nan \<or> fsub hi lo = hi \<and> is_inf hi
                 \<or> fsub hi lo = pack_float (\<not> sign_bit lo) inf_mag"
      using nn by (auto simp: fsub_def)
    then have "\<not> is_finite (fsub hi lo)"
      by (auto simp: quiet_nan_class pack_float_class inf_not_finite)
    with assms(2) show False by simp
  qed
  then show "is_finite lo" "is_finite hi"
    using not_nan_cases nn by blast+
qed

lemma fsub_nonneg_mag:
  assumes "is_finite p" "is_finite lo" "valof lo \<le> valof p"
  shows "mag_bits (fsub p lo) = round_mag (valof p - valof lo)"
    "sign_bit (fsub p lo) \<longrightarrow> is_zero (fsub p lo)"
proof -
  have "mag_bits (fsub p lo) = round_mag (valof p - valof lo)
          \<and> (sign_bit (fsub p lo) \<longrightarrow> is_zero (fsub p lo))"
  proof (cases "valof p = valof lo")
    case True
    then have "fsub p lo = pack_float (sign_bit p \<and> \<not> sign_bit lo) 0"
      using assms(1,2) by (simp add: fsub_def class_by_mag_bits)
    then show ?thesis
      using True by (simp add: pack_float_bits pack_float_class round_mag_zero)
  next
    case False
    with assms(3) have lt: "valof lo < valof p" by simp
    then have "fsub p lo = pack_float False (round_mag (valof p - valof lo))"
      using fsub_finite [OF assms(1,2) False] by simp
    then show ?thesis
      by (simp add: pack_float_bits round_mag_le_inf)
  qed
  then show "mag_bits (fsub p lo) = round_mag (valof p - valof lo)"
    "sign_bit (fsub p lo) \<longrightarrow> is_zero (fsub p lo)" by simp_all
qed

lemma Nomalize_axis:
  assumes "flt_less lo hi" "flt_le lo p" "flt_le p hi" "is_finite (fsub hi lo)"
  shows "is_finite (fdiv (fsub p lo) (fsub hi lo))"
    "flt_le plus_zero (fdiv (fsub p lo) (fsub hi lo))"
    "flt_le (fdiv (fsub p lo) (fsub hi lo)) float_one"
proof -
  let ?a = "fsub p lo" and ?b = "fsub hi lo"
  note fin = fsub_finite_operands [OF assms(1,4)]
  have p: "is_finite p" using fin assms(2,3) by (rule between_finite)
  from assms(2,3) have le: "valof lo \<le> valof p" "valof p \<le> valof hi"
    by (simp_all add: flt_le_def)
  note b = fsub_greater [OF assms(1)]
  have bm: "mag_bits ?b = round_mag (valof hi - valof lo)"
    using fsub_nonneg_mag(1) [OF fin(2,1)] le by simp
  note a = fsub_nonneg_mag [OF p fin(1) le(1)]
  have "round_mag (valof p - valof lo) \<le> round_mag (valof hi - valof lo)"
    using le by (intro round_mag_mono) simp
  then have ab: "mag_bits ?a \<le> mag_bits ?b" by (simp add: a(1) bm)
  then have fa: "is_finite ?a"
    using assms(4) by (simp add: class_by_mag_bits)
  have bpos: "0 < \<bar>valof ?b\<bar>" using b(3) by (simp add: valof_zero_iff)
  have "\<bar>valof ?a\<bar> \<le> \<bar>valof ?b\<bar>"
    unfolding abs_valof using mag_scaled_mono [OF ab] by (simp add: divide_right_mono)
  then have ratio: "\<bar>valof ?a\<bar> / \<bar>valof ?b\<bar> \<le> 1" "0 \<le> \<bar>valof ?a\<bar> / \<bar>valof ?b\<bar>"
    using bpos by simp_all
  define k where "k = round_mag (\<bar>valof ?a\<bar> / \<bar>valof ?b\<bar>)"
  have k: "k \<le> one_mag"
    unfolding k_def using round_mag_mono [OF ratio(1)] by (simp add: round_mag_one)
  then have kinf: "k < inf_mag" "k \<le> inf_mag" by (simp_all add: one_mag_def inf_mag_def)
  have eq: "fdiv ?a ?b = pack_float (sign_bit ?a) k"
    using fdiv_finite [OF fa assms(4) b(3)] b(2) by (simp add: k_def)
  show "is_finite (fdiv ?a ?b)"
    using kinf by (simp add: eq pack_float_class)
  have nn: "\<not> is_nan (fdiv ?a ?b)"
    using kinf by (simp add: eq pack_float_class)
  have "real (mag_scaled k) / 2 ^ 149 \<le> real (mag_scaled one_mag) / 2 ^ 149"
    using mag_scaled_mono [OF k] by (simp add: divide_right_mono)
  then have mag: "real (mag_scaled k) / 2 ^ 149 \<le> 1"
    by (simp only: round_mag_one(2))
  have z: "k = 0" if "sign_bit ?a"
  proof -
    from that a(2) have "is_zero ?a" by simp
    then have "valof ?a = 0" by (simp add: valof_zero_iff)
    then show ?thesis by (simp add: k_def round_mag_zero)
  qed
  have v: "valof (fdiv ?a ?b) = (if sign_bit ?a then - 1 else 1) * real (mag_scaled k) / 2 ^ 149"
    unfolding eq using kinf(2) by (rule valof_pack_float)
  have "0 \<le> valof (fdiv ?a ?b)" "valof (fdiv ?a ?b) \<le> 1"
    using mag z by (auto simp: v mag_scaled_values)
  then show "flt_le plus_zero (fdiv ?a ?b)" "flt_le (fdiv ?a ?b) float_one"
    using nn by (simp_all add: flt_le_def plus_zero_class float_one_class)
qed

lemma vec3_get_Nomalize:
  "vec3_get (Nomalize b p) i
     = fdiv (fsub (vec3_get p i) (vec3_get (Min_vec b) i))
            (fsub (vec3_get (Max_vec b) i) (vec3_get (Min_vec b) i))"
  by (simp add: Nomalize_def vec3_get_map2)

text \<open>
  C10 (as amended). \<open>Nomalize(p)\<close> is \<open>(p - Min) / (Max - Min)\<close> component by component,
  with no test of the denominator. On an axis with \<open>Min < Max\<close>, \<open>Min <= p <= Max\<close> and a
  difference \<open>Max - Min\<close> that is finite as a float, the component of the result is finite
  and lies between 0 and 1. On an axis with \<open>Min = Max\<close> the component of the result is
  not finite, whatever \<open>p\<close> is.
\<close>

theorem Nomalize_range:
  "Nomalize b p
     = vec3_map2 fdiv (vec3_map2 fsub p (Min_vec b)) (vec3_map2 fsub (Max_vec b) (Min_vec b))
   \<and> (\<forall>i<3. flt_less (vec3_get (Min_vec b) i) (vec3_get (Max_vec b) i)
             \<and> flt_le (vec3_get (Min_vec b) i) (vec3_get p i)
             \<and> flt_le (vec3_get p i) (vec3_get (Max_vec b) i)
             \<and> is_finite (fsub (vec3_get (Max_vec b) i) (vec3_get (Min_vec b) i))
          \<longrightarrow> is_finite (vec3_get (Nomalize b p) i)
              \<and> flt_le plus_zero (vec3_get (Nomalize b p) i)
              \<and> flt_le (vec3_get (Nomalize b p) i) float_one)
   \<and> (\<forall>i<3. flt_eq (vec3_get (Min_vec b) i) (vec3_get (Max_vec b) i)
          \<longrightarrow> \<not> is_finite (vec3_get (Nomalize b p) i))"
proof (intro conjI allI impI)
  show "Nomalize b p
     = vec3_map2 fdiv (vec3_map2 fsub p (Min_vec b)) (vec3_map2 fsub (Max_vec b) (Min_vec b))"
    by (simp add: Nomalize_def)
next
  fix i
  assume "flt_less (vec3_get (Min_vec b) i) (vec3_get (Max_vec b) i)
             \<and> flt_le (vec3_get (Min_vec b) i) (vec3_get p i)
             \<and> flt_le (vec3_get p i) (vec3_get (Max_vec b) i)
             \<and> is_finite (fsub (vec3_get (Max_vec b) i) (vec3_get (Min_vec b) i))"
  then have h: "flt_less (vec3_get (Min_vec b) i) (vec3_get (Max_vec b) i)"
    "flt_le (vec3_get (Min_vec b) i) (vec3_get p i)"
    "flt_le (vec3_get p i) (vec3_get (Max_vec b) i)"
    "is_finite (fsub (vec3_get (Max_vec b) i) (vec3_get (Min_vec b) i))"
    by simp_all
  show "is_finite (vec3_get (Nomalize b p) i)" "flt_le plus_zero (vec3_get (Nomalize b p) i)"
    "flt_le (vec3_get (Nomalize b p) i) float_one"
    unfolding vec3_get_Nomalize by (rule Nomalize_axis [OF h])+
next
  fix i
  assume "flt_eq (vec3_get (Min_vec b) i) (vec3_get (Max_vec b) i)"
  then show "\<not> is_finite (vec3_get (Nomalize b p) i)"
    unfolding vec3_get_Nomalize by (intro fdiv_by_zero_or_nan fsub_equal_values)
qed

lemma unit_sub: "fsub float_one plus_zero = float_one" "fsub 0x3F000000 plus_zero = 0x3F000000"
proof -
  show "fsub float_one plus_zero = float_one"
    using fsub_exact [of float_one plus_zero 1 "0x3F800000"] by (simp add: pattern_eval)
  show "fsub 0x3F000000 plus_zero = 0x3F000000"
    using fsub_exact [of "0x3F000000" plus_zero "1 / 2" "0x3F000000"] by (simp add: pattern_eval)
qed

theorem Nomalize_range_witness:
  "flt_less (vec3_get (Min_vec unit_box) 0) (vec3_get (Max_vec unit_box) 0)
   \<and> flt_le (vec3_get (Min_vec unit_box) 0) (vec3_get (vec3_splat 0x3F000000) 0)
   \<and> flt_le (vec3_get (vec3_splat 0x3F000000) 0) (vec3_get (Max_vec unit_box) 0)
   \<and> is_finite (fsub (vec3_get (Max_vec unit_box) 0) (vec3_get (Min_vec unit_box) 0))
   \<and> is_finite (vec3_get (Nomalize unit_box (vec3_splat 0x3F000000)) 0)
   \<and> flt_le plus_zero (vec3_get (Nomalize unit_box (vec3_splat 0x3F000000)) 0)
   \<and> flt_le (vec3_get (Nomalize unit_box (vec3_splat 0x3F000000)) 0) float_one
   \<and> flt_eq (vec3_get (Min_vec \<lparr>Min_vec = vec3_splat float_one, Max_vec = vec3_splat float_one\<rparr>) 0)
        (vec3_get (Max_vec \<lparr>Min_vec = vec3_splat float_one, Max_vec = vec3_splat float_one\<rparr>) 0)
   \<and> \<not> is_finite (vec3_get (Nomalize \<lparr>Min_vec = vec3_splat float_one, Max_vec = vec3_splat float_one\<rparr>
         (vec3_splat float_one)) 0)"
proof -
  let ?p = "vec3_splat 0x3F000000"
  let ?flat = "\<lparr>Min_vec = vec3_splat float_one, Max_vec = vec3_splat float_one\<rparr>"
  have h: "flt_less (vec3_get (Min_vec unit_box) 0) (vec3_get (Max_vec unit_box) 0)
      \<and> flt_le (vec3_get (Min_vec unit_box) 0) (vec3_get ?p 0)
      \<and> flt_le (vec3_get ?p 0) (vec3_get (Max_vec unit_box) 0)
      \<and> is_finite (fsub (vec3_get (Max_vec unit_box) 0) (vec3_get (Min_vec unit_box) 0))"
  proof -
    have "is_finite (fsub float_one plus_zero)"
      unfolding unit_sub by (rule float_one_class)
    then show ?thesis
      by (simp add: unit_box_def vec3_get_simps vec3_splat_def flt_less_def flt_le_def
          float_one_class plus_zero_class) (simp add: pattern_eval)
  qed
  have e: "flt_eq (vec3_get (Min_vec ?flat) 0) (vec3_get (Max_vec ?flat) 0)"
    by (simp add: vec3_get_simps vec3_splat_def flt_eq_def float_one_class)
  have i: "(0::nat) < 3" by simp
  from Nomalize_range [of unit_box ?p] h i
  have c1: "is_finite (vec3_get (Nomalize unit_box ?p) 0)
      \<and> flt_le plus_zero (vec3_get (Nomalize unit_box ?p) 0)
      \<and> flt_le (vec3_get (Nomalize unit_box ?p) 0) float_one"
    by blast
  from Nomalize_range [of ?flat "vec3_splat float_one"] e i
  have c2: "\<not> is_finite (vec3_get (Nomalize ?flat (vec3_splat float_one)) 0)"
    by blast
  from h e c1 c2 show ?thesis by blast
qed

lemma wide_sub: "fsub maximum minimum = plus_inf"
proof -
  have "round_mag \<bar>valof maximum - valof minimum\<bar> = inf_mag"
    by (rule round_mag_overflow) (simp add: valof_maximum)
  then show ?thesis
    using fsub_finite [of maximum minimum]
    by (simp add: not_nan_maximum valof_maximum pack_float_def plus_inf_def inf_mag_def)
qed

text \<open>
  C10 as stated fails: in the finite box from \<open>-FLT_MAX\<close> to \<open>FLT_MAX\<close> the differences
  \<open>Max - Min\<close> and \<open>p - Min\<close> for \<open>p = Max\<close> overflow to \<open>+inf\<close>, and the quotient is a
  NaN on every axis.
\<close>

theorem Nomalize_overflow:
  "vec3_all2 flt_less (Min_vec wide_box) (Max_vec wide_box)
   \<and> vec3_all2 flt_le (Min_vec wide_box) (vec3_splat maximum)
   \<and> vec3_all2 flt_le (vec3_splat maximum) (Max_vec wide_box)
   \<and> vec3_all is_finite (Min_vec wide_box) \<and> vec3_all is_finite (Max_vec wide_box)
   \<and> vec3_all is_nan (Nomalize wide_box (vec3_splat maximum))
   \<and> vec3_all (\<lambda>c. \<not> is_finite c) (Nomalize wide_box (vec3_splat maximum))"
proof -
  have "fdiv plus_inf plus_inf = quiet_nan"
    by (simp add: fdiv_def pattern_eval)
  then have "Nomalize wide_box (vec3_splat maximum) = vec3_splat quiet_nan"
    by (simp add: Nomalize_def wide_box_def vec3_map2_def vec3_splat_def wide_sub)
  then have "vec3_all is_nan (Nomalize wide_box (vec3_splat maximum))"
    "vec3_all (\<lambda>c. \<not> is_finite c) (Nomalize wide_box (vec3_splat maximum))"
    by (simp_all add: vec3_all_def vec3_splat_def quiet_nan_class)
  moreover have "vec3_all2 flt_less (Min_vec wide_box) (Max_vec wide_box)"
    "vec3_all2 flt_le (Min_vec wide_box) (vec3_splat maximum)"
    "vec3_all2 flt_le (vec3_splat maximum) (Max_vec wide_box)"
    by (simp_all add: wide_box_def vec3_all2_def vec3_splat_def flt_less_def flt_le_def
        not_nan_maximum valof_maximum)
  moreover have "vec3_all is_finite (Min_vec wide_box)" "vec3_all is_finite (Max_vec wide_box)"
    by (simp_all add: wide_box_def vec3_all_def vec3_splat_def not_nan_maximum)
  ultimately show ?thesis by blast
qed

section \<open>Morton codes\<close>

lemma norm_shift_least: "n div 2 ^ s < 2 ^ 24 \<Longrightarrow> norm_shift n \<le> s"
proof (induction n arbitrary: s rule: norm_shift.induct)
  case (1 n)
  show ?case
  proof (cases "n < 2 ^ 24")
    case True
    then show ?thesis by (simp add: norm_shift_zero)
  next
    case False
    then have eq: "norm_shift n = Suc (norm_shift (n div 2))"
      by (subst norm_shift.simps) simp
    from False 1(2) obtain s' where s: "s = Suc s'"
      by (cases s) auto
    have "(n div 2) div 2 ^ s' = n div 2 ^ s"
      by (simp add: s div_mult2_eq)
    with 1(2) have "(n div 2) div 2 ^ s' < 2 ^ 24" by simp
    from 1(1) [OF False this] show ?thesis by (simp add: eq s)
  qed
qed

lemma floor_idx_mag_scaled: "floor_idx (mag_scaled k) = k"
proof -
  have "mag_scaled (floor_idx (mag_scaled k)) \<le> mag_scaled k"
    "mag_scaled k < mag_scaled (floor_idx (mag_scaled k) + 1)"
    by (rule floor_idx_bounds)+
  then have "floor_idx (mag_scaled k) \<le> k" "k < floor_idx (mag_scaled k) + 1"
    using mag_scaled_less_iff [of k "floor_idx (mag_scaled k) + 1"]
      mag_scaled_less_iff [of k "floor_idx (mag_scaled k)"] by auto
  then show ?thesis by simp
qed

lemma mag_scaled_times_power:
  assumes "mag_scaled k * 2 ^ j < 2 ^ 277"
  shows "\<exists>k'<inf_mag. mag_scaled k' = mag_scaled k * 2 ^ j"
proof -
  let ?m = "mag_scaled k" and ?n = "mag_scaled k * 2 ^ j"
  let ?sm = "norm_shift ?m" and ?s = "norm_shift ?n"
  have n0: "?m = (?m div 2 ^ ?sm) * 2 ^ ?sm"
    using mag_scaled_floor_idx [of ?m] by (simp add: floor_idx_mag_scaled)
  then have n: "?n = (?m div 2 ^ ?sm) * 2 ^ (?sm + j)"
    by (simp add: power_add)
  then have "?n div 2 ^ (?sm + j) = ?m div 2 ^ ?sm"
    by (metis nonzero_mult_div_cancel_right power_not_zero zero_neq_numeral)
  then have "?n div 2 ^ (?sm + j) < 2 ^ 24"
    using norm_shift_upper [of ?m] by simp
  then have "?s \<le> ?sm + j" by (rule norm_shift_least)
  then have "(2::nat) ^ ?s dvd 2 ^ (?sm + j)" by (rule le_imp_power_dvd)
  then have "2 ^ ?s dvd ?n" using n by (metis dvd_mult)
  then have "(?n div 2 ^ ?s) * 2 ^ ?s = ?n" by simp
  then have m: "mag_scaled (floor_idx ?n) = ?n"
    by (simp add: mag_scaled_floor_idx)
  then have "mag_scaled (floor_idx ?n) < mag_scaled inf_mag"
    using assms by (simp add: mag_scaled_values)
  then have "floor_idx ?n < inf_mag" by (simp add: mag_scaled_less_iff)
  with m show ?thesis by blast
qed

lemma float_1024_class: "is_finite float_1024" "\<not> is_nan float_1024" "\<not> is_zero float_1024"
  "\<not> is_inf float_1024" "valof float_1024 = 1024" "\<not> sign_bit float_1024"
  by (simp_all add: float_1024_def float_eval)

lemma float_1023_class: "\<not> is_nan float_1023" "valof float_1023 = 1023"
  by (simp_all add: float_1023_def float_eval)

text \<open>
  Multiplying by 1024 is exact or overflows; either way the clamped value is that of the
  real product.
\<close>

lemma fmul_1024:
  assumes "\<not> is_nan x"
  shows "\<not> is_nan (fmul x float_1024)"
    "min 1023 (max 0 (valof (fmul x float_1024))) = min 1023 (max 0 (valof x * 1024))"
proof -
  have "\<not> is_nan (fmul x float_1024)
      \<and> min 1023 (max 0 (valof (fmul x float_1024))) = min 1023 (max 0 (valof x * 1024))"
  proof (cases "is_inf x")
    case True
    then have eq: "fmul x float_1024 = pack_float (sign_bit x) inf_mag"
      using assms by (simp add: fmul_def float_1024_class)
    have "valof (fmul x float_1024) = valof x"
      unfolding eq using valof_inf [OF True]
      by (simp add: valof_pack_float mag_scaled_values)
    then show ?thesis
      using valof_inf [OF True] by (simp add: eq pack_float_class)
  next
    case False
    then have fin: "is_finite x" using not_nan_cases [OF assms] by blast
    let ?r = "\<bar>valof x\<bar> * 1024"
    have eq: "fmul x float_1024 = pack_float (sign_bit x) (round_mag ?r)"
      using fmul_finite [OF fin float_1024_class(1)] by (simp add: float_1024_class)
    have nn: "\<not> is_nan (fmul x float_1024)"
      by (simp add: eq pack_float_class round_mag_le_inf)
    have r: "?r = real (mag_scaled (mag_bits x) * 2 ^ 10) / 2 ^ 149"
      by (simp add: abs_valof)
    have v: "valof (fmul x float_1024)
               = (if sign_bit x then - 1 else 1) * real (mag_scaled (round_mag ?r)) / 2 ^ 149"
      unfolding eq by (rule valof_pack_float [OF round_mag_le_inf])
    have vx: "valof x * 1024 = (if sign_bit x then - 1 else 1) * ?r"
      by (simp add: valof_mag_bits)
    show ?thesis
    proof (cases "mag_scaled (mag_bits x) * 2 ^ 10 < 2 ^ 277")
      case True
      from mag_scaled_times_power [OF this] obtain k' where
        k': "k' < inf_mag" "mag_scaled k' = mag_scaled (mag_bits x) * 2 ^ 10" by blast
      have "round_mag ?r = k'"
        unfolding r k'(2) [symmetric] using k'(1) by (intro round_mag_exact) simp
      then have "real (mag_scaled (round_mag ?r)) / 2 ^ 149 = ?r"
        by (simp only: k'(2) r)
      then have "valof (fmul x float_1024) = valof x * 1024"
        by (simp only: v vx) simp
      with nn show ?thesis by simp
    next
      case False
      then have "2 ^ 277 \<le> mag_scaled (mag_bits x) * 2 ^ 10" by simp
      then have "(2::real) ^ 277 \<le> real (mag_scaled (mag_bits x) * 2 ^ 10)"
        by (metis of_nat_le_iff of_nat_numeral of_nat_power)
      then have big: "2 ^ 128 \<le> ?r"
        unfolding r by (simp add: field_simps)
      then have "round_mag ?r = inf_mag" by (rule round_mag_overflow)
      then have "valof (fmul x float_1024) = (if sign_bit x then - 1 else 1) * 2 ^ 128"
        by (simp add: v mag_scaled_values)
      then show ?thesis
        using big nn by (cases "sign_bit x") (simp_all add: vx)
    qed
  qed
  then show "\<not> is_nan (fmul x float_1024)"
    "min 1023 (max 0 (valof (fmul x float_1024))) = min 1023 (max 0 (valof x * 1024))"
    by simp_all
qed

lemma glm_not_nan:
  "\<not> is_nan a \<Longrightarrow> \<not> is_nan b \<Longrightarrow> \<not> is_nan (glm_max a b)"
  "\<not> is_nan a \<Longrightarrow> \<not> is_nan b \<Longrightarrow> \<not> is_nan (glm_min a b)"
  by (simp_all add: glm_max_def glm_min_def)

lemma morton_clamp_value:
  assumes "\<not> is_nan x"
  shows "\<not> is_nan (morton_clamp x)"
    "valof (morton_clamp x) = min 1023 (max 0 (valof x * 1024))"
proof -
  note m = fmul_1024 [OF assms]
  have g: "\<not> is_nan (glm_max (fmul x float_1024) plus_zero)"
    "valof (glm_max (fmul x float_1024) plus_zero) = max (valof (fmul x float_1024)) 0"
    using m(1) by (simp_all add: glm_not_nan glm_max_valof plus_zero_class)
  show "\<not> is_nan (morton_clamp x)"
    unfolding morton_clamp_def using g(1) by (simp add: glm_not_nan float_1023_class)
  have "valof (morton_clamp x) = min (max (valof (fmul x float_1024)) 0) 1023"
    unfolding morton_clamp_def using g by (simp add: glm_min_valof float_1023_class)
  then show "valof (morton_clamp x) = min 1023 (max 0 (valof x * 1024))"
    using m(2) by (simp add: min.commute max.commute)
qed

lemma float_to_uint32_clamp:
  assumes "\<not> is_nan x"
  shows "float_to_uint32 (morton_clamp x) = Some (word_of_nat (morton_coord (valof x)))"
    "morton_coord (valof x) < 1024"
proof -
  note c = morton_clamp_value [OF assms]
  let ?v = "min 1023 (max 0 (valof x * 1024))"
  have range: "0 \<le> ?v" "?v \<le> 1023" by simp_all
  have "(1023::real) < 2 ^ 128" by simp
  then have "\<bar>valof (morton_clamp x)\<bar> < 2 ^ 128"
    unfolding c(2) using range by linarith
  then have ni: "\<not> is_inf (morton_clamp x)"
    using abs_valof_inf [of "morton_clamp x"] by auto
  have fl: "0 \<le> \<lfloor>?v\<rfloor>" "\<lfloor>?v\<rfloor> \<le> 1023"
    using range by (simp_all add: floor_le_iff le_floor_iff)
  then have lt: "\<lfloor>?v\<rfloor> < 2 ^ 32" by simp
  show "morton_coord (valof x) < 1024"
    unfolding morton_coord_def using fl by linarith
  have "word_of_int \<lfloor>?v\<rfloor> = (word_of_nat (nat \<lfloor>?v\<rfloor>) :: 32 word)"
    using fl(1) by simp
  then show "float_to_uint32 (morton_clamp x) = Some (word_of_nat (morton_coord (valof x)))"
    unfolding float_to_uint32_def Let_def morton_coord_def c(2)
    using c(1) ni range(1) fl(1) lt by simp
qed

lemmas expand_eval = upt_rec expand_ok_def expandBits_def spread_bits_def bit_iff_odd

lemma expand_ok_0: "\<forall>v \<in> set [0..<128]. expand_ok v"
  by (simp add: expand_eval)

lemma expand_ok_1: "\<forall>v \<in> set [128..<256]. expand_ok v"
  by (simp add: expand_eval)

lemma expand_ok_2: "\<forall>v \<in> set [256..<384]. expand_ok v"
  by (simp add: expand_eval)

lemma expand_ok_3: "\<forall>v \<in> set [384..<512]. expand_ok v"
  by (simp add: expand_eval)

lemma expand_ok_4: "\<forall>v \<in> set [512..<640]. expand_ok v"
  by (simp add: expand_eval)

lemma expand_ok_5: "\<forall>v \<in> set [640..<768]. expand_ok v"
  by (simp add: expand_eval)

lemma expand_ok_6: "\<forall>v \<in> set [768..<896]. expand_ok v"
  by (simp add: expand_eval)

lemma expand_ok_7: "\<forall>v \<in> set [896..<1024]. expand_ok v"
  by (simp add: expand_eval)

lemma expandBits_spread:
  assumes "v < 1024"
  shows "expandBits (word_of_nat v) = word_of_nat (spread_bits v)"
proof -
  have "v \<in> set [0..<128] \<or> v \<in> set [128..<256] \<or> v \<in> set [256..<384]
      \<or> v \<in> set [384..<512] \<or> v \<in> set [512..<640] \<or> v \<in> set [640..<768]
      \<or> v \<in> set [768..<896] \<or> v \<in> set [896..<1024]"
    using assms by (simp only: set_upt atLeastLessThan_iff) arith
  then have "expand_ok v"
    using expand_ok_0 expand_ok_1 expand_ok_2 expand_ok_3 expand_ok_4 expand_ok_5
      expand_ok_6 expand_ok_7 by blast
  then show ?thesis by (simp add: expand_ok_def)
qed

lemma spread_bits_le: "spread_bits v \<le> 153391689"
proof -
  have "spread_bits v \<le> (\<Sum>i\<leftarrow>[0..<10]. 2 ^ (3 * i))"
    unfolding spread_bits_def by (rule sum_list_mono) simp
  also have "\<dots> = 153391689" by (simp add: upt_rec)
  finally show ?thesis .
qed

lemma morton_reference_less: "morton_reference rx ry rz < 2 ^ 30"
  using spread_bits_le [of "morton_coord rx"] spread_bits_le [of "morton_coord ry"]
    spread_bits_le [of "morton_coord rz"]
  by (simp add: morton_reference_def)

text \<open>
  C2 (as amended). For every input none of whose coordinates is a NaN, \<open>morton3D\<close>
  returns the reference Morton code of the values of its arguments: each coordinate
  scaled by 1024, clamped to \<open>[0, 1023]\<close> and truncated to an integer below 1024, each
  integer spread so that bit \<open>i\<close> lands at bit \<open>3 * i\<close>, and the three combined as
  \<open>x * 4 + y * 2 + z\<close>. The code is less than \<open>2^30\<close>, so the 32-bit result holds it
  without wrap-around. On every 10-bit integer the multiply-and-mask sequence of
  \<open>expandBits\<close> equals the spreading of the bits.
\<close>

theorem morton3D_reference:
  "(\<not> is_nan x \<and> \<not> is_nan y \<and> \<not> is_nan z \<longrightarrow>
      morton3D x y z = Some (word_of_nat (morton_reference (valof x) (valof y) (valof z)))
      \<and> morton_coord (valof x) < 1024 \<and> morton_coord (valof y) < 1024
      \<and> morton_coord (valof z) < 1024
      \<and> unat (word_of_nat (morton_reference (valof x) (valof y) (valof z)) :: 32 word)
           = morton_reference (valof x) (valof y) (valof z))
   \<and> morton_reference rx ry rz < 2 ^ 30
   \<and> (\<forall>v<1024. expandBits (word_of_nat v) = word_of_nat (spread_bits v))"
proof (intro conjI impI allI)
  assume "\<not> is_nan x \<and> \<not> is_nan y \<and> \<not> is_nan z"
  then have nn: "\<not> is_nan x" "\<not> is_nan y" "\<not> is_nan z" by simp_all
  note cx = float_to_uint32_clamp [OF nn(1)] and cy = float_to_uint32_clamp [OF nn(2)]
    and cz = float_to_uint32_clamp [OF nn(3)]
  show "morton_coord (valof x) < 1024" "morton_coord (valof y) < 1024"
    "morton_coord (valof z) < 1024"
    by (rule cx cy cz)+
  show "morton3D x y z = Some (word_of_nat (morton_reference (valof x) (valof y) (valof z)))"
    unfolding morton3D_def cx(1) cy(1) cz(1)
    by (simp add: expandBits_spread cx(2) cy(2) cz(2) morton_reference_def)
  have "morton_reference (valof x) (valof y) (valof z) < 2 ^ 32"
    using morton_reference_less [of "valof x" "valof y" "valof z"] by simp
  then show "unat (word_of_nat (morton_reference (valof x) (valof y) (valof z)) :: 32 word)
           = morton_reference (valof x) (valof y) (valof z)"
    by (simp add: unat_of_nat)
next
  show "morton_reference rx ry rz < 2 ^ 30" by (rule morton_reference_less)
next
  fix v :: nat assume "v < 1024"
  then show "expandBits (word_of_nat v) = word_of_nat (spread_bits v)"
    by (rule expandBits_spread)
qed

theorem morton3D_reference_witness:
  "\<not> is_nan 0x3F000000 \<and> \<not> is_nan 0x3E800000 \<and> \<not> is_nan float_one
   \<and> morton3D 0x3F000000 0x3E800000 float_one = Some 723817033
   \<and> (1023::nat) < 1024 \<and> expandBits 1023 = 0x9249249"
proof -
  have nn: "\<not> is_nan 0x3F000000 \<and> \<not> is_nan 0x3E800000 \<and> \<not> is_nan float_one"
    by (simp add: pattern_eval)
  have c: "morton_coord (valof 0x3F000000) = 512" "morton_coord (valof 0x3E800000) = 256"
    "morton_coord (valof float_one) = 1023"
    by (simp_all add: morton_coord_def pattern_eval)
  have s: "spread_bits 512 = 134217728" "spread_bits 256 = 16777216" "spread_bits 1023 = 153391689"
    by (simp_all add: spread_bits_def upt_rec bit_iff_odd)
  have r: "morton_reference (valof 0x3F000000) (valof 0x3E800000) (valof float_one) = 723817033"
    by (simp add: morton_reference_def c s)
  have v: "(1023::nat) < 1024" by simp
  from morton3D_reference [of "0x3F000000" "0x3E800000" float_one] nn v
  have "morton3D 0x3F000000 0x3E800000 float_one
          = Some (word_of_nat (morton_reference (valof 0x3F000000) (valof 0x3E800000) (valof float_one)))"
    "expandBits (word_of_nat 1023) = word_of_nat (spread_bits 1023)"
    by blast+
  then show ?thesis
    using nn by (simp add: r s)
qed

text \<open>
  C2 as stated fails for a NaN coordinate: \<open>std::max\<close> and \<open>std::min\<close> return the NaN,
  which is not clamped, and the conversion of a NaN to \<open>uint32_t\<close> has no defined result.
\<close>

theorem morton3D_nan_undefined:
  "is_nan quiet_nan \<and> is_nan (morton_clamp quiet_nan)
   \<and> float_to_uint32 (morton_clamp quiet_nan) = None
   \<and> morton3D quiet_nan plus_zero plus_zero = None"
proof -
  have n: "is_nan quiet_nan" by (rule quiet_nan_class)
  have c: "morton_clamp quiet_nan = quiet_nan"
    using n by (simp add: morton_clamp_def fmul_def glm_max_def glm_min_def flt_less_def)
  have "float_to_uint32 quiet_nan = None"
    using n by (simp add: float_to_uint32_def)
  then show ?thesis
    using n c by (simp add: morton3D_def)
qed

end
